theory Spec2Isabelle
  imports Complex_Main
begin

section \<open>Numbers, vectors and the scene-graph helpers\<close>

text \<open>
  The creature behaviour engine is the class \<open>Cloudfen\<close> of \<open>src/js/main.js\<close>.
  JavaScript numbers are modelled as exact reals (timestamps of \<open>Date.now()\<close> as
  integers of milliseconds, counters as naturals); rounding, infinities and NaN of
  IEEE doubles are outside the model. The vector operations are the ones the class
  calls on \<open>THREE.Vector3\<close>; \<open>normalize\<close> divides by \<open>length() || 1\<close>, so the
  zero vector stays the zero vector.
\<close>

record vec3 =
  vx :: real
  vy :: real
  vz :: real

definition Vector3 :: "real \<Rightarrow> real \<Rightarrow> real \<Rightarrow> vec3" where
  "Vector3 a b c = \<lparr>vx = a, vy = b, vz = c\<rparr>"

definition subVectors :: "vec3 \<Rightarrow> vec3 \<Rightarrow> vec3" where
  "subVectors a b = \<lparr>vx = vx a - vx b, vy = vy a - vy b, vz = vz a - vz b\<rparr>"

definition vadd :: "vec3 \<Rightarrow> vec3 \<Rightarrow> vec3" where
  "vadd a b = \<lparr>vx = vx a + vx b, vy = vy a + vy b, vz = vz a + vz b\<rparr>"

definition vsub :: "vec3 \<Rightarrow> vec3 \<Rightarrow> vec3" where
  "vsub a b = \<lparr>vx = vx a - vx b, vy = vy a - vy b, vz = vz a - vz b\<rparr>"

definition multiplyScalar :: "vec3 \<Rightarrow> real \<Rightarrow> vec3" where
  "multiplyScalar a s = \<lparr>vx = vx a * s, vy = vy a * s, vz = vz a * s\<rparr>"

definition vlength :: "vec3 \<Rightarrow> real" where
  "vlength a = sqrt (vx a * vx a + vy a * vy a + vz a * vz a)"

definition normalize :: "vec3 \<Rightarrow> vec3" where
  "normalize a = multiplyScalar a (1 / (if vlength a = 0 then 1 else vlength a))"

definition distanceTo :: "vec3 \<Rightarrow> vec3 \<Rightarrow> real" where
  "distanceTo a b = vlength (subVectors a b)"

definition lerp :: "real \<Rightarrow> real \<Rightarrow> real \<Rightarrow> real" where
  "lerp a b t = (1 - t) * a + t * b"

definition vlerp :: "vec3 \<Rightarrow> vec3 \<Rightarrow> real \<Rightarrow> vec3" where
  "vlerp a b t = \<lparr>vx = vx a + (vx b - vx a) * t, vy = vy a + (vy b - vy a) * t,
                  vz = vz a + (vz b - vz a) * t\<rparr>"

text \<open>\<open>Math.atan2(y, x)\<close>, by its quadrant cases.\<close>

definition atan2 :: "real \<Rightarrow> real \<Rightarrow> real" where
  "atan2 b a =
     (if 0 < a then arctan (b / a)
      else if a < 0 then (if 0 \<le> b then arctan (b / a) + pi else arctan (b / a) - pi)
      else if 0 < b then pi / 2
      else if b < 0 then - (pi / 2)
      else 0)"

section \<open>The data model\<close>

datatype cstate =
  IDLE | GRAZING | LOOKING | STRETCHING | RESTING | SLEEPING
  | SOCIAL | CURIOUS | PETTED | BLISS | CALLED | FLEEING

record personality =
  shyness :: real
  friendliness :: real
  curiosity :: real
  flightiness :: real
  laziness :: real
  sociability :: real

record weights =
  wander :: real
  graze :: real
  look :: real
  stretch :: real
  rest :: real
  social :: real

record mood =
  contentment :: real
  alertness :: real
  playfulness :: real

record ears =
  earLeft :: real
  earRight :: real

text \<open>The part of a \<open>THREE.Object3D\<close> that the class writes: \<open>mesh.position\<close>,
  \<open>mesh.rotation\<close> and \<open>mesh.scale\<close>.\<close>

record mesh3d =
  mposition :: vec3
  mrotation :: vec3
  mscale :: vec3

text \<open>
  The fields of a \<open>Cloudfen\<close>, in the constructor's order. \<open>mesh\<close> is \<open>null\<close>
  until \<open>init\<close> has run. \<open>socialTarget\<close> is a reference to another creature, kept as
  its index in \<open>game.cloudfens\<close>. Fields that no modelled method reads or writes
  (\<open>model\<close>, \<open>blissLevel\<close>, \<open>eyeOpenness\<close>, \<open>mixer\<close>, \<open>animations\<close>,
  \<open>currentAnimation\<close>, \<open>headHeight\<close>, \<open>lastVelocityY\<close>) are left out.
\<close>

record cloudfen =
  position :: vec3
  velocity :: vec3
  targetPosition :: "vec3 option"
  baseScale :: real
  state :: cstate
  stateTimer :: real
  previousState :: "cstate option"
  wanderSpeed :: real
  approachSpeed :: real
  fleeSpeed :: real
  idleTimer :: real
  nextWanderTime :: real
  homePosition :: vec3
  initialRotation :: real
  grazingTimer :: real
  grazeHeadBob :: real
  grazeDuration :: real
  tiredness :: real
  sleepTimer :: real
  isLyingDown :: bool
  lyingDownProgress :: real
  lookTarget :: "vec3 option"
  lookTimer :: real
  headTilt :: real
  earWiggle :: real
  socialTarget :: "nat option"
  socialTimer :: real
  lastSocialTime :: int
  stretchProgress :: real
  stretchType :: int
  mesh :: "mesh3d option"
  modelYOffset :: real
  bobPhase :: real
  happiness :: real
  isPetted :: bool
  petDuration :: real
  lastStrokeTime :: int
  isHovered :: bool
  hoverTime :: real
  playerAwareness :: real
  fleeThreshold :: real
  comfortDistance :: real
  targetEyeOpenness :: real
  personality :: personality
  behaviorWeights :: weights
  attentionTarget :: "vec3 option"
  attentionStrength :: real
  lastAttentionShift :: int
  earTwitchTimer :: real
  tailWagTimer :: real
  headShakeTimer :: real
  pawGroundTimer :: real
  sniffTimer :: real
  lastPlayerPosition :: "vec3 option"
  lastSeenPlayerTime :: int
  favoriteSpot :: "vec3 option"
  timesBeenPetted :: nat
  mood :: mood
  vocalizationTimer :: real
  isVocalizing :: bool
  earRotation :: ears
  tailPosition :: real
  headShakeActive :: bool
  headShakeProgress :: real
  pawingGround :: bool
  pawProgress :: real
  isSniffing :: bool
  sniffProgress :: real
  squashStretch :: vec3
  targetSquash :: vec3
  woolBounce :: real
  woolBounceVel :: real
  breathPhase :: real
  breathRate :: real
  impactSquash :: real
  contentWobble :: real
  lastSpeed :: real
  petWiggle :: real
  petWiggleTarget :: real

text \<open>
  The callbacks the class hands to \<open>setTimeout\<close>, each with the creature (its index)
  and the values its closure captured. A pending timer is a delay in milliseconds and
  a callback.
\<close>

datatype callback =
  EndPettingIdle nat
  | CalledResponse nat vec3 vec3
  | BlinkRestore nat real
  | HeadShakeOff nat
  | PawOff nat
  | SniffOff nat
  | VocalOff nat
  | RespondVocalize nat

type_synonym timer = "real \<times> callback"

text \<open>The collaborators reached through \<open>this.game\<close>.\<close>

record rockCollision =
  normalX :: real
  normalZ :: real
  overlap :: real

record scene =
  getGroundHeight :: "real \<Rightarrow> real \<Rightarrow> real"
  checkRockCollision :: "(real \<Rightarrow> real \<Rightarrow> real \<Rightarrow> rockCollision option) option"

record mossBall =
  ballMesh :: bool
  ballPosition :: vec3
  ballVelocity :: vec3
  radius :: real
  pushMultiplier :: real
  isGrounded :: bool

text \<open>
  The world: \<open>game.cloudfens\<close>, \<open>game.mossBalls\<close>, the velocity
  \<open>game.player?.velocity\<close> (\<open>None\<close> when the player or its velocity is missing),
  the optional collaborators (\<open>effects\<close> and \<open>audio\<close> only by their presence: their
  methods draw particles and play sounds), the timers that are pending, and the values
  that the successive calls of \<open>Math.random()\<close> return, with the number of calls so far.
\<close>

record game =
  cloudfens :: "cloudfen list"
  mossBalls :: "mossBall list option"
  player :: "vec3 option"
  gameScene :: "scene option"
  effects :: bool
  audio :: bool
  timers :: "timer list"
  rand :: "nat \<Rightarrow> real"
  rcur :: nat

text \<open>
  A method call in progress: \<open>this\<close>, extended with its index in \<open>game.cloudfens\<close>,
  the number of \<open>Math.random()\<close> calls so far, the timers the call has registered, the
  creature whose \<open>socialTarget\<close> and state the call has set from outside (\<open>poke\<close>),
  and the moss balls as the call has pushed them.
\<close>

record frame = cloudfen +
  selfIx :: nat
  rix :: nat
  pend :: "timer list"
  poke :: "nat option"
  balls :: "mossBall list"

datatype error = TypeError

definition random :: "game \<Rightarrow> frame \<Rightarrow> real" where
  "random g f = rand g (rix f)"

definition tick :: "frame \<Rightarrow> frame" where
  "tick f = f\<lparr>rix := Suc (rix f)\<rparr>"

definition setTimeout :: "callback \<Rightarrow> real \<Rightarrow> frame \<Rightarrow> frame" where
  "setTimeout cb delay f = f\<lparr>pend := pend f @ [(delay, cb)]\<rparr>"

definition enter :: "game \<Rightarrow> nat \<Rightarrow> frame" where
  "enter g i = cloudfen.extend (cloudfens g ! i)
     \<lparr>selfIx = i, rix = rcur g, pend = [], poke = None,
      balls = (case mossBalls g of None \<Rightarrow> [] | Some bs \<Rightarrow> bs)\<rparr>"

section \<open>The state machine's primitives\<close>

definition setState :: "cstate \<Rightarrow> 'a cloudfen_scheme \<Rightarrow> 'a cloudfen_scheme" where
  "setState newState c =
     (if state c = newState then c
      else c\<lparr>previousState := Some (state c), state := newState, stateTimer := 0\<rparr>)"

definition standUp :: "'a cloudfen_scheme \<Rightarrow> 'a cloudfen_scheme" where
  "standUp c = c\<lparr>isLyingDown := False, lyingDownProgress := 0, targetEyeOpenness := 1\<rparr>"

text \<open>
  Leaving a call writes \<open>this\<close> back, then applies what \<open>_updateSocial\<close> did to its
  partner (\<open>socialTarget.socialTarget = this; socialTarget.setState(SOCIAL)\<close>).
\<close>

definition leave :: "game \<Rightarrow> frame \<Rightarrow> game" where
  "leave g f =
     (let cs = (cloudfens g)[selfIx f := cloudfen.truncate f];
          cs' = (case poke f of
                   None \<Rightarrow> cs
                 | Some j \<Rightarrow>
                     if j < length cs
                     then cs[j := setState SOCIAL ((cs ! j)\<lparr>socialTarget := Some (selfIx f)\<rparr>)]
                     else cs)
      in g\<lparr>cloudfens := cs', rcur := rix f, timers := timers g @ pend f,
           mossBalls := (case mossBalls g of None \<Rightarrow> None | Some _ \<Rightarrow> Some (balls f))\<rparr>)"

section \<open>Interaction handlers\<close>

definition onHoverStart :: "frame \<Rightarrow> frame" where
  "onHoverStart f =
     (if state f = BLISS \<or> state f = FLEEING then f
      else f\<lparr>isHovered := True, hoverTime := 0\<rparr>)"

definition onHoverEnd :: "frame \<Rightarrow> frame" where
  "onHoverEnd f = f\<lparr>isHovered := False, hoverTime := 0\<rparr>"

text \<open>
  \<open>onStroke\<close>, \<open>endPetting\<close> and \<open>startPetting\<close> read \<open>this.mesh.position\<close> on
  their way to \<open>game.effects\<close>: with \<open>mesh\<close> still \<open>null\<close> that read raises a
  TypeError. \<open>game.effects && Math.random() < 0.2\<close> calls \<open>Math.random()\<close> only
  when \<open>game.effects\<close> is there.
\<close>

definition onStroke :: "game \<Rightarrow> int \<Rightarrow> real \<Rightarrow> real \<Rightarrow> real \<Rightarrow> frame \<Rightarrow> error + frame" where
  "onStroke g now dx dy speed f =
     (if \<not> isPetted f then Inr f
      else
        let strokeBonus = min (speed * 0.02) 0.15 * friendliness (personality f);
            f1 = f\<lparr>lastStrokeTime := now,
                   happiness := min 1 (happiness f + strokeBonus),
                   woolBounceVel := woolBounceVel f + speed * 0.15,
                   impactSquash := min 0.1 (speed * 0.02),
                   petWiggleTarget := petWiggleTarget f + dx * 0.003,
                   velocity := (velocity f)\<lparr>vx := vx (velocity f) + dx * 0.02,
                                              vz := vz (velocity f) + dy * 0.02\<rparr>\<rparr>
        in if effects g then
             (let r = random g f1; f2 = tick f1 in
              if r < 0.2 then (case mesh f2 of None \<Rightarrow> Inl TypeError | Some m \<Rightarrow> Inr f2)
              else Inr f2)
           else Inr f1)"

definition endPetting :: "game \<Rightarrow> real \<Rightarrow> frame \<Rightarrow> error + frame" where
  "endPetting g duration f =
     (let f1 = f\<lparr>isPetted := False, petDuration := duration\<rparr> in
      if state f1 = BLISS then Inr (f1\<lparr>stateTimer := 0\<rparr>)
      else if state f1 = PETTED then
        (let heartCount = min \<lfloor>duration * 2\<rfloor> 5 in
         if effects g \<and> heartCount > 0 \<and> mesh f1 = None then Inl TypeError
         else Inr (setTimeout (EndPettingIdle (selfIx f1)) 1000 f1))
      else Inr f1)"

definition onCalled :: "vec3 \<Rightarrow> frame \<Rightarrow> frame" where
  "onCalled sourcePosition f =
     (if state f = BLISS \<or> state f = FLEEING then f
      else
        let f1 = (if state f = SLEEPING \<or> state f = RESTING then standUp f else f);
            dir = subVectors sourcePosition (position f1);
            distance = vlength dir;
            delay = min (distance * 80) 400
        in setTimeout (CalledResponse (selfIx f1) sourcePosition dir) delay f1)"

definition startPetting :: "game \<Rightarrow> int \<Rightarrow> frame \<Rightarrow> error + frame" where
  "startPetting g now f =
     (let f1 = f\<lparr>isPetted := True, petDuration := 0, lastStrokeTime := now,
                  timesBeenPetted := Suc (timesBeenPetted f)\<rparr>;
          f2 = (if state f1 \<noteq> BLISS then setState PETTED f1 else f1)
      in if effects g \<and> mesh f2 = None then Inl TypeError
         else
           let f3 = (if audio g then tick f2 else f2)
           in Inr (f3\<lparr>mood := (mood f3)
                     \<lparr>contentment := min 1 (contentment (mood f3) + 0.2),
                      playfulness := min 1 (playfulness (mood f3) + 0.1)\<rparr>\<rparr>))"

section \<open>Deferred callbacks\<close>

definition doRespondVocalize :: "frame \<Rightarrow> frame" where
  "doRespondVocalize f =
     (if state f \<noteq> SLEEPING
      then setTimeout (VocalOff (selfIx f)) 400 (f\<lparr>isVocalizing := True\<rparr>)
      else f)"

text \<open>The creature a callback belongs to, and the callback's body run on it.\<close>

fun target :: "callback \<Rightarrow> nat" where
  "target (EndPettingIdle i) = i"
| "target (CalledResponse i src dir) = i"
| "target (BlinkRestore i e) = i"
| "target (HeadShakeOff i) = i"
| "target (PawOff i) = i"
| "target (SniffOff i) = i"
| "target (VocalOff i) = i"
| "target (RespondVocalize i) = i"

fun runCallback :: "game \<Rightarrow> callback \<Rightarrow> frame \<Rightarrow> frame" where
  "runCallback g (EndPettingIdle i) f = (if state f = PETTED then setState IDLE f else f)"
| "runCallback g (CalledResponse i sourcePosition dir) f =
     (let r = random g f; f1 = tick f in
      if r > shyness (personality f1) * 0.5 then
        (let f2 = setState CALLED f1;
             approachDir = normalize dir
         in f2\<lparr>targetPosition :=
                  Some (vsub (sourcePosition\<lparr>vy := 0\<rparr>)
                             (multiplyScalar approachDir (comfortDistance f2)))\<rparr>)
      else setState CURIOUS f1)"
| "runCallback g (BlinkRestore i originalEye) f = f\<lparr>targetEyeOpenness := originalEye\<rparr>"
| "runCallback g (HeadShakeOff i) f = f\<lparr>headShakeActive := False\<rparr>"
| "runCallback g (PawOff i) f = f\<lparr>pawingGround := False\<rparr>"
| "runCallback g (SniffOff i) f = f\<lparr>isSniffing := False\<rparr>"
| "runCallback g (VocalOff i) f = f\<lparr>isVocalizing := False\<rparr>"
| "runCallback g (RespondVocalize i) f = doRespondVocalize f"

section \<open>Looking for the nearest creature\<close>

text \<open>
  The loop of \<open>_findNearestSheep\<close> over \<open>game.cloudfens\<close>, each creature with its
  index; \<open>acc\<close> is \<open>nearest\<close> with \<open>nearestDist\<close>, \<open>None\<close> for \<open>null\<close> with
  \<open>Infinity\<close>.
\<close>

fun findNearestLoop ::
  "nat \<Rightarrow> vec3 \<Rightarrow> (nat \<times> cloudfen) list \<Rightarrow> (nat \<times> real) option \<Rightarrow> (nat \<times> real) option" where
  "findNearestLoop this pos [] acc = acc"
| "findNearestLoop this pos ((j, other) # others) acc =
     (if j = this then findNearestLoop this pos others acc
      else if state other = SLEEPING \<or> state other = FLEEING \<or>
              state other = PETTED \<or> state other = BLISS
      then findNearestLoop this pos others acc
      else
        let dx = vx (position other) - vx pos;
            dz = vz (position other) - vz pos;
            dist = sqrt (dx * dx + dz * dz)
        in if (case acc of None \<Rightarrow> True | Some (n, nearestDist) \<Rightarrow> dist < nearestDist)
           then findNearestLoop this pos others (Some (j, dist))
           else findNearestLoop this pos others acc)"

definition findNearestSheep :: "game \<Rightarrow> frame \<Rightarrow> (nat \<times> real) option" where
  "findNearestSheep g f =
     findNearestLoop (selfIx f) (position f) (enumerate 0 (cloudfens g)) None"

section \<open>Micro-behaviours\<close>

definition doBlink :: "frame \<Rightarrow> frame" where
  "doBlink f =
     setTimeout (BlinkRestore (selfIx f) (targetEyeOpenness f)) 100 (f\<lparr>targetEyeOpenness := 0\<rparr>)"

definition doEarTwitch :: "game \<Rightarrow> frame \<Rightarrow> frame" where
  "doEarTwitch g f =
     (let which = random g f; f1 = tick f; r = random g f1; f2 = tick f1 in
      if which < 0.4 then f2\<lparr>earRotation := (earRotation f2)\<lparr>earLeft := (r - 0.5) * 0.3\<rparr>\<rparr>
      else if which < 0.8 then f2\<lparr>earRotation := (earRotation f2)\<lparr>earRight := (r - 0.5) * 0.3\<rparr>\<rparr>
      else f2\<lparr>earRotation := \<lparr>earLeft = (r - 0.5) * 0.2, earRight = (r - 0.5) * 0.2\<rparr>\<rparr>)"

definition doTailWag :: "game \<Rightarrow> frame \<Rightarrow> frame" where
  "doTailWag g f =
     (let r = random g f; f1 = tick f in
      if happiness f1 > 0.4 \<or> contentment (mood f1) > 0.6
      then f1\<lparr>tailPosition := 0.3 + r * 0.3\<rparr>
      else f1\<lparr>tailPosition := r * 0.2\<rparr>)"

definition doHeadShake :: "frame \<Rightarrow> frame" where
  "doHeadShake f =
     setTimeout (HeadShakeOff (selfIx f)) 400 (f\<lparr>headShakeActive := True, headShakeProgress := 0\<rparr>)"

definition doPawGround :: "frame \<Rightarrow> frame" where
  "doPawGround f =
     setTimeout (PawOff (selfIx f)) 600 (f\<lparr>pawingGround := True, pawProgress := 0\<rparr>)"

definition doSniff :: "frame \<Rightarrow> frame" where
  "doSniff f =
     setTimeout (SniffOff (selfIx f)) 800 (f\<lparr>isSniffing := True, sniffProgress := 0\<rparr>)"

definition doVocalize :: "game \<Rightarrow> frame \<Rightarrow> frame" where
  "doVocalize g f =
     (let f1 = setTimeout (VocalOff (selfIx f)) 500 (f\<lparr>isVocalizing := True\<rparr>);
          r = random g f1; f2 = tick f1
      in if r < 0.3 then
           (case findNearestSheep g f2 of
              None \<Rightarrow> f2
            | Some (j, distance) \<Rightarrow>
                if distance < 10 then
                  (let r2 = random g f2; f3 = tick f2
                   in setTimeout (RespondVocalize j) (300 + r2 * 500) f3)
                else f2)
         else f2)"

definition earTwitchStep :: "game \<Rightarrow> real \<Rightarrow> frame \<Rightarrow> frame" where
  "earTwitchStep g dt f =
     (let f1 = f\<lparr>earTwitchTimer := earTwitchTimer f - dt\<rparr>
      in if earTwitchTimer f1 \<le> 0 then
           (let a = doEarTwitch g f1 in (tick a)\<lparr>earTwitchTimer := 2 + random g a * 5\<rparr>)
         else f1)"

definition tailWagStep :: "game \<Rightarrow> real \<Rightarrow> frame \<Rightarrow> frame" where
  "tailWagStep g dt f =
     (let f1 = f\<lparr>tailWagTimer := tailWagTimer f - dt\<rparr>
      in if tailWagTimer f1 \<le> 0 then
           (let a = doTailWag g f1 in (tick a)\<lparr>tailWagTimer := 3 + random g a * 8\<rparr>)
         else f1)"

definition headShakeStep :: "game \<Rightarrow> real \<Rightarrow> frame \<Rightarrow> frame" where
  "headShakeStep g dt f =
     (let f1 = f\<lparr>headShakeTimer := headShakeTimer f - dt\<rparr>
      in if headShakeTimer f1 \<le> 0 \<and> state f1 \<noteq> SLEEPING then
           (let a = doHeadShake f1 in (tick a)\<lparr>headShakeTimer := 10 + random g a * 20\<rparr>)
         else f1)"

definition pawGroundStep :: "game \<Rightarrow> real \<Rightarrow> frame \<Rightarrow> frame" where
  "pawGroundStep g dt f =
     (let f1 = f\<lparr>pawGroundTimer := pawGroundTimer f - dt\<rparr>
      in if pawGroundTimer f1 \<le> 0 \<and> (state f1 = IDLE \<or> state f1 = CURIOUS) then
           (let a = doPawGround f1 in (tick a)\<lparr>pawGroundTimer := 12 + random g a * 25\<rparr>)
         else f1)"

definition sniffStep :: "game \<Rightarrow> real \<Rightarrow> frame \<Rightarrow> frame" where
  "sniffStep g dt f =
     (let f1 = f\<lparr>sniffTimer := sniffTimer f - dt\<rparr>
      in if sniffTimer f1 \<le> 0 \<and> state f1 \<noteq> SLEEPING then
           (let a = doSniff f1 in (tick a)\<lparr>sniffTimer := 5 + random g a * 10\<rparr>)
         else f1)"

definition vocalizeStep :: "game \<Rightarrow> real \<Rightarrow> frame \<Rightarrow> frame" where
  "vocalizeStep g dt f =
     (let f1 = f\<lparr>vocalizationTimer := vocalizationTimer f - dt\<rparr>
      in if vocalizationTimer f1 \<le> 0 then
           (let a = doVocalize g f1;
                baseInterval = (if happiness a > 0.3 then 15 else 25)
            in (tick a)\<lparr>vocalizationTimer := baseInterval + random g a * 20\<rparr>)
         else f1)"

text \<open>\<open>_updateMicroBehaviors\<close>: the six timers in the source's order, then the decay of
  the ears and the tail.\<close>

definition updateMicroBehaviors :: "game \<Rightarrow> real \<Rightarrow> frame \<Rightarrow> frame" where
  "updateMicroBehaviors g dt f =
     (let f12 = vocalizeStep g dt (sniffStep g dt (pawGroundStep g dt
                  (headShakeStep g dt (tailWagStep g dt (earTwitchStep g dt f)))))
      in f12\<lparr>earRotation := \<lparr>earLeft = earLeft (earRotation f12) * 0.95,
                              earRight = earRight (earRotation f12) * 0.95\<rparr>,
             tailPosition := tailPosition f12 * 0.93\<rparr>)"

section \<open>Mood, attention and player awareness\<close>

definition updateMood :: "real \<Rightarrow> vec3 option \<Rightarrow> frame \<Rightarrow> frame" where
  "updateMood dt playerPosition f =
     (let c1 = (if state f = RESTING \<or> state f = SLEEPING
                then min 1 (contentment (mood f) + dt * 0.02) else contentment (mood f));
          c2 = (if happiness f > 0.5 then min 1 (c1 + dt * 0.05) else c1);
          c3 = (if state f = FLEEING then max 0 (c2 - dt * 0.1) else c2);
          c4 = c3 + (0.5 - c3) * dt * 0.01;
          a1 = (case playerPosition of
                  None \<Rightarrow> alertness (mood f)
                | Some p \<Rightarrow>
                    if distanceTo (position f) p < 5
                    then min 1 (alertness (mood f) + dt * 0.1)
                    else max 0.2 (alertness (mood f) - dt * 0.05));
          p1 = (if timesBeenPetted f > 2
                then min 0.8 (playfulness (mood f) + dt * 0.01) else playfulness (mood f));
          p2 = (if tiredness f > 0.6 then max 0 (p1 - dt * 0.02) else p1)
      in f\<lparr>mood := \<lparr>contentment = c4, alertness = a1, playfulness = p2\<rparr>\<rparr>)"

definition shiftAttention :: "game \<Rightarrow> vec3 option \<Rightarrow> frame \<Rightarrow> frame" where
  "shiftAttention g playerPosition f =
     (let roll = random g f; f1 = tick f in
      if isHovered f1 \<or> (playerAwareness f1 > 0.5 \<and> roll < 0.4)
      then f1\<lparr>attentionTarget := playerPosition, attentionStrength := 0.8\<rparr>
      else if roll < 0.6 then
        (case findNearestSheep g f1 of
           None \<Rightarrow> f1
         | Some (j, distance) \<Rightarrow>
             f1\<lparr>attentionTarget := Some (position (cloudfens g ! j)), attentionStrength := 0.5\<rparr>)
      else if roll < 0.8 then
        (let angle = random g f1 * pi * 2; f2 = tick f1
         in f2\<lparr>attentionTarget :=
                  Some (vadd (position f2) (Vector3 (cos angle * 5) 0 (sin angle * 5))),
                attentionStrength := 0.3\<rparr>)
      else f1\<lparr>attentionTarget := None, attentionStrength := 0\<rparr>)"

definition updateAttention :: "game \<Rightarrow> int \<Rightarrow> real \<Rightarrow> vec3 option \<Rightarrow> frame \<Rightarrow> frame" where
  "updateAttention g now dt playerPosition f =
     (let f1 = f\<lparr>attentionStrength := max 0 (attentionStrength f - dt * 0.3)\<rparr>;
          r = random g f1; f2 = tick f1;
          f3 = (if real_of_int (now - lastAttentionShift f2) > 3000 + r * 4000
                then (shiftAttention g playerPosition f2)\<lparr>lastAttentionShift := now\<rparr>
                else f2);
          f4 = (case playerPosition of
                  None \<Rightarrow> f3
                | Some p \<Rightarrow>
                    if distanceTo (position f3) p < 10
                    then f3\<lparr>lastPlayerPosition := Some p, lastSeenPlayerTime := now\<rparr>
                    else f3)
      in if state f4 = RESTING \<or> state f4 = SLEEPING then
           (case favoriteSpot f4 of
              None \<Rightarrow> f4\<lparr>favoriteSpot := Some (position f4)\<rparr>
            | Some spot \<Rightarrow> f4\<lparr>favoriteSpot := Some (vlerp spot (position f4) 0.01)\<rparr>)
         else f4)"

definition shouldFlee :: "game \<Rightarrow> vec3 \<Rightarrow> frame \<Rightarrow> bool" where
  "shouldFlee g p f =
     (let toPlayer = (subVectors p (position f))\<lparr>vy := 0\<rparr>;
          distance = vlength toPlayer;
          playerSpeed = (case player g of
                           None \<Rightarrow> 0
                         | Some v \<Rightarrow> sqrt ((vx v)\<^sup>2 + (vz v)\<^sup>2));
          isPlayerRunning = (playerSpeed > 3);
          canFlee = (state f \<noteq> PETTED \<and> state f \<noteq> BLISS \<and> state f \<noteq> SLEEPING)
      in distance < fleeThreshold f \<and> isPlayerRunning \<and> canFlee)"

definition startle :: "game \<Rightarrow> vec3 \<Rightarrow> frame \<Rightarrow> frame" where
  "startle g p f =
     (let toPlayer = (subVectors p (position f))\<lparr>vy := 0\<rparr>;
          f1 = (if state f = RESTING then standUp f else f);
          r = random g f1; f2 = tick f1
      in if r < flightiness (personality f2) then
           (let f3 = setState FLEEING f2;
                fleeDir = multiplyScalar (normalize toPlayer) (- 1);
                r2 = random g f3
            in (tick f3)\<lparr>targetPosition :=
                  Some (vadd (position f3) (multiplyScalar fleeDir (8 + r2 * 5)))\<rparr>)
         else f2)"

definition updatePlayerAwareness :: "game \<Rightarrow> real \<Rightarrow> vec3 option \<Rightarrow> frame \<Rightarrow> frame" where
  "updatePlayerAwareness g dt playerPosition f =
     (case playerPosition of
        None \<Rightarrow> f
      | Some p \<Rightarrow>
          let toPlayer = (subVectors p (position f))\<lparr>vy := 0\<rparr>;
              distance = vlength toPlayer;
              f4 = (if shouldFlee g p f then startle g p f else f)
          in if distance < 8
             then f4\<lparr>playerAwareness := min 1 (playerAwareness f4 + dt * 0.5)\<rparr>
             else f4\<lparr>playerAwareness := max 0 (playerAwareness f4 - dt * 0.2)\<rparr>)"

section \<open>Choosing what to do next\<close>

definition blinkChance :: "game \<Rightarrow> real \<Rightarrow> frame \<Rightarrow> frame" where
  "blinkChance g p f = (let r = random g f; f1 = tick f in if r < p then doBlink f1 else f1)"

definition pickLookTarget :: "game \<Rightarrow> vec3 option \<Rightarrow> frame \<Rightarrow> frame" where
  "pickLookTarget g playerPosition f =
     (let roll = random g f; f1 = tick f;
          f3 = (if playerPosition \<noteq> None \<and> roll < 0.3 \<and> playerAwareness f1 > 0.2
                then f1\<lparr>lookTarget := playerPosition\<rparr>
                else if roll < 0.6 then
                  (case findNearestSheep g f1 of
                     None \<Rightarrow> f1\<lparr>lookTarget := None\<rparr>
                   | Some (j, distance) \<Rightarrow> f1\<lparr>lookTarget := Some (position (cloudfens g ! j))\<rparr>)
                else
                  (let angle = random g f1 * pi * 2; f2 = tick f1
                   in f2\<lparr>lookTarget :=
                        Some (vadd (position f2) (Vector3 (cos angle * 5) 0 (sin angle * 5)))\<rparr>))
      in (tick f3)\<lparr>lookTimer := 2 + random g f3 * 3\<rparr>)"

definition chooseWanderTarget :: "game \<Rightarrow> frame \<Rightarrow> frame" where
  "chooseWanderTarget g f =
     (let roll = random g f; f1 = tick f;
          near = (if roll < 0.3 \<and> sociability (personality f1) > 0.4 then
                    (case findNearestSheep g f1 of
                       None \<Rightarrow> None
                     | Some (j, distance) \<Rightarrow>
                         if distance > 4 \<and> distance < 15 then Some j else None)
                  else None)
      in case near of
           Some j \<Rightarrow>
             (let dir = normalize (subVectors (position (cloudfens g ! j)) (position f1));
                  r = random g f1
              in (tick f1)\<lparr>targetPosition :=
                    Some (vadd (position f1) (multiplyScalar dir (2 + r * 2)))\<rparr>)
         | None \<Rightarrow>
             if roll < 0.5 \<and> distanceTo (position f1) (homePosition f1) > 8 then
               (let dir = normalize (subVectors (homePosition f1) (position f1));
                    r = random g f1
                in (tick f1)\<lparr>targetPosition :=
                      Some (vadd (position f1) (multiplyScalar dir (3 + r * 3)))\<rparr>)
             else if roll < 0.75 \<and> curiosity (personality f1) > 0.3 then
               (let angle = random g f1 * pi * 2; f2 = tick f1;
                    distance = 3 + random g f2 * 6; f3 = tick f2
                in f3\<lparr>targetPosition :=
                      Some (Vector3 (vx (position f3) + cos angle * distance) 0
                                    (vz (position f3) + sin angle * distance))\<rparr>)
             else
               (let wanderRadius = 8;
                    angle = random g f1 * pi * 2; f2 = tick f1;
                    distance = 2 + random g f2 * wanderRadius; f3 = tick f2
                in f3\<lparr>targetPosition :=
                      Some (Vector3 (vx (homePosition f3) + cos angle * distance) 0
                                    (vz (homePosition f3) + sin angle * distance))\<rparr>))"

definition gotoFavorite :: "frame \<Rightarrow> frame" where
  "gotoFavorite f =
     (case favoriteSpot f of
        None \<Rightarrow> f
      | Some spot \<Rightarrow>
          if distanceTo (position f) spot > 3 then f\<lparr>targetPosition := Some spot\<rparr> else f)"

text \<open>
  In \<open>a && Math.random() < p\<close> the call of \<open>Math.random()\<close> happens only when \<open>a\<close>
  holds; the model advances the count of calls in just that case.
\<close>

record modifiers =
  grazeMod :: real
  socialMod :: real
  lookMod :: real
  restMod :: real

definition moodModifiers :: "frame \<Rightarrow> modifiers" where
  "moodModifiers f =
     \<lparr>grazeMod = 1 + (contentment (mood f) - 0.5) * 0.3,
      socialMod = 1 + playfulness (mood f) * 0.5,
      lookMod = 1 + alertness (mood f) * 0.4,
      restMod = 1 + (1 - playfulness (mood f)) * 0.3\<rparr>"

definition playerNearby :: "vec3 option \<Rightarrow> frame \<Rightarrow> bool" where
  "playerNearby playerPosition f =
     (case playerPosition of None \<Rightarrow> False | Some p \<Rightarrow> distanceTo (position f) p < 8)"

definition grazeWeight :: "vec3 option \<Rightarrow> frame \<Rightarrow> real" where
  "grazeWeight playerPosition f =
     (let gw = graze (behaviorWeights f) * grazeMod (moodModifiers f)
      in if playerNearby playerPosition f then gw * 0.5 else gw)"

definition lookWeight :: "vec3 option \<Rightarrow> frame \<Rightarrow> real" where
  "lookWeight playerPosition f =
     (let lw = look (behaviorWeights f) * lookMod (moodModifiers f)
      in if playerNearby playerPosition f then lw * 1.5 else lw)"

definition stretchWeight :: "frame \<Rightarrow> real" where
  "stretchWeight f =
     (let sw = stretch (behaviorWeights f)
      in if previousState f = Some RESTING \<or> previousState f = Some SLEEPING
         then sw * 3 else sw)"

text \<open>The cumulative thresholds of \<open>_chooseNextBehavior\<close> after the social one, with
  \<open>cumulative\<close> as the social branch left it.\<close>

definition chooseByRoll :: "game \<Rightarrow> vec3 option \<Rightarrow> real \<Rightarrow> real \<Rightarrow> frame \<Rightarrow> frame" where
  "chooseByRoll g playerPosition roll cumulative1 f =
     (let cumulative2 = cumulative1 + grazeWeight playerPosition f
      in if roll < cumulative2
         then setState GRAZING ((tick f)\<lparr>grazeDuration := 3 + random g f * 5\<rparr>)
         else
           let cumulative3 = cumulative2 + lookWeight playerPosition f
           in if roll < cumulative3
              then setState LOOKING (pickLookTarget g playerPosition f)
              else
                let cumulative4 = cumulative3 + stretchWeight f
                in if roll < cumulative4
                   then setState STRETCHING
                          ((tick f)\<lparr>stretchType := \<lfloor>random g f * 3\<rfloor>, stretchProgress := 0\<rparr>)
                   else
                     let cumulative5 =
                           cumulative4 + rest (behaviorWeights f) * restMod (moodModifiers f)
                     in if roll < cumulative5 \<and> tiredness f > 0.3
                        then setState RESTING (gotoFavorite f)
                        else chooseWanderTarget g f)"

definition chooseNextBehavior :: "game \<Rightarrow> int \<Rightarrow> vec3 option \<Rightarrow> frame \<Rightarrow> frame" where
  "chooseNextBehavior g now playerPosition f =
     (let tired = (tiredness f > 0.7);
          r0 = random g f;
          f1 = (if tired then tick f else f)
      in if tired \<and> r0 < tiredness f then setState RESTING (gotoFavorite f1)
         else
           let roll = random g f1; f2 = tick f1;
               nearestSheep = findNearestSheep g f2;
               asked = (case nearestSheep of
                          None \<Rightarrow> False
                        | Some (j, distance) \<Rightarrow>
                            distance < 6 \<and> now - lastSocialTime f2 > 10000);
               r1 = random g f2;
               f3 = (if asked then tick f2 else f2);
               sociable = (asked \<and>
                           r1 < sociability (personality f3) * socialMod (moodModifiers f3));
               cumulative1 = (if sociable
                              then social (behaviorWeights f3) * socialMod (moodModifiers f3)
                              else 0)
           in if sociable \<and> roll < cumulative1
              then setState SOCIAL (f3\<lparr>socialTarget := map_option fst nearestSheep\<rparr>)
              else chooseByRoll g playerPosition roll cumulative1 f3)"

section \<open>The per-state update routines\<close>

definition idleMove :: "game \<Rightarrow> vec3 option \<Rightarrow> frame \<Rightarrow> frame" where
  "idleMove g playerPosition f =
     (case targetPosition f of
        Some tp \<Rightarrow>
          (let dir = (subVectors tp (position f))\<lparr>vy := 0\<rparr>;
               dist = vlength dir
           in if dist > 0.3 then
                (let d = normalize dir;
                     speedMod = 0.9 + playfulness (mood f) * 0.2
                 in blinkChance g 0.003
                      (f\<lparr>velocity := (velocity f)\<lparr>vx := vx d * wanderSpeed f * speedMod,
                                                   vz := vz d * wanderSpeed f * speedMod\<rparr>\<rparr>))
              else
                (let f1 = f\<lparr>targetPosition := None,
                             velocity := multiplyScalar (velocity f) 0.8\<rparr>;
                     r = random g f1; f2 = tick f1
                 in if r < 0.3 then setState LOOKING (pickLookTarget g playerPosition f2)
                    else blinkChance g 0.003 f2))
      | None \<Rightarrow>
          (let f1 = f\<lparr>velocity := multiplyScalar (velocity f) 0.9\<rparr>;
               r = random g f1; f2 = tick f1;
               f3 = (if r < 0.005
                     then (tick f2)\<lparr>velocity := (velocity f2)
                             \<lparr>vx := vx (velocity f2) + (random g f2 - 0.5) * 0.1\<rparr>\<rparr>
                     else f2)
           in blinkChance g 0.003 f3))"

definition updateIdle :: "game \<Rightarrow> int \<Rightarrow> real \<Rightarrow> vec3 option \<Rightarrow> frame \<Rightarrow> frame" where
  "updateIdle g now dt playerPosition f =
     (let f1 = f\<lparr>idleTimer := idleTimer f + dt, targetEyeOpenness := 1\<rparr>
      in if isHovered f1 \<and> hoverTime f1 > 1.5 \<and> playerAwareness f1 > 0.3
         then setState CURIOUS f1
         else
           let asked = (case playerPosition of
                          None \<Rightarrow> False
                        | Some p \<Rightarrow>
                            playerAwareness f1 > 0.5 \<and> timesBeenPetted f1 > 0 \<and>
                            distanceTo (position f1) p < 6);
               r = random g f1;
               f2 = (if asked then tick f1 else f1)
           in if asked \<and> r < 0.01
              then setState LOOKING (pickLookTarget g playerPosition f2)
              else if idleTimer f2 \<ge> nextWanderTime f2 then
                (let baseTime = 1.5 + random g f2 * 2.5;
                     f3 = (tick f2)\<lparr>idleTimer := 0,
                                     nextWanderTime :=
                                       baseTime * (1 + laziness (personality f2) * 0.3)\<rparr>
                 in chooseNextBehavior g now playerPosition f3)
              else idleMove g playerPosition f2)"

definition grazingTail :: "game \<Rightarrow> vec3 option \<Rightarrow> frame \<Rightarrow> frame" where
  "grazingTail g playerPosition f =
     (if (case playerPosition of None \<Rightarrow> False | Some p \<Rightarrow> distanceTo (position f) p < 3)
      then setState CURIOUS f
      else
        let f1 = (if grazingTimer f \<ge> grazeDuration f
                  then setState IDLE (f\<lparr>grazingTimer := 0, grazeHeadBob := 0\<rparr>)
                  else f)
        in blinkChance g 0.004 f1)"

text \<open>\<open>_updateGrazing\<close> reads \<open>this.mesh.rotation.y\<close> when its 1% roll passes.\<close>

definition updateGrazing :: "game \<Rightarrow> real \<Rightarrow> vec3 option \<Rightarrow> frame \<Rightarrow> error + frame" where
  "updateGrazing g dt playerPosition f =
     (let f1 = f\<lparr>grazingTimer := grazingTimer f + dt,
                  velocity := multiplyScalar (velocity f) 0.85\<rparr>;
          f2 = f1\<lparr>grazeHeadBob := sin (grazingTimer f1 * 3) * 0.08\<rparr>;
          r = random g f2; f3 = tick f2
      in if r < 0.01 then
           (case mesh f3 of
              None \<Rightarrow> Inl TypeError
            | Some m \<Rightarrow>
                (let angle = vy (mrotation m) + (random g f3 - 0.5) * 0.5;
                     f4 = (tick f3)\<lparr>velocity := (velocity f3)
                             \<lparr>vx := vx (velocity f3) + sin angle * 0.15,
                              vz := vz (velocity f3) + cos angle * 0.15\<rparr>\<rparr>
                 in Inr (grazingTail g playerPosition f4)))
         else Inr (grazingTail g playerPosition f3))"

definition updateLooking :: "real \<Rightarrow> frame \<Rightarrow> frame" where
  "updateLooking dt f =
     (let f1 = f\<lparr>lookTimer := lookTimer f - dt,
                  velocity := multiplyScalar (velocity f) 0.9\<rparr>;
          f2 = (if lookTimer f1 \<le> 0 then setState IDLE (f1\<lparr>lookTarget := None\<rparr>) else f1)
      in if isHovered f2 \<and> hoverTime f2 > 1 then setState CURIOUS f2 else f2)"

definition updateStretching :: "real \<Rightarrow> frame \<Rightarrow> frame" where
  "updateStretching dt f =
     (let f1 = f\<lparr>stretchProgress := stretchProgress f + dt,
                  velocity := multiplyScalar (velocity f) 0.8\<rparr>;
          stretchDuration = 2.5;
          f2 = (if stretchProgress f1 \<ge> stretchDuration
                then setState IDLE (f1\<lparr>stretchProgress := 0\<rparr>) else f1)
      in if isHovered f2 \<and> hoverTime f2 > 0.5
         then setState CURIOUS (f2\<lparr>stretchProgress := 0\<rparr>) else f2)"

definition lieDown :: "real \<Rightarrow> frame \<Rightarrow> frame" where
  "lieDown dt f =
     (if \<not> isLyingDown f then
        (let p = min 1 (lyingDownProgress f + dt * 0.8)
         in if p \<ge> 1 then f\<lparr>lyingDownProgress := p, isLyingDown := True\<rparr>
            else f\<lparr>lyingDownProgress := p\<rparr>)
      else f)"

definition restingTail :: "game \<Rightarrow> frame \<Rightarrow> frame" where
  "restingTail g f =
     (let r2 = random g f; f5 = tick f;
          f6 = (if stateTimer f5 > 8 + r2 * 5 \<and> tiredness f5 < 0.4
                then setState IDLE (standUp f5) else f5)
      in blinkChance g 0.006 f6)"

definition updateResting :: "game \<Rightarrow> real \<Rightarrow> vec3 option \<Rightarrow> frame \<Rightarrow> frame" where
  "updateResting g dt playerPosition f =
     (let f1 = f\<lparr>velocity := multiplyScalar (velocity f) 0.8, targetEyeOpenness := 0.7\<rparr>;
          f2 = lieDown dt f1;
          f3 = f2\<lparr>tiredness := max 0 (tiredness f2 - dt * 0.03)\<rparr>;
          asked = (tiredness f3 < 0.2 \<and> stateTimer f3 > 5);
          r = random g f3;
          f4 = (if asked then tick f3 else f3)
      in if asked \<and> r < 0.01 then setState SLEEPING f4
         else if (case playerPosition of
                    None \<Rightarrow> False
                  | Some p \<Rightarrow> distanceTo (position f4) p < 4 \<and> playerAwareness f4 > 0.5)
         then setState CURIOUS (standUp f4)
         else restingTail g f4)"

definition sleepingTail :: "game \<Rightarrow> frame \<Rightarrow> frame" where
  "sleepingTail g f =
     (let r = random g f; f1 = tick f
      in if sleepTimer f1 > 10 + r * 10 \<and> tiredness f1 < 0.1
         then setState STRETCHING
                ((standUp (f1\<lparr>sleepTimer := 0\<rparr>))\<lparr>stretchType := 0, stretchProgress := 0\<rparr>)
         else f1)"

definition updateSleeping :: "game \<Rightarrow> real \<Rightarrow> vec3 option \<Rightarrow> frame \<Rightarrow> frame" where
  "updateSleeping g dt playerPosition f =
     (let f1 = f\<lparr>sleepTimer := sleepTimer f + dt,
                  velocity := multiplyScalar (velocity f) 0.9,
                  targetEyeOpenness := 0.05,
                  isLyingDown := True,
                  lyingDownProgress := 1,
                  tiredness := max 0 (tiredness f - dt * 0.05)\<rparr>
      in case playerPosition of
           None \<Rightarrow> sleepingTail g f1
         | Some p \<Rightarrow>
             (let dist = distanceTo (position f1) p
              in if dist < 3 then
                   (let f2 = f1\<lparr>targetEyeOpenness := 0.5\<rparr>
                    in if dist < 2 \<or> isHovered f2 then setState CURIOUS (standUp f2)
                       else sleepingTail g f2)
                 else sleepingTail g f1))"

text \<open>
  The creature behind \<open>this.socialTarget\<close>: \<open>this\<close> itself as the call has changed it
  so far, or another creature of \<open>game.cloudfens\<close>. A reference always refers to an
  object; an index beyond the list stands for no creature and is treated as a missing
  target.
\<close>

definition partner :: "game \<Rightarrow> frame \<Rightarrow> cloudfen option" where
  "partner g f =
     (case socialTarget f of
        None \<Rightarrow> None
      | Some j \<Rightarrow>
          if j = selfIx f then Some (cloudfen.truncate f)
          else if j < length (cloudfens g) then Some (cloudfens g ! j)
          else None)"

definition socialChatter :: "game \<Rightarrow> frame \<Rightarrow> frame" where
  "socialChatter g f =
     (let r1 = random g f; f2 = tick f;
          f3 = (if r1 < 0.02 then f2\<lparr>tailPosition := 0.3\<rparr> else f2);
          r2 = random g f3; f4 = tick f3;
          f5 = (if r2 < 0.008 then doVocalize g f4 else f4);
          r3 = random g f5; f6 = tick f5
      in if r3 < 0.01 \<and> \<not> isSniffing f6 then doSniff f6 else f6)"

definition socialInvite :: "game \<Rightarrow> cloudfen \<Rightarrow> frame \<Rightarrow> frame" where
  "socialInvite g other f =
     (let asked = (state other = IDLE);
          r4 = random g f;
          f8 = (if asked then tick f else f)
      in if asked \<and> r4 < 0.02 then f8\<lparr>poke := socialTarget f8\<rparr> else f8)"

definition socialNear :: "game \<Rightarrow> cloudfen \<Rightarrow> frame \<Rightarrow> frame" where
  "socialNear g other f =
     socialInvite g other
       (socialChatter g (f\<lparr>velocity := multiplyScalar (velocity f) 0.8,
                          headTilt := sin (socialTimer f * 2) * 0.03\<rparr>))"

definition socialTail :: "game \<Rightarrow> frame \<Rightarrow> frame" where
  "socialTail g f =
     (let r = random g f; f1 = tick f;
          f4 = (if socialTimer f1 > 4 + r * 3 then
                  (let f2 = f1\<lparr>socialTimer := 0, socialTarget := None,
                               headTilt := 0, earWiggle := 0\<rparr>;
                       r2 = random g f2; f3 = tick f2
                   in if r2 < 0.4
                      then setState GRAZING ((tick f3)\<lparr>grazeDuration := 3 + random g f3 * 3\<rparr>)
                      else setState IDLE f3)
                else f1)
      in if isHovered f4 \<and> hoverTime f4 > 1.5
         then setState CURIOUS (f4\<lparr>socialTarget := None\<rparr>) else f4)"

definition updateSocial :: "game \<Rightarrow> int \<Rightarrow> real \<Rightarrow> frame \<Rightarrow> frame" where
  "updateSocial g now dt f =
     (let f1 = f\<lparr>socialTimer := socialTimer f + dt, lastSocialTime := now\<rparr>
      in case partner g f1 of
           None \<Rightarrow> setState IDLE f1
         | Some other \<Rightarrow>
             if mesh other = None then setState IDLE f1
             else
               let toTarget = (subVectors (position other) (position f1))\<lparr>vy := 0\<rparr>;
                   dist = vlength toTarget;
                   f2 = (if dist > 1.8 then
                           (let d = normalize toTarget
                            in f1\<lparr>velocity := (velocity f1)
                                  \<lparr>vx := vx d * wanderSpeed f1 * 1.2,
                                   vz := vz d * wanderSpeed f1 * 1.2\<rparr>\<rparr>)
                         else socialNear g other f1)
               in socialTail g f2)"

text \<open>
  In \<open>_updateCurious\<close> the vector \<open>toPlayer\<close> is normalised and scaled in place, so the
  second nudge starts from what the first one left.
\<close>

definition curiousApproach :: "game \<Rightarrow> vec3 \<Rightarrow> frame \<Rightarrow> frame" where
  "curiousApproach g p f =
     (let toPlayer = (subVectors p (position f))\<lparr>vy := 0\<rparr>;
          dist = vlength toPlayer;
          asked1 = (dist > comfortDistance f);
          r1 = random g f;
          f1 = (if asked1 then tick f else f);
          go1 = (asked1 \<and> r1 < 0.008 * friendliness (personality f1));
          toPlayer1 = (if go1 then multiplyScalar (normalize toPlayer) 0.4 else toPlayer);
          f2 = (if go1 then f1\<lparr>velocity := vadd (velocity f1) toPlayer1\<rparr> else f1);
          asked2 = (timesBeenPetted f2 > 0 \<and> dist > 2);
          r2 = random g f2;
          f3 = (if asked2 then tick f2 else f2);
          go2 = (asked2 \<and> r2 < 0.01 * friendliness (personality f3))
      in if go2
         then f3\<lparr>velocity := vadd (velocity f3) (multiplyScalar (normalize toPlayer1) 0.5)\<rparr>
         else f3)"

definition curiousPaw :: "game \<Rightarrow> frame \<Rightarrow> frame" where
  "curiousPaw g f =
     (let asked = (stateTimer f > 1);
          r = random g f;
          f3 = (if asked then tick f else f)
      in if asked \<and> r < 0.01 \<and> \<not> pawingGround f3 then doPawGround f3 else f3)"

definition curiousVocal :: "game \<Rightarrow> frame \<Rightarrow> frame" where
  "curiousVocal g f =
     (let asked3 = (stateTimer f > 2);
          r3 = random g f;
          f7 = (if asked3 then tick f else f)
      in if asked3 \<and> r3 < 0.005 then doVocalize g f7 else f7)"

definition updateCurious :: "game \<Rightarrow> real \<Rightarrow> vec3 option \<Rightarrow> frame \<Rightarrow> frame" where
  "updateCurious g dt playerPosition f =
     (let f1 = f\<lparr>targetEyeOpenness := 1,
                  velocity := multiplyScalar (velocity f) 0.9,
                  headTilt := sin (stateTimer f * 1.5) * 0.04\<rparr>;
          f2 = (if stateTimer f1 < 2
                then f1\<lparr>earRotation := \<lparr>earLeft = 0.15, earRight = 0.15\<rparr>\<rparr> else f1);
          f4 = curiousPaw g f2;
          f5 = (if \<not> isHovered f4 \<and> stateTimer f4 > 4
                then setState IDLE (f4\<lparr>headTilt := 0\<rparr>) else f4);
          f6 = (case playerPosition of
                  None \<Rightarrow> f5
                | Some p \<Rightarrow> if stateTimer f5 > 2 then curiousApproach g p f5 else f5)
      in curiousVocal g f6)"

text \<open>
  \<open>_updatePetted\<close> and \<open>_updateBliss\<close> read \<open>this.mesh.position\<close> on their way to
  \<open>game.effects\<close>.
\<close>

definition pettedPose :: "frame \<Rightarrow> frame" where
  "pettedPose f =
     (let h = happiness f;
          v = multiplyScalar (velocity f) 0.85;
          leanAmount = sin (stateTimer f * 2) * 0.3 * h;
          f1 = f\<lparr>velocity := v\<lparr>vx := vx v + leanAmount * 0.1\<rparr>,
                  targetEyeOpenness := max 0.2 (1 - h * 0.8),
                  petWiggleTarget := sin (stateTimer f * 8) * 0.15 * h,
                  targetSquash := \<lparr>vx = 1 + h * 0.08, vy = 1 - h * 0.04, vz = 1 + h * 0.08\<rparr>\<rparr>;
          f2 = (if h > 0.3
                then f1\<lparr>woolBounceVel := woolBounceVel f1 + sin (stateTimer f1 * 6) * 0.1 * h\<rparr>
                else f1)
      in f2\<lparr>tailPosition := 0.3 + h * 0.4\<rparr>)"

definition promotes :: "frame \<Rightarrow> bool" where
  "promotes f \<longleftrightarrow> happiness f > 0.8 \<and> isPetted f \<and> stateTimer f > 2"

definition slowPet :: "int \<Rightarrow> real \<Rightarrow> frame \<Rightarrow> frame" where
  "slowPet now dt f =
     (if isPetted f \<and> now - lastStrokeTime f > 300
      then f\<lparr>happiness := min 1 (happiness f + dt * 0.15)\<rparr>
      else f)"

definition updatePetted :: "game \<Rightarrow> int \<Rightarrow> real \<Rightarrow> frame \<Rightarrow> error + frame" where
  "updatePetted g now dt f =
     (let f3 = pettedPose f;
          f4 = (if promotes f3 then setState BLISS f3 else f3)
      in if promotes f3 \<and> effects g \<and> mesh f4 = None then Inl TypeError
         else Inr (slowPet now dt f4))"

definition blissPose :: "frame \<Rightarrow> frame" where
  "blissPose f =
     (let v = multiplyScalar (velocity f) 0.92;
          swayPhase = stateTimer f * 1.5;
          puffAmount = 0.08 + sin (stateTimer f * 2) * 0.03
      in f\<lparr>velocity := v\<lparr>vx := sin swayPhase * 0.15, vz := cos (swayPhase * 0.7) * 0.08\<rparr>,
            targetEyeOpenness := 0.15,
            petWiggleTarget := sin (stateTimer f * 3) * 0.12,
            targetSquash := \<lparr>vx = 1 + puffAmount, vy = 1 - puffAmount * 0.3,
                             vz = 1 + puffAmount\<rparr>,
            woolBounceVel := woolBounceVel f + sin (stateTimer f * 3) * 0.15,
            tailPosition := 0.6 + sin (stateTimer f * 8) * 0.2\<rparr>)"

definition blissEnd :: "frame \<Rightarrow> frame" where
  "blissEnd f =
     (if \<not> isPetted f \<and> stateTimer f > 3
      then (setState IDLE f)\<lparr>happiness := 0.3\<rparr>
      else f)"

definition updateBliss :: "game \<Rightarrow> real \<Rightarrow> frame \<Rightarrow> error + frame" where
  "updateBliss g dt f =
     (let f1 = blissPose f;
          asked = (isPetted f1 \<and> effects g);
          r = random g f1;
          f2 = (if asked then tick f1 else f1)
      in if asked \<and> r < 0.1 \<and> mesh f2 = None then Inl TypeError
         else Inr (blissEnd f2))"

definition updateCalled :: "frame \<Rightarrow> frame" where
  "updateCalled f =
     (case targetPosition f of
        None \<Rightarrow> setState IDLE f
      | Some tp \<Rightarrow>
          (let dir = (subVectors tp (position f))\<lparr>vy := 0\<rparr>;
               dist = vlength dir
           in if dist > 0.8 then
                (let d = normalize dir
                 in f\<lparr>velocity := (velocity f)\<lparr>vx := vx d * approachSpeed f,
                                               vz := vz d * approachSpeed f\<rparr>\<rparr>)
              else setState CURIOUS (f\<lparr>targetPosition := None, homePosition := position f\<rparr>)))"

definition updateFleeing :: "frame \<Rightarrow> frame" where
  "updateFleeing f =
     (let f1 = (case targetPosition f of
                  None \<Rightarrow> setState IDLE f
                | Some tp \<Rightarrow>
                    (let dir = (subVectors tp (position f))\<lparr>vy := 0\<rparr>;
                         dist = vlength dir
                     in if dist > 1 then
                          (let d = normalize dir
                           in f\<lparr>velocity := (velocity f)\<lparr>vx := vx d * fleeSpeed f,
                                                         vz := vz d * fleeSpeed f\<rparr>\<rparr>)
                        else setState IDLE
                               (f\<lparr>targetPosition := None, homePosition := position f\<rparr>)))
      in if stateTimer f1 > 3 then setState IDLE f1 else f1)"

section \<open>Physics\<close>

definition clampBounds :: "real \<Rightarrow> real \<Rightarrow> real" where
  "clampBounds bounds a = max (- bounds) (min bounds a)"

text \<open>The body of the creature-creature loop of \<open>_applyPhysics\<close>, for one \<open>other\<close>.\<close>

definition collide :: "real \<Rightarrow> cloudfen \<Rightarrow> frame \<Rightarrow> frame" where
  "collide minDist other f =
     (let dx = vx (position f) - vx (position other);
          dz = vz (position f) - vz (position other);
          dist = sqrt (dx * dx + dz * dz)
      in if dist < minDist \<and> dist > 0 then
           (let overlap = minDist - dist;
                nx = dx / dist;
                nz = dz / dist;
                pushStrength = overlap * 0.4
            in f\<lparr>position := (position f)\<lparr>vx := vx (position f) + nx * pushStrength,
                                            vz := vz (position f) + nz * pushStrength\<rparr>,
                  velocity := (velocity f)\<lparr>vx := vx (velocity f) + nx * 0.4,
                                            vz := vz (velocity f) + nz * 0.4\<rparr>,
                  woolBounceVel := woolBounceVel f + 0.3\<rparr>)
         else f)"

fun collideLoop :: "real \<Rightarrow> (nat \<times> cloudfen) list \<Rightarrow> frame \<Rightarrow> frame" where
  "collideLoop minDist [] f = f"
| "collideLoop minDist ((j, other) # others) f =
     collideLoop minDist others (if j = selfIx f then f else collide minDist other f)"

definition rockBounce :: "game \<Rightarrow> real \<Rightarrow> frame \<Rightarrow> frame" where
  "rockBounce g sheepRadius f =
     (case gameScene g of
        None \<Rightarrow> f
      | Some sc \<Rightarrow>
          (case checkRockCollision sc of
             None \<Rightarrow> f
           | Some check \<Rightarrow>
               (case check (vx (position f)) (vz (position f)) sheepRadius of
                  None \<Rightarrow> f
                | Some rc \<Rightarrow>
                    (let f1 = f\<lparr>position := (position f)
                                  \<lparr>vx := vx (position f) + normalX rc * overlap rc,
                                   vz := vz (position f) + normalZ rc * overlap rc\<rparr>\<rparr>;
                         dotProduct = vx (velocity f1) * normalX rc + vz (velocity f1) * normalZ rc;
                         f2 = (if dotProduct < 0
                               then f1\<lparr>velocity := (velocity f1)
                                      \<lparr>vx := vx (velocity f1) - 1.5 * dotProduct * normalX rc,
                                       vz := vz (velocity f1) - 1.5 * dotProduct * normalZ rc\<rparr>\<rparr>
                               else f1)
                     in f2\<lparr>woolBounceVel := woolBounceVel f2 + 0.4\<rparr>))))"

definition groundHeight :: "game \<Rightarrow> real \<Rightarrow> real \<Rightarrow> real" where
  "groundHeight g a b = (case gameScene g of None \<Rightarrow> 0 | Some sc \<Rightarrow> getGroundHeight sc a b)"

definition applyPhysics :: "game \<Rightarrow> real \<Rightarrow> frame \<Rightarrow> frame" where
  "applyPhysics g dt f =
     (let bounds = 25;
          f1 = f\<lparr>position := (position f)
                   \<lparr>vx := clampBounds bounds (vx (position f) + vx (velocity f) * dt),
                    vz := clampBounds bounds (vz (position f) + vz (velocity f) * dt)\<rparr>,
                 velocity := (velocity f)\<lparr>vx := vx (velocity f) * 0.92,
                                           vz := vz (velocity f) * 0.92\<rparr>\<rparr>;
          sheepRadius = 0.8 * baseScale f1;
          f2 = collideLoop (sheepRadius * 2) (enumerate 0 (cloudfens g)) f1;
          f3 = f2\<lparr>position := (position f2)\<lparr>vx := clampBounds bounds (vx (position f2)),
                                             vz := clampBounds bounds (vz (position f2))\<rparr>\<rparr>;
          f4 = rockBounce g sheepRadius f3
      in f4\<lparr>position := (position f4)
               \<lparr>vy := groundHeight g (vx (position f4)) (vz (position f4))\<rparr>\<rparr>)"

text \<open>
  \<open>_applyPhysics\<close> in its three stages, to say what its creature-creature loop starts
  from and what follows the loop: the move, the clamp and the damping before the loop;
  the second clamp, the rocks and the ground height after it.
\<close>

definition beforeCollisions :: "real \<Rightarrow> frame \<Rightarrow> frame" where
  "beforeCollisions dt f =
     f\<lparr>position := (position f)
          \<lparr>vx := clampBounds 25 (vx (position f) + vx (velocity f) * dt),
           vz := clampBounds 25 (vz (position f) + vz (velocity f) * dt)\<rparr>,
       velocity := (velocity f)\<lparr>vx := vx (velocity f) * 0.92,
                                 vz := vz (velocity f) * 0.92\<rparr>\<rparr>"

definition afterCollisions :: "game \<Rightarrow> real \<Rightarrow> frame \<Rightarrow> frame" where
  "afterCollisions g sheepRadius f2 =
     (let f3 = f2\<lparr>position := (position f2)\<lparr>vx := clampBounds 25 (vx (position f2)),
                                             vz := clampBounds 25 (vz (position f2))\<rparr>\<rparr>;
          f4 = rockBounce g sheepRadius f3
      in f4\<lparr>position := (position f4)
               \<lparr>vy := groundHeight g (vx (position f4)) (vz (position f4))\<rparr>\<rparr>)"

text \<open>\<open>MossBall.push(direction, force, addUpward)\<close> of \<open>TouchSheepMossBall.js\<close>.\<close>

definition push :: "vec3 \<Rightarrow> real \<Rightarrow> bool \<Rightarrow> mossBall \<Rightarrow> mossBall" where
  "push direction force addUpward b =
     (let pushVel = multiplyScalar direction (force * pushMultiplier b)
      in if addUpward \<and> isGrounded b
         then b\<lparr>isGrounded := False,
                ballVelocity := vadd (ballVelocity b) (pushVel\<lparr>vy := force * 0.8\<rparr>)\<rparr>
         else b\<lparr>ballVelocity := vadd (ballVelocity b) pushVel\<rparr>)"

definition hitBall :: "mossBall \<Rightarrow> frame \<Rightarrow> mossBall \<times> frame" where
  "hitBall ball f =
     (if \<not> ballMesh ball then (ball, f)
      else
        let sheepRadius = 0.9 * baseScale f;
            dx = vx (ballPosition ball) - vx (position f);
            dz = vz (ballPosition ball) - vz (position f);
            dist = sqrt (dx * dx + dz * dz);
            minDist = sheepRadius + radius ball
        in if dist < minDist \<and> dist > 0 then
             (let nx = dx / dist;
                  nz = dz / dist;
                  sheepSpeed = sqrt ((vx (velocity f))\<^sup>2 + (vz (velocity f))\<^sup>2);
                  pushForce = max 0.8 (sheepSpeed * 0.6);
                  overlap = minDist - dist
              in (push (Vector3 nx 0 nz) pushForce (sheepSpeed > 1.5) ball,
                  f\<lparr>position := (position f)\<lparr>vx := vx (position f) - nx * overlap * 0.3,
                                              vz := vz (position f) - nz * overlap * 0.3\<rparr>,
                    woolBounceVel := woolBounceVel f + 0.4,
                    velocity := (velocity f)\<lparr>vx := vx (velocity f) - nx * 0.5,
                                              vz := vz (velocity f) - nz * 0.5\<rparr>\<rparr>))
           else (ball, f))"

fun ballLoop :: "mossBall list \<Rightarrow> frame \<Rightarrow> mossBall list \<times> frame" where
  "ballLoop [] f = ([], f)"
| "ballLoop (ball # bs) f =
     (let hit = hitBall ball f;
          later = ballLoop bs (snd hit)
      in (fst hit # fst later, snd later))"

definition handleMossBallCollision :: "game \<Rightarrow> frame \<Rightarrow> frame" where
  "handleMossBallCollision g f =
     (case mossBalls g of
        None \<Rightarrow> f
      | Some bs \<Rightarrow> (let r = ballLoop (balls f) f in (snd r)\<lparr>balls := fst r\<rparr>))"

section \<open>Presentation\<close>

definition updateSoftPhysics :: "real \<Rightarrow> real \<Rightarrow> frame \<Rightarrow> frame" where
  "updateSoftPhysics dt speed f =
     (let springStiffness = 25;
          damping = 4;
          springForce = - woolBounce f * springStiffness;
          dampingForce = - woolBounceVel f * damping;
          vel1 = woolBounceVel f + (springForce + dampingForce) * dt;
          bounce1 = woolBounce f + vel1 * dt;
          f1 = f\<lparr>woolBounce := max (- 0.5) (min 0.5 bounce1),
                 woolBounceVel := max (- 2) (min 2 vel1)\<rparr>;
          accel = speed - lastSpeed f1;
          f2 = (if speed > 0.5 \<and> \<bar>accel\<bar> > 0.1
                then f1\<lparr>woolBounceVel := woolBounceVel f1 + accel * 0.3\<rparr> else f1)
      in f2\<lparr>lastSpeed := speed\<rparr>)"

text \<open>The locals \<open>targetRotX\<close>, \<open>targetRotZ\<close> and \<open>yBob\<close> of \<open>_updateVisuals\<close>.\<close>

record pose =
  targetRotX :: real
  targetRotZ :: real
  yBob :: real

definition statePose :: "real \<Rightarrow> real \<Rightarrow> real \<Rightarrow> frame \<Rightarrow> pose \<times> frame" where
  "statePose dt speed breathAmount f =
     (let p0 = \<lparr>targetRotX = 0, targetRotZ = 0, yBob = 0\<rparr>; ts = targetSquash f in
      if state f = SLEEPING then
        (p0, f\<lparr>targetSquash := \<lparr>vx = 1 + breathAmount * 0.04, vy = 1 - breathAmount * 0.02,
                                 vz = 1 + breathAmount * 0.04\<rparr>\<rparr>)
      else if state f = RESTING then
        (p0, f\<lparr>targetSquash := \<lparr>vx = 1 + breathAmount * 0.03, vy = 1 - breathAmount * 0.015,
                                 vz = 1 + breathAmount * 0.03\<rparr>\<rparr>)
      else if state f = GRAZING then
        (p0\<lparr>targetRotX := grazeHeadBob f * 0.12, yBob := grazeHeadBob f * 0.08 * baseScale f\<rparr>,
         f\<lparr>targetSquash := ts\<lparr>vy := 1 - \<bar>grazeHeadBob f\<bar> * 0.03\<rparr>\<rparr>)
      else if state f = STRETCHING then
        (let t = stretchProgress f / 2.5;
             stretchAmount = sin (t * pi)
         in if stretchType f = 0 then
              (p0\<lparr>targetRotX := stretchAmount * 0.15,
                  yBob := - stretchAmount * 0.05 * baseScale f\<rparr>,
               f\<lparr>targetSquash := ts\<lparr>vy := 1 - stretchAmount * 0.05,
                                      vz := 1 + stretchAmount * 0.1\<rparr>\<rparr>)
            else if stretchType f = 1 then
              (p0\<lparr>targetRotX := - stretchAmount * 0.12\<rparr>,
               f\<lparr>targetSquash := ts\<lparr>vy := 1 + stretchAmount * 0.08,
                                      vz := 1 - stretchAmount * 0.05\<rparr>\<rparr>)
            else
              (p0\<lparr>targetRotZ := sin (stretchProgress f * 18) * stretchAmount * 0.1\<rparr>,
               f\<lparr>woolBounceVel := woolBounceVel f + sin (stretchProgress f * 18) * 0.3\<rparr>))
      else if speed > 0.3 then
        (let walkBob = sin (bobPhase f * 2.5)
         in (p0\<lparr>targetRotZ := walkBob * 0.03, yBob := \<bar>walkBob\<bar> * 0.04 * baseScale f\<rparr>,
             f\<lparr>targetSquash := \<lparr>vx = 1 + \<bar>walkBob\<bar> * 0.03, vy = 1 - \<bar>walkBob\<bar> * 0.06,
                                  vz = 1 + \<bar>walkBob\<bar> * 0.03\<rparr>,
               woolBounceVel := woolBounceVel f + walkBob * 0.05\<rparr>))
      else
        (let f1 = f\<lparr>targetSquash := \<lparr>vx = 1 + breathAmount * 0.02, vy = 1 - breathAmount * 0.01,
                                      vz = 1 + breathAmount * 0.02\<rparr>\<rparr>;
             p1 = p0\<lparr>yBob := breathAmount * 0.01 * baseScale f\<rparr>
         in if contentment (mood f1) > 0.6 then
              (let f2 = f1\<lparr>contentWobble := contentWobble f1 + dt * 2\<rparr>
               in (p1\<lparr>targetRotZ := targetRotZ p1 +
                                      sin (contentWobble f2) * 0.015 * contentment (mood f2)\<rparr>,
                   f2))
            else (p1, f1)))"

definition shakePose :: "real \<Rightarrow> pose \<times> frame \<Rightarrow> pose \<times> frame" where
  "shakePose dt pf =
     (let p = fst pf; f = snd pf in
      if headShakeActive f then
        (let f1 = f\<lparr>headShakeProgress := headShakeProgress f + dt * 15\<rparr>;
             shakeAmount = sin (headShakeProgress f1) * exp (- headShakeProgress f1 * 0.3)
         in (p\<lparr>targetRotZ := targetRotZ p + shakeAmount * 0.12\<rparr>,
             f1\<lparr>woolBounceVel := woolBounceVel f1 + shakeAmount * 0.2\<rparr>))
      else pf)"

definition sniffPose :: "real \<Rightarrow> pose \<times> frame \<Rightarrow> pose \<times> frame" where
  "sniffPose dt pf =
     (let p = fst pf; f = snd pf in
      if isSniffing f then
        (let f1 = f\<lparr>sniffProgress := sniffProgress f + dt * 3\<rparr>;
             sniffAmount = sin (sniffProgress f1 * pi)
         in (p\<lparr>targetRotX := targetRotX p - sniffAmount * 0.1,
               yBob := yBob p + sniffAmount * 0.04 * baseScale f1\<rparr>,
             f1\<lparr>targetSquash := (targetSquash f1)\<lparr>vx := 1 - sniffAmount * 0.02,
                                                   vy := 1 + sniffAmount * 0.05\<rparr>\<rparr>))
      else pf)"

definition pawPose :: "real \<Rightarrow> pose \<times> frame \<Rightarrow> pose \<times> frame" where
  "pawPose dt pf =
     (let p = fst pf; f = snd pf in
      if pawingGround f then
        (let f1 = f\<lparr>pawProgress := pawProgress f + dt * 10\<rparr>;
             pawAmount = sin (pawProgress f1 * pi * 2)
         in (p\<lparr>targetRotX := targetRotX p + pawAmount * 0.06\<rparr>,
             if pawAmount < - 0.5 then f1\<lparr>impactSquash := 0.08\<rparr> else f1))
      else pf)"

definition vocalPose :: "int \<Rightarrow> pose \<times> frame \<Rightarrow> pose \<times> frame" where
  "vocalPose now pf =
     (let p = fst pf; f = snd pf in
      if isVocalizing f then
        (let vocalPhase = real_of_int (now mod 500) / 500;
             vocalPulse = sin (vocalPhase * pi)
         in (p\<lparr>targetRotX := targetRotX p - vocalPulse * 0.05\<rparr>,
             f\<lparr>targetSquash := \<lparr>vx = 1 + vocalPulse * 0.08, vy = 1 - vocalPulse * 0.04,
                                 vz = 1 + vocalPulse * 0.08\<rparr>\<rparr>))
      else pf)"

definition tailPose :: "pose \<times> frame \<Rightarrow> pose \<times> frame" where
  "tailPose pf =
     (let p = fst pf; f = snd pf in
      if tailPosition f > 0.1 then
        (let waggle = sin (bobPhase f * 10) * tailPosition f
         in (p\<lparr>targetRotZ := targetRotZ p + waggle * 0.04\<rparr>,
             f\<lparr>woolBounceVel := woolBounceVel f + waggle * 0.05\<rparr>))
      else pf)"

definition alertPose :: "pose \<times> frame \<Rightarrow> pose \<times> frame" where
  "alertPose pf =
     (let p = fst pf; f = snd pf in
      if alertness (mood f) > 0.6 then
        (p\<lparr>yBob := yBob p + 0.02 * baseScale f * alertness (mood f)\<rparr>,
         f\<lparr>targetSquash := (targetSquash f)
              \<lparr>vy := max (vy (targetSquash f)) (1 + alertness (mood f) * 0.02)\<rparr>\<rparr>)
      else pf)"

text \<open>The micro-behaviour animations of \<open>_updateVisuals\<close>, in the source's order.\<close>

definition microPose :: "int \<Rightarrow> real \<Rightarrow> pose \<times> frame \<Rightarrow> pose \<times> frame" where
  "microPose now dt pf =
     alertPose (tailPose (vocalPose now (pawPose dt (sniffPose dt (shakePose dt pf)))))"

text \<open>The new \<open>mesh.rotation.y\<close>: the main rotation by state, else the attention target.\<close>

definition faceYaw :: "real \<Rightarrow> real \<Rightarrow> vec3 option \<Rightarrow> frame \<Rightarrow> real \<Rightarrow> real" where
  "faceYaw dt speed playerPosition f rotY =
     (let main =
            (if state f = CURIOUS \<or> state f = PETTED \<or> state f = BLISS then
               (case playerPosition of
                  None \<Rightarrow> None
                | Some p \<Rightarrow>
                    (let lookDir = (subVectors p (position f))\<lparr>vy := 0\<rparr>
                     in Some (lerp rotY (atan2 (vx lookDir) (vz lookDir)) (dt * 3))))
             else if state f = LOOKING \<and> lookTarget f \<noteq> None then
               (case lookTarget f of
                  None \<Rightarrow> None
                | Some t \<Rightarrow>
                    (let dir = (subVectors t (position f))\<lparr>vy := 0\<rparr>
                     in Some (lerp rotY (atan2 (vx dir) (vz dir)) (dt * 2))))
             else if state f \<noteq> SLEEPING \<and> state f \<noteq> RESTING \<and> speed > 0.2 then
               Some (lerp rotY (atan2 (vx (velocity f)) (vz (velocity f))) (dt * 5))
             else None)
      in case main of
           Some r \<Rightarrow> r
         | None \<Rightarrow>
             (case attentionTarget f of
                None \<Rightarrow> rotY
              | Some t \<Rightarrow>
                  if attentionStrength f > 0.2 then
                    (let dir = (subVectors t (position f))\<lparr>vy := 0\<rparr>
                     in if vlength dir > 0.5
                        then lerp rotY (atan2 (vx dir) (vz dir)) (dt * 0.5 * attentionStrength f)
                        else rotY)
                  else rotY))"

definition updateVisuals :: "game \<Rightarrow> int \<Rightarrow> real \<Rightarrow> vec3 option \<Rightarrow> frame \<Rightarrow> frame" where
  "updateVisuals g now dt playerPosition f =
     (case mesh f of
        None \<Rightarrow> f
      | Some m \<Rightarrow>
          let speed = sqrt ((vx (velocity f))\<^sup>2 + (vz (velocity f))\<^sup>2);
              f1 = updateSoftPhysics dt speed f;
              groundY = groundHeight g (vx (position f1)) (vz (position f1));
              yOffset = (if isLyingDown f1 \<or> lyingDownProgress f1 > 0
                         then modelYOffset f1 * (1 - lyingDownProgress f1 * 0.5)
                         else modelYOffset f1);
              f2 = f1\<lparr>bobPhase := bobPhase f1 + dt * 4,
                      breathPhase := breathPhase f1 + dt * breathRate f1 * pi\<rparr>;
              breathAmount = sin (breathPhase f2);
              pf = microPose now dt (statePose dt speed breathAmount f2);
              p = fst pf;
              f3 = snd pf;
              f4 = f3\<lparr>petWiggle := petWiggle f3 + (petWiggleTarget f3 - petWiggle f3) * dt * 10\<rparr>;
              f5 = (if state f4 \<noteq> PETTED \<and> state f4 \<noteq> BLISS
                    then f4\<lparr>petWiggleTarget := petWiggleTarget f4 * 0.95\<rparr> else f4);
              lerpSpeed = 8;
              f6 = f5\<lparr>squashStretch :=
                        \<lparr>vx = lerp (vx (squashStretch f5)) (vx (targetSquash f5)) (dt * lerpSpeed),
                         vy = lerp (vy (squashStretch f5)) (vy (targetSquash f5)) (dt * lerpSpeed),
                         vz = lerp (vz (squashStretch f5)) (vz (targetSquash f5)) (dt * lerpSpeed)\<rparr>\<rparr>;
              impactY = 1 - impactSquash f6;
              impactXZ = 1 + impactSquash f6 * 0.5;
              woolY = 1 + woolBounce f6 * 0.02;
              scale = 0.8 * baseScale f6;
              m1 = \<lparr>mposition =
                      \<lparr>vx = vx (position f6),
                       vy = groundY + yOffset + (yBob p + woolBounce f6 * 0.02 * baseScale f6),
                       vz = vz (position f6)\<rparr>,
                    mrotation =
                      \<lparr>vx = lerp (vx (mrotation m)) (targetRotX p + petWiggle f6) (dt * 6),
                       vy = faceYaw dt speed playerPosition f6 (vy (mrotation m)),
                       vz = lerp (vz (mrotation m)) (targetRotZ p) (dt * 6)\<rparr>,
                    mscale =
                      \<lparr>vx = scale * vx (squashStretch f6) * impactXZ,
                       vy = scale * vy (squashStretch f6) * impactY * woolY,
                       vz = scale * vz (squashStretch f6) * impactXZ\<rparr>\<rparr>
          in f6\<lparr>mesh := Some m1,
                impactSquash := impactSquash f6 * 0.85,
                targetSquash := \<lparr>vx = 1, vy = 1, vz = 1\<rparr>\<rparr>)"

section \<open>The per-frame update\<close>

text \<open>
  \<open>update(dt, playerInfo)\<close> starts with \<open>playerInfo?.position || playerInfo\<close>: the
  argument here is that position, \<open>None\<close> when the snapshot is \<open>null\<close> or
  \<open>undefined\<close>. \<open>now\<close> is what \<open>Date.now()\<close> returns during the call. The method
  is cut in three: what comes before the \<open>switch\<close> (\<open>updateHead\<close>: the timers and
  the happiness decay, the four sub-updates, the tiredness), the \<open>switch\<close> itself,
  and what comes after it.
\<close>

definition advanceTimers :: "real \<Rightarrow> frame \<Rightarrow> frame" where
  "advanceTimers dt f =
     (let f1 = f\<lparr>stateTimer := stateTimer f + dt\<rparr>;
          f2 = (if isHovered f1 then f1\<lparr>hoverTime := hoverTime f1 + dt\<rparr> else f1)
      in if \<not> isPetted f2 then f2\<lparr>happiness := max 0 (happiness f2 - dt * 0.08)\<rparr> else f2)"

definition growTired :: "real \<Rightarrow> frame \<Rightarrow> frame" where
  "growTired dt f =
     (if state f \<noteq> RESTING \<and> state f \<noteq> SLEEPING
      then f\<lparr>tiredness := min 1 (tiredness f + dt * 0.005 * laziness (personality f))\<rparr>
      else f)"

definition updateHead :: "game \<Rightarrow> int \<Rightarrow> real \<Rightarrow> vec3 option \<Rightarrow> frame \<Rightarrow> frame" where
  "updateHead g now dt playerPosition f =
     growTired dt
       (updateAttention g now dt playerPosition
          (updateMood dt playerPosition
             (updateMicroBehaviors g dt
                (updatePlayerAwareness g dt playerPosition (advanceTimers dt f)))))"

definition updateSwitch :: "game \<Rightarrow> int \<Rightarrow> real \<Rightarrow> vec3 option \<Rightarrow> frame \<Rightarrow> error + frame" where
  "updateSwitch g now dt playerPosition f =
     (case state f of
        IDLE \<Rightarrow> Inr (updateIdle g now dt playerPosition f)
      | GRAZING \<Rightarrow> updateGrazing g dt playerPosition f
      | LOOKING \<Rightarrow> Inr (updateLooking dt f)
      | STRETCHING \<Rightarrow> Inr (updateStretching dt f)
      | RESTING \<Rightarrow> Inr (updateResting g dt playerPosition f)
      | SLEEPING \<Rightarrow> Inr (updateSleeping g dt playerPosition f)
      | SOCIAL \<Rightarrow> Inr (updateSocial g now dt f)
      | CURIOUS \<Rightarrow> Inr (updateCurious g dt playerPosition f)
      | PETTED \<Rightarrow> updatePetted g now dt f
      | BLISS \<Rightarrow> updateBliss g dt f
      | CALLED \<Rightarrow> Inr (updateCalled f)
      | FLEEING \<Rightarrow> Inr (updateFleeing f))"

definition updateTail :: "game \<Rightarrow> int \<Rightarrow> real \<Rightarrow> vec3 option \<Rightarrow> frame \<Rightarrow> frame" where
  "updateTail g now dt playerPosition f =
     updateVisuals g now dt playerPosition (handleMossBallCollision g (applyPhysics g dt f))"

definition update :: "game \<Rightarrow> int \<Rightarrow> real \<Rightarrow> vec3 option \<Rightarrow> frame \<Rightarrow> error + frame" where
  "update g now dt playerPosition f =
     (case updateSwitch g now dt playerPosition (updateHead g now dt playerPosition f) of
        Inl e \<Rightarrow> Inl e
      | Inr f1 \<Rightarrow> Inr (updateTail g now dt playerPosition f1))"

section \<open>Construction\<close>

text \<open>
  The constructor, with the values \<open>r 0\<close>, \<open>r 1\<close>, ... that its successive calls of
  \<open>Math.random()\<close> return, and \<open>init(x, z, scale)\<close>, which places the creature and
  gives it its mesh: the loaded model (scaled by 0.8, offset 0.95) or the fallback
  mesh (offset 0.3).
\<close>

definition Cloudfen :: "(nat \<Rightarrow> real) \<Rightarrow> cloudfen" where
  "Cloudfen r =
     \<lparr>position = Vector3 0 0 0,
      velocity = Vector3 0 0 0,
      targetPosition = None,
      baseScale = 1.0,
      state = IDLE,
      stateTimer = 0,
      previousState = None,
      wanderSpeed = 0.8,
      approachSpeed = 1.5,
      fleeSpeed = 4.0,
      idleTimer = 0,
      nextWanderTime = r 0 * 2 + 0.5,
      homePosition = Vector3 0 0 0,
      initialRotation = r 1 * pi * 2,
      grazingTimer = 0,
      grazeHeadBob = 0,
      grazeDuration = 0,
      tiredness = r 2 * 0.3,
      sleepTimer = 0,
      isLyingDown = False,
      lyingDownProgress = 0,
      lookTarget = None,
      lookTimer = 0,
      headTilt = 0,
      earWiggle = 0,
      socialTarget = None,
      socialTimer = 0,
      lastSocialTime = 0,
      stretchProgress = 0,
      stretchType = 0,
      mesh = None,
      modelYOffset = 0,
      bobPhase = r 3 * pi * 2,
      happiness = 0,
      isPetted = False,
      petDuration = 0,
      lastStrokeTime = 0,
      isHovered = False,
      hoverTime = 0,
      playerAwareness = 0,
      fleeThreshold = 2.5,
      comfortDistance = 4,
      targetEyeOpenness = 1.0,
      personality =
        \<lparr>shyness = 0.3 + r 4 * 0.4,
         friendliness = 0.5 + r 5 * 0.5,
         curiosity = 0.3 + r 6 * 0.5,
         flightiness = 0.2 + r 7 * 0.4,
         laziness = 0.2 + r 8 * 0.5,
         sociability = 0.3 + r 9 * 0.6\<rparr>,
      behaviorWeights =
        \<lparr>wander = 0.25, graze = 0.30, look = 0.15, stretch = 0.05, rest = 0.15, social = 0.10\<rparr>,
      attentionTarget = None,
      attentionStrength = 0,
      lastAttentionShift = 0,
      earTwitchTimer = r 10 * 3,
      tailWagTimer = r 11 * 5,
      headShakeTimer = r 12 * 8,
      pawGroundTimer = r 13 * 15,
      sniffTimer = r 14 * 6,
      lastPlayerPosition = None,
      lastSeenPlayerTime = 0,
      favoriteSpot = None,
      timesBeenPetted = 0,
      mood =
        \<lparr>contentment = 0.5 + r 15 * 0.3,
         alertness = 0.3 + r 16 * 0.2,
         playfulness = r 17 * 0.5\<rparr>,
      vocalizationTimer = r 18 * 20,
      isVocalizing = False,
      earRotation = \<lparr>earLeft = 0, earRight = 0\<rparr>,
      tailPosition = 0,
      headShakeActive = False,
      headShakeProgress = 0,
      pawingGround = False,
      pawProgress = 0,
      isSniffing = False,
      sniffProgress = 0,
      squashStretch = Vector3 1 1 1,
      targetSquash = Vector3 1 1 1,
      woolBounce = 0,
      woolBounceVel = 0,
      breathPhase = r 19 * pi * 2,
      breathRate = 0.8 + r 20 * 0.4,
      impactSquash = 0,
      contentWobble = 0,
      lastSpeed = 0,
      petWiggle = 0,
      petWiggleTarget = 0\<rparr>"

definition init :: "game \<Rightarrow> bool \<Rightarrow> real \<Rightarrow> real \<Rightarrow> real \<Rightarrow> cloudfen \<Rightarrow> cloudfen" where
  "init g loaded a b scale c =
     (let groundY = groundHeight g a b;
          c1 = c\<lparr>position := Vector3 a groundY b, homePosition := Vector3 a groundY b,
                 baseScale := scale\<rparr>;
          offset = (if loaded then 0.95 * baseScale c1 else 0.3 * baseScale c1);
          size = (if loaded then 0.8 * baseScale c1 else baseScale c1)
      in c1\<lparr>modelYOffset := offset,
            mesh := Some \<lparr>mposition = Vector3 a (groundY + offset) b,
                          mrotation = Vector3 0 (initialRotation c1) 0,
                          mscale = Vector3 size size size\<rparr>\<rparr>)"

section \<open>The world's events\<close>

text \<open>
  What the game does to its creatures: the per-frame \<open>update\<close> of creature \<open>i\<close>, the
  public handlers, and a pending timer firing. An event names a creature by its index;
  an index beyond \<open>game.cloudfens\<close>, or a timer that is not pending, is no event and
  leaves the world as it is. A call that raises ends the run with its error.
\<close>

datatype event =
  Update nat int real "vec3 option"
  | StartPetting nat int
  | EndPetting nat real
  | OnStroke nat int real real real
  | OnHoverStart nat
  | OnHoverEnd nat
  | OnCalled nat vec3
  | Fire nat

definition call :: "game \<Rightarrow> nat \<Rightarrow> (frame \<Rightarrow> error + frame) \<Rightarrow> error + game" where
  "call g i m =
     (if i < length (cloudfens g)
      then (case m (enter g i) of Inl e \<Rightarrow> Inl e | Inr f \<Rightarrow> Inr (leave g f))
      else Inr g)"

fun step :: "event \<Rightarrow> game \<Rightarrow> error + game" where
  "step (Update i now dt playerInfo) g = call g i (update g now dt playerInfo)"
| "step (StartPetting i now) g = call g i (startPetting g now)"
| "step (EndPetting i duration) g = call g i (endPetting g duration)"
| "step (OnStroke i now dx dy speed) g = call g i (onStroke g now dx dy speed)"
| "step (OnHoverStart i) g = call g i (\<lambda>f. Inr (onHoverStart f))"
| "step (OnHoverEnd i) g = call g i (\<lambda>f. Inr (onHoverEnd f))"
| "step (OnCalled i sourcePosition) g = call g i (\<lambda>f. Inr (onCalled sourcePosition f))"
| "step (Fire k) g =
     (if k < length (timers g) then
        (let cb = snd (timers g ! k);
             g1 = g\<lparr>timers := take k (timers g) @ drop (Suc k) (timers g)\<rparr>
         in call g1 (target cb) (\<lambda>f. Inr (runCallback g1 cb f)))
      else Inr g)"

fun run :: "event list \<Rightarrow> game \<Rightarrow> error + game" where
  "run [] g = Inr g"
| "run (e # es) g = (case step e g of Inl err \<Rightarrow> Inl err | Inr g1 \<Rightarrow> run es g1)"

section \<open>Notions the properties are stated with\<close>

text \<open>A peer that \<open>_findNearestSheep\<close> does not skip, and the horizontal distance it
  measures.\<close>

definition validPeer :: "cloudfen \<Rightarrow> bool" where
  "validPeer other \<longleftrightarrow>
     state other \<noteq> SLEEPING \<and> state other \<noteq> FLEEING \<and>
     state other \<noteq> PETTED \<and> state other \<noteq> BLISS"

definition hdist :: "vec3 \<Rightarrow> vec3 \<Rightarrow> real" where
  "hdist a b = sqrt ((vx a - vx b) * (vx a - vx b) + (vz a - vz b) * (vz a - vz b))"

text \<open>Happiness and the three mood scalars in \<open>[0, 1]\<close>; and, with that, a
  friendliness that is not negative, as the constructor draws it
  (\<open>0.5 + Math.random() * 0.5\<close>).\<close>

definition moodOK :: "'a cloudfen_scheme \<Rightarrow> bool" where
  "moodOK c \<longleftrightarrow>
     0 \<le> happiness c \<and> happiness c \<le> 1 \<and>
     0 \<le> contentment (mood c) \<and> contentment (mood c) \<le> 1 \<and>
     0 \<le> alertness (mood c) \<and> alertness (mood c) \<le> 1 \<and>
     0 \<le> playfulness (mood c) \<and> playfulness (mood c) \<le> 1"

definition sound :: "'a cloudfen_scheme \<Rightarrow> bool" where
  "sound c \<longleftrightarrow> moodOK c \<and> 0 \<le> friendliness (personality c)"

text \<open>The calls the game makes: a frame time in \<open>[0, 1]\<close>, a stroke speed that is a
  speed (not negative).\<close>

fun validEvent :: "event \<Rightarrow> bool" where
  "validEvent (Update i now dt playerInfo) = (0 \<le> dt \<and> dt \<le> 1)"
| "validEvent (OnStroke i now dx dy speed) = (0 \<le> speed)"
| "validEvent (StartPetting i now) = True"
| "validEvent (EndPetting i duration) = True"
| "validEvent (OnHoverStart i) = True"
| "validEvent (OnHoverEnd i) = True"
| "validEvent (OnCalled i sourcePosition) = True"
| "validEvent (Fire k) = True"

text \<open>The flee branch of \<open>_updatePlayerAwareness\<close> is taken: the guard holds and the
  flightiness roll passes. The target it then sets.\<close>

definition flees :: "game \<Rightarrow> vec3 option \<Rightarrow> frame \<Rightarrow> bool" where
  "flees g playerPosition f \<longleftrightarrow>
     (case playerPosition of
        None \<Rightarrow> False
      | Some p \<Rightarrow> shouldFlee g p f \<and> rand g (rix f) < flightiness (personality f))"

definition fleeTarget :: "game \<Rightarrow> vec3 \<Rightarrow> frame \<Rightarrow> vec3" where
  "fleeTarget g p f =
     vadd (position f)
       (multiplyScalar
          (multiplyScalar (normalize ((subVectors p (position f))\<lparr>vy := 0\<rparr>)) (- 1))
          (8 + rand g (Suc (rix f)) * 5))"

text \<open>Groups of fields that whole families of methods leave alone.\<close>

definition link :: "frame \<Rightarrow> nat \<times> nat option" where
  "link f = (selfIx f, poke f)"

definition character ::
  "frame \<Rightarrow> real \<times> mood \<times> personality \<times> bool \<times> bool \<times> real \<times> nat \<times> real \<times> real \<times> int \<times> real \<times> real" where
  "character f =
     (happiness f, mood f, personality f, isPetted f, isHovered f, hoverTime f,
      timesBeenPetted f, comfortDistance f, fleeThreshold f, lastStrokeTime f,
      fleeSpeed f, baseScale f)"

definition keeps ::
  "frame \<Rightarrow> (nat \<times> nat option) \<times>
     (real \<times> mood \<times> personality \<times> bool \<times> bool \<times> real \<times> nat \<times> real \<times> real \<times> int \<times> real \<times> real) \<times>
     vec3 \<times> mesh3d option \<times> mossBall list" where
  "keeps f = (link f, character f, position f, mesh f, balls f)"

definition control ::
  "frame \<Rightarrow> cstate \<times> real \<times> cstate option \<times> vec3 option \<times> bool \<times> real \<times> real \<times> real \<times> real \<times> nat option" where
  "control f =
     (state f, stateTimer f, previousState f, targetPosition f, isLyingDown f,
      lyingDownProgress f, tiredness f, sleepTimer f, playerAwareness f, socialTarget f)"

text \<open>A small world for concrete runs: no terrain, effects and audio present, every
  \<open>Math.random()\<close> returning one half, and creatures built by the constructor and
  \<open>init\<close> with the fallback mesh.\<close>

definition emptyWorld :: game where
  "emptyWorld =
     \<lparr>cloudfens = [], mossBalls = None, player = None, gameScene = None,
      effects = True, audio = True, timers = [], rand = (\<lambda>n. 1 / 2), rcur = 0\<rparr>"

definition sheepAt :: "real \<Rightarrow> real \<Rightarrow> cloudfen" where
  "sheepAt a b = init emptyWorld False a b 1 (Cloudfen (\<lambda>n. 1 / 2))"

definition worldOf :: "cloudfen list \<Rightarrow> game" where
  "worldOf cs = emptyWorld\<lparr>cloudfens := cs\<rparr>"

section \<open>What the helpers leave alone\<close>

text \<open>
  Most methods touch a few fields only. The lemmas below push the projections
  \<open>keeps\<close> and \<open>control\<close> through conditionals and field updates, so that each
  method is dealt with in one pass, without a case split per branch.
\<close>

lemmas proj_defs = keeps_def link_def character_def control_def

lemmas prim_defs = setState_def standUp_def tick_def setTimeout_def random_def

lemma keepsD:
  "keeps a = keeps b \<Longrightarrow>
     selfIx a = selfIx b \<and> poke a = poke b \<and> happiness a = happiness b \<and>
     mood a = mood b \<and> personality a = personality b \<and> isPetted a = isPetted b \<and>
     isHovered a = isHovered b \<and> hoverTime a = hoverTime b \<and>
     timesBeenPetted a = timesBeenPetted b \<and> comfortDistance a = comfortDistance b \<and>
     fleeThreshold a = fleeThreshold b \<and> lastStrokeTime a = lastStrokeTime b \<and>
     fleeSpeed a = fleeSpeed b \<and> baseScale a = baseScale b \<and>
     position a = position b \<and> mesh a = mesh b \<and> balls a = balls b"
  by (simp add: proj_defs)

lemma controlD:
  "control a = control b \<Longrightarrow>
     state a = state b \<and> stateTimer a = stateTimer b \<and> previousState a = previousState b \<and>
     targetPosition a = targetPosition b \<and> isLyingDown a = isLyingDown b \<and>
     lyingDownProgress a = lyingDownProgress b \<and> tiredness a = tiredness b \<and>
     sleepTimer a = sleepTimer b \<and> playerAwareness a = playerAwareness b \<and>
     socialTarget a = socialTarget b"
  by (simp add: proj_defs)

lemma keeps_upd:
  fixes f :: frame
  shows
  "keeps (f\<lparr>velocity := v1\<rparr>) = keeps f \<and>
   keeps (f\<lparr>targetPosition := v2\<rparr>) = keeps f \<and>
   keeps (f\<lparr>state := v4\<rparr>) = keeps f \<and>
   keeps (f\<lparr>stateTimer := v5\<rparr>) = keeps f \<and>
   keeps (f\<lparr>previousState := v6\<rparr>) = keeps f \<and>
   keeps (f\<lparr>wanderSpeed := v7\<rparr>) = keeps f \<and>
   keeps (f\<lparr>approachSpeed := v8\<rparr>) = keeps f \<and>
   keeps (f\<lparr>idleTimer := v10\<rparr>) = keeps f \<and>
   keeps (f\<lparr>nextWanderTime := v11\<rparr>) = keeps f \<and>
   keeps (f\<lparr>homePosition := v12\<rparr>) = keeps f \<and>
   keeps (f\<lparr>initialRotation := v13\<rparr>) = keeps f \<and>
   keeps (f\<lparr>grazingTimer := v14\<rparr>) = keeps f \<and>
   keeps (f\<lparr>grazeHeadBob := v15\<rparr>) = keeps f \<and>
   keeps (f\<lparr>grazeDuration := v16\<rparr>) = keeps f \<and>
   keeps (f\<lparr>tiredness := v17\<rparr>) = keeps f \<and>
   keeps (f\<lparr>sleepTimer := v18\<rparr>) = keeps f \<and>
   keeps (f\<lparr>isLyingDown := v19\<rparr>) = keeps f \<and>
   keeps (f\<lparr>lyingDownProgress := v20\<rparr>) = keeps f \<and>
   keeps (f\<lparr>lookTarget := v21\<rparr>) = keeps f \<and>
   keeps (f\<lparr>lookTimer := v22\<rparr>) = keeps f \<and>
   keeps (f\<lparr>headTilt := v23\<rparr>) = keeps f \<and>
   keeps (f\<lparr>earWiggle := v24\<rparr>) = keeps f \<and>
   keeps (f\<lparr>socialTarget := v25\<rparr>) = keeps f \<and>
   keeps (f\<lparr>socialTimer := v26\<rparr>) = keeps f \<and>
   keeps (f\<lparr>lastSocialTime := v27\<rparr>) = keeps f \<and>
   keeps (f\<lparr>stretchProgress := v28\<rparr>) = keeps f \<and>
   keeps (f\<lparr>stretchType := v29\<rparr>) = keeps f \<and>
   keeps (f\<lparr>modelYOffset := v31\<rparr>) = keeps f \<and>
   keeps (f\<lparr>bobPhase := v32\<rparr>) = keeps f \<and>
   keeps (f\<lparr>petDuration := v35\<rparr>) = keeps f \<and>
   keeps (f\<lparr>playerAwareness := v39\<rparr>) = keeps f \<and>
   keeps (f\<lparr>targetEyeOpenness := v42\<rparr>) = keeps f \<and>
   keeps (f\<lparr>behaviorWeights := v44\<rparr>) = keeps f \<and>
   keeps (f\<lparr>attentionTarget := v45\<rparr>) = keeps f \<and>
   keeps (f\<lparr>attentionStrength := v46\<rparr>) = keeps f \<and>
   keeps (f\<lparr>lastAttentionShift := v47\<rparr>) = keeps f \<and>
   keeps (f\<lparr>earTwitchTimer := v48\<rparr>) = keeps f \<and>
   keeps (f\<lparr>tailWagTimer := v49\<rparr>) = keeps f \<and>
   keeps (f\<lparr>headShakeTimer := v50\<rparr>) = keeps f \<and>
   keeps (f\<lparr>pawGroundTimer := v51\<rparr>) = keeps f \<and>
   keeps (f\<lparr>sniffTimer := v52\<rparr>) = keeps f \<and>
   keeps (f\<lparr>lastPlayerPosition := v53\<rparr>) = keeps f \<and>
   keeps (f\<lparr>lastSeenPlayerTime := v54\<rparr>) = keeps f \<and>
   keeps (f\<lparr>favoriteSpot := v55\<rparr>) = keeps f \<and>
   keeps (f\<lparr>vocalizationTimer := v58\<rparr>) = keeps f \<and>
   keeps (f\<lparr>isVocalizing := v59\<rparr>) = keeps f \<and>
   keeps (f\<lparr>earRotation := v60\<rparr>) = keeps f \<and>
   keeps (f\<lparr>tailPosition := v61\<rparr>) = keeps f \<and>
   keeps (f\<lparr>headShakeActive := v62\<rparr>) = keeps f \<and>
   keeps (f\<lparr>headShakeProgress := v63\<rparr>) = keeps f \<and>
   keeps (f\<lparr>pawingGround := v64\<rparr>) = keeps f \<and>
   keeps (f\<lparr>pawProgress := v65\<rparr>) = keeps f \<and>
   keeps (f\<lparr>isSniffing := v66\<rparr>) = keeps f \<and>
   keeps (f\<lparr>sniffProgress := v67\<rparr>) = keeps f \<and>
   keeps (f\<lparr>squashStretch := v68\<rparr>) = keeps f \<and>
   keeps (f\<lparr>targetSquash := v69\<rparr>) = keeps f \<and>
   keeps (f\<lparr>woolBounce := v70\<rparr>) = keeps f \<and>
   keeps (f\<lparr>woolBounceVel := v71\<rparr>) = keeps f \<and>
   keeps (f\<lparr>breathPhase := v72\<rparr>) = keeps f \<and>
   keeps (f\<lparr>breathRate := v73\<rparr>) = keeps f \<and>
   keeps (f\<lparr>impactSquash := v74\<rparr>) = keeps f \<and>
   keeps (f\<lparr>contentWobble := v75\<rparr>) = keeps f \<and>
   keeps (f\<lparr>lastSpeed := v76\<rparr>) = keeps f \<and>
   keeps (f\<lparr>petWiggle := v77\<rparr>) = keeps f \<and>
   keeps (f\<lparr>petWiggleTarget := v78\<rparr>) = keeps f \<and>
   keeps (f\<lparr>rix := v80\<rparr>) = keeps f \<and>
   keeps (f\<lparr>pend := v81\<rparr>) = keeps f"
  by (simp add: proj_defs)

lemma control_upd:
  fixes f :: frame
  shows
  "control (f\<lparr>position := v0\<rparr>) = control f \<and>
   control (f\<lparr>velocity := v1\<rparr>) = control f \<and>
   control (f\<lparr>baseScale := v3\<rparr>) = control f \<and>
   control (f\<lparr>wanderSpeed := v7\<rparr>) = control f \<and>
   control (f\<lparr>approachSpeed := v8\<rparr>) = control f \<and>
   control (f\<lparr>fleeSpeed := v9\<rparr>) = control f \<and>
   control (f\<lparr>idleTimer := v10\<rparr>) = control f \<and>
   control (f\<lparr>nextWanderTime := v11\<rparr>) = control f \<and>
   control (f\<lparr>homePosition := v12\<rparr>) = control f \<and>
   control (f\<lparr>initialRotation := v13\<rparr>) = control f \<and>
   control (f\<lparr>grazingTimer := v14\<rparr>) = control f \<and>
   control (f\<lparr>grazeHeadBob := v15\<rparr>) = control f \<and>
   control (f\<lparr>grazeDuration := v16\<rparr>) = control f \<and>
   control (f\<lparr>lookTarget := v21\<rparr>) = control f \<and>
   control (f\<lparr>lookTimer := v22\<rparr>) = control f \<and>
   control (f\<lparr>headTilt := v23\<rparr>) = control f \<and>
   control (f\<lparr>earWiggle := v24\<rparr>) = control f \<and>
   control (f\<lparr>socialTimer := v26\<rparr>) = control f \<and>
   control (f\<lparr>lastSocialTime := v27\<rparr>) = control f \<and>
   control (f\<lparr>stretchProgress := v28\<rparr>) = control f \<and>
   control (f\<lparr>stretchType := v29\<rparr>) = control f \<and>
   control (f\<lparr>mesh := v30\<rparr>) = control f \<and>
   control (f\<lparr>modelYOffset := v31\<rparr>) = control f \<and>
   control (f\<lparr>bobPhase := v32\<rparr>) = control f \<and>
   control (f\<lparr>happiness := v33\<rparr>) = control f \<and>
   control (f\<lparr>isPetted := v34\<rparr>) = control f \<and>
   control (f\<lparr>petDuration := v35\<rparr>) = control f \<and>
   control (f\<lparr>lastStrokeTime := v36\<rparr>) = control f \<and>
   control (f\<lparr>isHovered := v37\<rparr>) = control f \<and>
   control (f\<lparr>hoverTime := v38\<rparr>) = control f \<and>
   control (f\<lparr>fleeThreshold := v40\<rparr>) = control f \<and>
   control (f\<lparr>comfortDistance := v41\<rparr>) = control f \<and>
   control (f\<lparr>targetEyeOpenness := v42\<rparr>) = control f \<and>
   control (f\<lparr>personality := v43\<rparr>) = control f \<and>
   control (f\<lparr>behaviorWeights := v44\<rparr>) = control f \<and>
   control (f\<lparr>attentionTarget := v45\<rparr>) = control f \<and>
   control (f\<lparr>attentionStrength := v46\<rparr>) = control f \<and>
   control (f\<lparr>lastAttentionShift := v47\<rparr>) = control f \<and>
   control (f\<lparr>earTwitchTimer := v48\<rparr>) = control f \<and>
   control (f\<lparr>tailWagTimer := v49\<rparr>) = control f \<and>
   control (f\<lparr>headShakeTimer := v50\<rparr>) = control f \<and>
   control (f\<lparr>pawGroundTimer := v51\<rparr>) = control f \<and>
   control (f\<lparr>sniffTimer := v52\<rparr>) = control f \<and>
   control (f\<lparr>lastPlayerPosition := v53\<rparr>) = control f \<and>
   control (f\<lparr>lastSeenPlayerTime := v54\<rparr>) = control f \<and>
   control (f\<lparr>favoriteSpot := v55\<rparr>) = control f \<and>
   control (f\<lparr>timesBeenPetted := v56\<rparr>) = control f \<and>
   control (f\<lparr>mood := v57\<rparr>) = control f \<and>
   control (f\<lparr>vocalizationTimer := v58\<rparr>) = control f \<and>
   control (f\<lparr>isVocalizing := v59\<rparr>) = control f \<and>
   control (f\<lparr>earRotation := v60\<rparr>) = control f \<and>
   control (f\<lparr>tailPosition := v61\<rparr>) = control f \<and>
   control (f\<lparr>headShakeActive := v62\<rparr>) = control f \<and>
   control (f\<lparr>headShakeProgress := v63\<rparr>) = control f \<and>
   control (f\<lparr>pawingGround := v64\<rparr>) = control f \<and>
   control (f\<lparr>pawProgress := v65\<rparr>) = control f \<and>
   control (f\<lparr>isSniffing := v66\<rparr>) = control f \<and>
   control (f\<lparr>sniffProgress := v67\<rparr>) = control f \<and>
   control (f\<lparr>squashStretch := v68\<rparr>) = control f \<and>
   control (f\<lparr>targetSquash := v69\<rparr>) = control f \<and>
   control (f\<lparr>woolBounce := v70\<rparr>) = control f \<and>
   control (f\<lparr>woolBounceVel := v71\<rparr>) = control f \<and>
   control (f\<lparr>breathPhase := v72\<rparr>) = control f \<and>
   control (f\<lparr>breathRate := v73\<rparr>) = control f \<and>
   control (f\<lparr>impactSquash := v74\<rparr>) = control f \<and>
   control (f\<lparr>contentWobble := v75\<rparr>) = control f \<and>
   control (f\<lparr>lastSpeed := v76\<rparr>) = control f \<and>
   control (f\<lparr>petWiggle := v77\<rparr>) = control f \<and>
   control (f\<lparr>petWiggleTarget := v78\<rparr>) = control f \<and>
   control (f\<lparr>selfIx := v79\<rparr>) = control f \<and>
   control (f\<lparr>rix := v80\<rparr>) = control f \<and>
   control (f\<lparr>pend := v81\<rparr>) = control f \<and>
   control (f\<lparr>poke := v82\<rparr>) = control f \<and>
   control (f\<lparr>balls := v83\<rparr>) = control f"
  by (simp add: proj_defs)

lemma option_case_same: "(case opt of None \<Rightarrow> a | Some x \<Rightarrow> a) = a"
  by (cases opt) auto

lemma keeps_prims:
  "keeps (tick f) = keeps f" "keeps (setTimeout cb d f) = keeps f"
  "keeps (setState s f) = keeps f" "keeps (standUp f) = keeps f"
  by (simp_all add: proj_defs prim_defs)

lemma control_prims:
  "control (tick f) = control f" "control (setTimeout cb d f) = control f"
  by (simp_all add: proj_defs prim_defs)

lemmas push =
  if_distrib [of keeps] if_distrib [of control]
  option.case_distrib [of keeps] option.case_distrib [of control]
  prod.case_distrib [of keeps] prod.case_distrib [of control]
  keeps_upd control_upd keeps_prims control_prims option_case_same case_prod_beta Let_def

lemma state_setState [simp]: "state (setState s c) = s"
  by (simp add: setState_def)

lemma doBlink_keeps [simp]: "keeps (doBlink f) = keeps f" "control (doBlink f) = control f"
  by (simp_all add: doBlink_def push)

lemma blinkChance_keeps [simp]:
  "keeps (blinkChance g p f) = keeps f" "control (blinkChance g p f) = control f"
  by (simp_all add: blinkChance_def push cong: if_cong)

lemma doEarTwitch_keeps [simp]:
  "keeps (doEarTwitch g f) = keeps f" "control (doEarTwitch g f) = control f"
  by (simp_all add: doEarTwitch_def push cong: if_cong)

lemma doTailWag_keeps [simp]:
  "keeps (doTailWag g f) = keeps f" "control (doTailWag g f) = control f"
  by (simp_all add: doTailWag_def push cong: if_cong)

lemma doHeadShake_keeps [simp]:
  "keeps (doHeadShake f) = keeps f" "control (doHeadShake f) = control f"
  by (simp_all add: doHeadShake_def push)

lemma doPawGround_keeps [simp]:
  "keeps (doPawGround f) = keeps f" "control (doPawGround f) = control f"
  by (simp_all add: doPawGround_def push)

lemma doSniff_keeps [simp]:
  "keeps (doSniff f) = keeps f" "control (doSniff f) = control f"
  by (simp_all add: doSniff_def push)

lemma doVocalize_keeps [simp]:
  "keeps (doVocalize g f) = keeps f" "control (doVocalize g f) = control f"
  by (simp_all add: doVocalize_def push cong: if_cong option.case_cong)

lemma earTwitchStep_keeps [simp]:
  "keeps (earTwitchStep g dt f) = keeps f" "control (earTwitchStep g dt f) = control f"
  by (simp_all add: earTwitchStep_def push cong: if_cong)

lemma tailWagStep_keeps [simp]:
  "keeps (tailWagStep g dt f) = keeps f" "control (tailWagStep g dt f) = control f"
  by (simp_all add: tailWagStep_def push cong: if_cong)

lemma headShakeStep_keeps [simp]:
  "keeps (headShakeStep g dt f) = keeps f" "control (headShakeStep g dt f) = control f"
  by (simp_all add: headShakeStep_def push cong: if_cong)

lemma pawGroundStep_keeps [simp]:
  "keeps (pawGroundStep g dt f) = keeps f" "control (pawGroundStep g dt f) = control f"
  by (simp_all add: pawGroundStep_def push cong: if_cong)

lemma sniffStep_keeps [simp]:
  "keeps (sniffStep g dt f) = keeps f" "control (sniffStep g dt f) = control f"
  by (simp_all add: sniffStep_def push cong: if_cong)

lemma vocalizeStep_keeps [simp]:
  "keeps (vocalizeStep g dt f) = keeps f" "control (vocalizeStep g dt f) = control f"
  by (simp_all add: vocalizeStep_def push cong: if_cong)

lemma updateMicroBehaviors_keeps [simp]:
  "keeps (updateMicroBehaviors g dt f) = keeps f"
  "control (updateMicroBehaviors g dt f) = control f"
  by (simp_all add: updateMicroBehaviors_def push)

lemma shiftAttention_keeps [simp]:
  "keeps (shiftAttention g pp f) = keeps f" "control (shiftAttention g pp f) = control f"
  by (simp_all add: shiftAttention_def push cong: if_cong option.case_cong)

lemma updateAttention_keeps [simp]:
  "keeps (updateAttention g now dt pp f) = keeps f"
  "control (updateAttention g now dt pp f) = control f"
  by (simp_all add: updateAttention_def push cong: if_cong option.case_cong)

lemma updateMood_keeps [simp]:
  "keeps ((updateMood dt pp f)\<lparr>mood := mood f\<rparr>) = keeps f"
  "control (updateMood dt pp f) = control f"
  by (simp_all add: updateMood_def push)

lemma startle_keeps [simp]: "keeps (startle g p f) = keeps f"
  by (simp add: startle_def push cong: if_cong)

lemma updatePlayerAwareness_keeps [simp]:
  "keeps (updatePlayerAwareness g dt pp f) = keeps f"
  by (simp add: updatePlayerAwareness_def push cong: if_cong option.case_cong)

section \<open>Entering a call, and the small world\<close>

lemma enter_fields [simp]:
  "position (enter g i) = position (cloudfens g ! i) \<and>
   velocity (enter g i) = velocity (cloudfens g ! i) \<and>
   targetPosition (enter g i) = targetPosition (cloudfens g ! i) \<and>
   baseScale (enter g i) = baseScale (cloudfens g ! i) \<and>
   state (enter g i) = state (cloudfens g ! i) \<and>
   stateTimer (enter g i) = stateTimer (cloudfens g ! i) \<and>
   previousState (enter g i) = previousState (cloudfens g ! i) \<and>
   wanderSpeed (enter g i) = wanderSpeed (cloudfens g ! i) \<and>
   approachSpeed (enter g i) = approachSpeed (cloudfens g ! i) \<and>
   fleeSpeed (enter g i) = fleeSpeed (cloudfens g ! i) \<and>
   idleTimer (enter g i) = idleTimer (cloudfens g ! i) \<and>
   nextWanderTime (enter g i) = nextWanderTime (cloudfens g ! i) \<and>
   homePosition (enter g i) = homePosition (cloudfens g ! i) \<and>
   initialRotation (enter g i) = initialRotation (cloudfens g ! i) \<and>
   grazingTimer (enter g i) = grazingTimer (cloudfens g ! i) \<and>
   grazeHeadBob (enter g i) = grazeHeadBob (cloudfens g ! i) \<and>
   grazeDuration (enter g i) = grazeDuration (cloudfens g ! i) \<and>
   tiredness (enter g i) = tiredness (cloudfens g ! i) \<and>
   sleepTimer (enter g i) = sleepTimer (cloudfens g ! i) \<and>
   isLyingDown (enter g i) = isLyingDown (cloudfens g ! i) \<and>
   lyingDownProgress (enter g i) = lyingDownProgress (cloudfens g ! i) \<and>
   lookTarget (enter g i) = lookTarget (cloudfens g ! i) \<and>
   lookTimer (enter g i) = lookTimer (cloudfens g ! i) \<and>
   headTilt (enter g i) = headTilt (cloudfens g ! i) \<and>
   earWiggle (enter g i) = earWiggle (cloudfens g ! i) \<and>
   socialTarget (enter g i) = socialTarget (cloudfens g ! i) \<and>
   socialTimer (enter g i) = socialTimer (cloudfens g ! i) \<and>
   lastSocialTime (enter g i) = lastSocialTime (cloudfens g ! i) \<and>
   stretchProgress (enter g i) = stretchProgress (cloudfens g ! i) \<and>
   stretchType (enter g i) = stretchType (cloudfens g ! i) \<and>
   mesh (enter g i) = mesh (cloudfens g ! i) \<and>
   modelYOffset (enter g i) = modelYOffset (cloudfens g ! i) \<and>
   bobPhase (enter g i) = bobPhase (cloudfens g ! i) \<and>
   happiness (enter g i) = happiness (cloudfens g ! i) \<and>
   isPetted (enter g i) = isPetted (cloudfens g ! i) \<and>
   petDuration (enter g i) = petDuration (cloudfens g ! i) \<and>
   lastStrokeTime (enter g i) = lastStrokeTime (cloudfens g ! i) \<and>
   isHovered (enter g i) = isHovered (cloudfens g ! i) \<and>
   hoverTime (enter g i) = hoverTime (cloudfens g ! i) \<and>
   playerAwareness (enter g i) = playerAwareness (cloudfens g ! i) \<and>
   fleeThreshold (enter g i) = fleeThreshold (cloudfens g ! i) \<and>
   comfortDistance (enter g i) = comfortDistance (cloudfens g ! i) \<and>
   targetEyeOpenness (enter g i) = targetEyeOpenness (cloudfens g ! i) \<and>
   personality (enter g i) = personality (cloudfens g ! i) \<and>
   behaviorWeights (enter g i) = behaviorWeights (cloudfens g ! i) \<and>
   attentionTarget (enter g i) = attentionTarget (cloudfens g ! i) \<and>
   attentionStrength (enter g i) = attentionStrength (cloudfens g ! i) \<and>
   lastAttentionShift (enter g i) = lastAttentionShift (cloudfens g ! i) \<and>
   earTwitchTimer (enter g i) = earTwitchTimer (cloudfens g ! i) \<and>
   tailWagTimer (enter g i) = tailWagTimer (cloudfens g ! i) \<and>
   headShakeTimer (enter g i) = headShakeTimer (cloudfens g ! i) \<and>
   pawGroundTimer (enter g i) = pawGroundTimer (cloudfens g ! i) \<and>
   sniffTimer (enter g i) = sniffTimer (cloudfens g ! i) \<and>
   lastPlayerPosition (enter g i) = lastPlayerPosition (cloudfens g ! i) \<and>
   lastSeenPlayerTime (enter g i) = lastSeenPlayerTime (cloudfens g ! i) \<and>
   favoriteSpot (enter g i) = favoriteSpot (cloudfens g ! i) \<and>
   timesBeenPetted (enter g i) = timesBeenPetted (cloudfens g ! i) \<and>
   mood (enter g i) = mood (cloudfens g ! i) \<and>
   vocalizationTimer (enter g i) = vocalizationTimer (cloudfens g ! i) \<and>
   isVocalizing (enter g i) = isVocalizing (cloudfens g ! i) \<and>
   earRotation (enter g i) = earRotation (cloudfens g ! i) \<and>
   tailPosition (enter g i) = tailPosition (cloudfens g ! i) \<and>
   headShakeActive (enter g i) = headShakeActive (cloudfens g ! i) \<and>
   headShakeProgress (enter g i) = headShakeProgress (cloudfens g ! i) \<and>
   pawingGround (enter g i) = pawingGround (cloudfens g ! i) \<and>
   pawProgress (enter g i) = pawProgress (cloudfens g ! i) \<and>
   isSniffing (enter g i) = isSniffing (cloudfens g ! i) \<and>
   sniffProgress (enter g i) = sniffProgress (cloudfens g ! i) \<and>
   squashStretch (enter g i) = squashStretch (cloudfens g ! i) \<and>
   targetSquash (enter g i) = targetSquash (cloudfens g ! i) \<and>
   woolBounce (enter g i) = woolBounce (cloudfens g ! i) \<and>
   woolBounceVel (enter g i) = woolBounceVel (cloudfens g ! i) \<and>
   breathPhase (enter g i) = breathPhase (cloudfens g ! i) \<and>
   breathRate (enter g i) = breathRate (cloudfens g ! i) \<and>
   impactSquash (enter g i) = impactSquash (cloudfens g ! i) \<and>
   contentWobble (enter g i) = contentWobble (cloudfens g ! i) \<and>
   lastSpeed (enter g i) = lastSpeed (cloudfens g ! i) \<and>
   petWiggle (enter g i) = petWiggle (cloudfens g ! i) \<and>
   petWiggleTarget (enter g i) = petWiggleTarget (cloudfens g ! i)"
  by (simp add: enter_def cloudfen.defs)

lemma truncate_fields [simp]:
  fixes f :: frame
  shows
  "position (cloudfen.truncate f) = position f \<and>
   velocity (cloudfen.truncate f) = velocity f \<and>
   targetPosition (cloudfen.truncate f) = targetPosition f \<and>
   baseScale (cloudfen.truncate f) = baseScale f \<and>
   state (cloudfen.truncate f) = state f \<and>
   stateTimer (cloudfen.truncate f) = stateTimer f \<and>
   previousState (cloudfen.truncate f) = previousState f \<and>
   wanderSpeed (cloudfen.truncate f) = wanderSpeed f \<and>
   approachSpeed (cloudfen.truncate f) = approachSpeed f \<and>
   fleeSpeed (cloudfen.truncate f) = fleeSpeed f \<and>
   idleTimer (cloudfen.truncate f) = idleTimer f \<and>
   nextWanderTime (cloudfen.truncate f) = nextWanderTime f \<and>
   homePosition (cloudfen.truncate f) = homePosition f \<and>
   initialRotation (cloudfen.truncate f) = initialRotation f \<and>
   grazingTimer (cloudfen.truncate f) = grazingTimer f \<and>
   grazeHeadBob (cloudfen.truncate f) = grazeHeadBob f \<and>
   grazeDuration (cloudfen.truncate f) = grazeDuration f \<and>
   tiredness (cloudfen.truncate f) = tiredness f \<and>
   sleepTimer (cloudfen.truncate f) = sleepTimer f \<and>
   isLyingDown (cloudfen.truncate f) = isLyingDown f \<and>
   lyingDownProgress (cloudfen.truncate f) = lyingDownProgress f \<and>
   lookTarget (cloudfen.truncate f) = lookTarget f \<and>
   lookTimer (cloudfen.truncate f) = lookTimer f \<and>
   headTilt (cloudfen.truncate f) = headTilt f \<and>
   earWiggle (cloudfen.truncate f) = earWiggle f \<and>
   socialTarget (cloudfen.truncate f) = socialTarget f \<and>
   socialTimer (cloudfen.truncate f) = socialTimer f \<and>
   lastSocialTime (cloudfen.truncate f) = lastSocialTime f \<and>
   stretchProgress (cloudfen.truncate f) = stretchProgress f \<and>
   stretchType (cloudfen.truncate f) = stretchType f \<and>
   mesh (cloudfen.truncate f) = mesh f \<and>
   modelYOffset (cloudfen.truncate f) = modelYOffset f \<and>
   bobPhase (cloudfen.truncate f) = bobPhase f \<and>
   happiness (cloudfen.truncate f) = happiness f \<and>
   isPetted (cloudfen.truncate f) = isPetted f \<and>
   petDuration (cloudfen.truncate f) = petDuration f \<and>
   lastStrokeTime (cloudfen.truncate f) = lastStrokeTime f \<and>
   isHovered (cloudfen.truncate f) = isHovered f \<and>
   hoverTime (cloudfen.truncate f) = hoverTime f \<and>
   playerAwareness (cloudfen.truncate f) = playerAwareness f \<and>
   fleeThreshold (cloudfen.truncate f) = fleeThreshold f \<and>
   comfortDistance (cloudfen.truncate f) = comfortDistance f \<and>
   targetEyeOpenness (cloudfen.truncate f) = targetEyeOpenness f \<and>
   personality (cloudfen.truncate f) = personality f \<and>
   behaviorWeights (cloudfen.truncate f) = behaviorWeights f \<and>
   attentionTarget (cloudfen.truncate f) = attentionTarget f \<and>
   attentionStrength (cloudfen.truncate f) = attentionStrength f \<and>
   lastAttentionShift (cloudfen.truncate f) = lastAttentionShift f \<and>
   earTwitchTimer (cloudfen.truncate f) = earTwitchTimer f \<and>
   tailWagTimer (cloudfen.truncate f) = tailWagTimer f \<and>
   headShakeTimer (cloudfen.truncate f) = headShakeTimer f \<and>
   pawGroundTimer (cloudfen.truncate f) = pawGroundTimer f \<and>
   sniffTimer (cloudfen.truncate f) = sniffTimer f \<and>
   lastPlayerPosition (cloudfen.truncate f) = lastPlayerPosition f \<and>
   lastSeenPlayerTime (cloudfen.truncate f) = lastSeenPlayerTime f \<and>
   favoriteSpot (cloudfen.truncate f) = favoriteSpot f \<and>
   timesBeenPetted (cloudfen.truncate f) = timesBeenPetted f \<and>
   mood (cloudfen.truncate f) = mood f \<and>
   vocalizationTimer (cloudfen.truncate f) = vocalizationTimer f \<and>
   isVocalizing (cloudfen.truncate f) = isVocalizing f \<and>
   earRotation (cloudfen.truncate f) = earRotation f \<and>
   tailPosition (cloudfen.truncate f) = tailPosition f \<and>
   headShakeActive (cloudfen.truncate f) = headShakeActive f \<and>
   headShakeProgress (cloudfen.truncate f) = headShakeProgress f \<and>
   pawingGround (cloudfen.truncate f) = pawingGround f \<and>
   pawProgress (cloudfen.truncate f) = pawProgress f \<and>
   isSniffing (cloudfen.truncate f) = isSniffing f \<and>
   sniffProgress (cloudfen.truncate f) = sniffProgress f \<and>
   squashStretch (cloudfen.truncate f) = squashStretch f \<and>
   targetSquash (cloudfen.truncate f) = targetSquash f \<and>
   woolBounce (cloudfen.truncate f) = woolBounce f \<and>
   woolBounceVel (cloudfen.truncate f) = woolBounceVel f \<and>
   breathPhase (cloudfen.truncate f) = breathPhase f \<and>
   breathRate (cloudfen.truncate f) = breathRate f \<and>
   impactSquash (cloudfen.truncate f) = impactSquash f \<and>
   contentWobble (cloudfen.truncate f) = contentWobble f \<and>
   lastSpeed (cloudfen.truncate f) = lastSpeed f \<and>
   petWiggle (cloudfen.truncate f) = petWiggle f \<and>
   petWiggleTarget (cloudfen.truncate f) = petWiggleTarget f"
  by (simp add: cloudfen.defs)

lemma enter_frame [simp]:
  "selfIx (enter g i) = i" "rix (enter g i) = rcur g" "pend (enter g i) = []"
  "poke (enter g i) = None"
  "balls (enter g i) = (case mossBalls g of None \<Rightarrow> [] | Some bs \<Rightarrow> bs)"
  by (simp_all add: enter_def cloudfen.defs)

lemma truncate_enter [simp]: "cloudfen.truncate (enter g i) = cloudfens g ! i"
  by (simp add: enter_def cloudfen.defs)

lemma worldOf_fields [simp]:
  "cloudfens (worldOf cs) = cs" "mossBalls (worldOf cs) = None" "player (worldOf cs) = None"
  "gameScene (worldOf cs) = None" "effects (worldOf cs)" "audio (worldOf cs)"
  "timers (worldOf cs) = []" "rand (worldOf cs) n = 1 / 2" "rcur (worldOf cs) = 0"
  by (simp_all add: worldOf_def emptyWorld_def)

lemma sheepAt_fields [simp]:
  "position (sheepAt a b) = \<lparr>vx = a, vy = 0, vz = b\<rparr>"
  "velocity (sheepAt a b) = \<lparr>vx = 0, vy = 0, vz = 0\<rparr>"
  "mesh (sheepAt a b) \<noteq> None"
  "state (sheepAt a b) = IDLE"
  "stateTimer (sheepAt a b) = 0"
  "baseScale (sheepAt a b) = 1"
  "happiness (sheepAt a b) = 0"
  "isPetted (sheepAt a b) = False"
  "isHovered (sheepAt a b) = False"
  "timesBeenPetted (sheepAt a b) = 0"
  "mood (sheepAt a b) = \<lparr>contentment = 13 / 20, alertness = 2 / 5, playfulness = 1 / 4\<rparr>"
  "personality (sheepAt a b) =
     \<lparr>shyness = 1 / 2, friendliness = 3 / 4, curiosity = 11 / 20, flightiness = 2 / 5,
      laziness = 9 / 20, sociability = 3 / 5\<rparr>"
  "fleeThreshold (sheepAt a b) = 5 / 2"
  "comfortDistance (sheepAt a b) = 4"
  "targetPosition (sheepAt a b) = None"
  "tiredness (sheepAt a b) = 3 / 20"
  "sleepTimer (sheepAt a b) = 0"
  "fleeSpeed (sheepAt a b) = 4"
  by (simp_all add: sheepAt_def init_def Cloudfen_def Vector3_def Let_def groundHeight_def
      emptyWorld_def)

section \<open>Starting to pet\<close>

text \<open>
  C10. \<open>startPetting()\<close> on a creature in \<open>bliss\<close> leaves the state \<open>bliss\<close>, on a
  creature in any other state it forces \<open>petted\<close>; either way \<open>isPetted\<close> becomes
  true, \<open>timesBeenPetted\<close> goes up by one and contentment and playfulness are nudged
  up by 0.2 and 0.1, capped at 1. The creature has its mesh (or there are no effects to
  hand the mesh position to).
\<close>

theorem startPetting_bliss_stays:
  assumes "mesh f \<noteq> None \<or> \<not> effects g"
  shows "\<exists>f'. startPetting g now f = Inr f' \<and>
           state f' = (if state f = BLISS then BLISS else PETTED) \<and>
           isPetted f' \<and> timesBeenPetted f' = Suc (timesBeenPetted f) \<and>
           contentment (mood f') = min 1 (contentment (mood f) + 0.2) \<and>
           playfulness (mood f') = min 1 (playfulness (mood f) + 0.1)"
  using assms by (auto simp: startPetting_def Let_def setState_def tick_def)

theorem startPetting_bliss_stays_witness:
  "mesh (enter (worldOf [(sheepAt 0 0)\<lparr>state := BLISS\<rparr>, (sheepAt 3 0)\<lparr>state := FLEEING\<rparr>]) 0) \<noteq> None \<and>
   (\<exists>f'. startPetting (worldOf [(sheepAt 0 0)\<lparr>state := BLISS\<rparr>, (sheepAt 3 0)\<lparr>state := FLEEING\<rparr>]) 0
             (enter (worldOf [(sheepAt 0 0)\<lparr>state := BLISS\<rparr>, (sheepAt 3 0)\<lparr>state := FLEEING\<rparr>]) 0) = Inr f' \<and>
          state f' = BLISS \<and> isPetted f' \<and> timesBeenPetted f' = 1 \<and>
          contentment (mood f') = 17 / 20 \<and> playfulness (mood f') = 7 / 20) \<and>
   (\<exists>f'. startPetting (worldOf [(sheepAt 0 0)\<lparr>state := BLISS\<rparr>, (sheepAt 3 0)\<lparr>state := FLEEING\<rparr>]) 0
             (enter (worldOf [(sheepAt 0 0)\<lparr>state := BLISS\<rparr>, (sheepAt 3 0)\<lparr>state := FLEEING\<rparr>]) 1) = Inr f' \<and>
          state f' = PETTED \<and> isPetted f' \<and> timesBeenPetted f' = 1 \<and>
          contentment (mood f') = 17 / 20 \<and> playfulness (mood f') = 7 / 20)"
  using startPetting_bliss_stays
          [of "enter (worldOf [(sheepAt 0 0)\<lparr>state := BLISS\<rparr>, (sheepAt 3 0)\<lparr>state := FLEEING\<rparr>]) 0"
              "worldOf [(sheepAt 0 0)\<lparr>state := BLISS\<rparr>, (sheepAt 3 0)\<lparr>state := FLEEING\<rparr>]" 0]
        startPetting_bliss_stays
          [of "enter (worldOf [(sheepAt 0 0)\<lparr>state := BLISS\<rparr>, (sheepAt 3 0)\<lparr>state := FLEEING\<rparr>]) 1"
              "worldOf [(sheepAt 0 0)\<lparr>state := BLISS\<rparr>, (sheepAt 3 0)\<lparr>state := FLEEING\<rparr>]" 0]
  by simp

section \<open>Being called\<close>

lemma vlength_nonneg [simp]: "0 \<le> vlength a"
  by (simp add: vlength_def)

lemma vlength_scale: "vlength (multiplyScalar a s) = \<bar>s\<bar> * vlength a"
proof -
  have "vx a * s * (vx a * s) + vy a * s * (vy a * s) + vz a * s * (vz a * s) =
        s\<^sup>2 * (vx a * vx a + vy a * vy a + vz a * vz a)"
    by (simp add: power2_eq_square algebra_simps)
  then show ?thesis
    by (simp add: vlength_def multiplyScalar_def real_sqrt_mult)
qed

lemma vlength_normalize: "vlength a \<noteq> 0 \<Longrightarrow> vlength (normalize a) = 1"
  by (simp add: normalize_def vlength_scale)







section \<open>Call and response\<close>

lemma findNearestLoop_skip:
  "k = this \<or> \<not> validPeer other \<Longrightarrow>
     findNearestLoop this pos ((k, other) # xs) acc = findNearestLoop this pos xs acc"
  by (auto simp: validPeer_def)

lemma findNearestLoop_take:
  "k \<noteq> this \<Longrightarrow> validPeer other \<Longrightarrow>
     findNearestLoop this pos ((k, other) # xs) acc =
       (if (case acc of None \<Rightarrow> True | Some (n, nd) \<Rightarrow> hdist (position other) pos < nd)
        then findNearestLoop this pos xs (Some (k, hdist (position other) pos))
        else findNearestLoop this pos xs acc)"
  unfolding hdist_def validPeer_def by (simp add: Let_def)

lemma findNearestLoop_sound:
  "findNearestLoop this pos xs acc = Some (j, d) \<Longrightarrow>
     acc = Some (j, d) \<or>
     (\<exists>other. (j, other) \<in> set xs \<and> j \<noteq> this \<and> validPeer other \<and>
              d = hdist (position other) pos)"
proof (induction xs arbitrary: acc)
  case Nil
  then show ?case by simp
next
  case (Cons a xs)
  obtain k other where a: "a = (k, other)" by (cases a)
  show ?case
  proof (cases "k = this \<or> \<not> validPeer other")
    case True
    with Cons.prems a have "findNearestLoop this pos xs acc = Some (j, d)"
      by (simp add: findNearestLoop_skip del: findNearestLoop.simps)
    from Cons.IH[OF this] show ?thesis by auto
  next
    case False
    let ?dist = "hdist (position other) pos"
    show ?thesis
    proof (cases "case acc of None \<Rightarrow> True | Some (n, nd) \<Rightarrow> ?dist < nd")
      case True
      with False Cons.prems a
      have "findNearestLoop this pos xs (Some (k, ?dist)) = Some (j, d)"
        by (simp add: findNearestLoop_take del: findNearestLoop.simps)
      from Cons.IH[OF this] False a show ?thesis by auto
    next
      case F2: False
      with False Cons.prems a
      have "findNearestLoop this pos xs acc = Some (j, d)"
        by (simp add: findNearestLoop_take del: findNearestLoop.simps)
      from Cons.IH[OF this] show ?thesis by auto
    qed
  qed
qed

lemma findNearestLoop_min:
  "findNearestLoop this pos xs acc = Some (j, d) \<Longrightarrow>
     (\<forall>n dn. acc = Some (n, dn) \<longrightarrow> d \<le> dn) \<and>
     (\<forall>k other. (k, other) \<in> set xs \<and> k \<noteq> this \<and> validPeer other \<longrightarrow>
                 d \<le> hdist (position other) pos)"
proof (induction xs arbitrary: acc)
  case Nil
  then show ?case by auto
next
  case (Cons a xs)
  obtain k other where a: "a = (k, other)" by (cases a)
  show ?case
  proof (cases "k = this \<or> \<not> validPeer other")
    case True
    with Cons.prems a have "findNearestLoop this pos xs acc = Some (j, d)"
      by (simp add: findNearestLoop_skip del: findNearestLoop.simps)
    from Cons.IH[OF this] True a show ?thesis by auto
  next
    case False
    let ?dist = "hdist (position other) pos"
    show ?thesis
    proof (cases "case acc of None \<Rightarrow> True | Some (n, nd) \<Rightarrow> ?dist < nd")
      case True
      with False Cons.prems a
      have "findNearestLoop this pos xs (Some (k, ?dist)) = Some (j, d)"
        by (simp add: findNearestLoop_take del: findNearestLoop.simps)
      from Cons.IH[OF this] have ih: "d \<le> ?dist"
        "\<forall>k other. (k, other) \<in> set xs \<and> k \<noteq> this \<and> validPeer other \<longrightarrow>
                 d \<le> hdist (position other) pos" by auto
      from True ih(1) have "\<forall>n dn. acc = Some (n, dn) \<longrightarrow> d \<le> dn" by auto
      with ih a show ?thesis by auto
    next
      case F2: False
      with False Cons.prems a
      have "findNearestLoop this pos xs acc = Some (j, d)"
        by (simp add: findNearestLoop_take del: findNearestLoop.simps)
      from Cons.IH[OF this] have ih: "\<forall>n dn. acc = Some (n, dn) \<longrightarrow> d \<le> dn"
        "\<forall>k other. (k, other) \<in> set xs \<and> k \<noteq> this \<and> validPeer other \<longrightarrow>
                 d \<le> hdist (position other) pos" by auto
      from F2 obtain n nd where acc: "acc = Some (n, nd)" "\<not> ?dist < nd"
        by (cases acc) auto
      with ih(1) have "d \<le> ?dist" by auto
      with ih a show ?thesis by auto
    qed
  qed
qed

lemma findNearestLoop_None:
  "findNearestLoop this pos xs acc = None \<longleftrightarrow>
     acc = None \<and> (\<forall>k other. (k, other) \<in> set xs \<longrightarrow> k = this \<or> \<not> validPeer other)"
proof (induction xs arbitrary: acc)
  case Nil
  then show ?case by simp
next
  case (Cons a xs)
  obtain k other where a: "a = (k, other)" by (cases a)
  show ?case
  proof (cases "k = this \<or> \<not> validPeer other")
    case True
    then show ?thesis using Cons.IH a
      by (auto simp: findNearestLoop_skip simp del: findNearestLoop.simps)
  next
    case False
    then show ?thesis using Cons.IH a
      by (auto simp: findNearestLoop_take simp del: findNearestLoop.simps split: option.splits)
  qed
qed

lemma in_enumerate0: "(j, c) \<in> set (enumerate 0 cs) \<longleftrightarrow> j < length cs \<and> c = cs ! j"
  by (auto simp: in_set_enumerate_eq)

lemma findNearestSheep_Some:
  assumes "findNearestSheep g f = Some (j, d)"
  shows "j < length (cloudfens g) \<and> j \<noteq> selfIx f \<and> validPeer (cloudfens g ! j) \<and>
         d = hdist (position (cloudfens g ! j)) (position f) \<and>
         (\<forall>k < length (cloudfens g). k \<noteq> selfIx f \<and> validPeer (cloudfens g ! k) \<longrightarrow>
            d \<le> hdist (position (cloudfens g ! k)) (position f))"
  using findNearestLoop_sound [OF assms [unfolded findNearestSheep_def]]
        findNearestLoop_min [OF assms [unfolded findNearestSheep_def]]
  by (auto simp: in_enumerate0)

lemma findNearestSheep_None:
  assumes "findNearestSheep g f = None"
  shows "\<forall>k < length (cloudfens g). k = selfIx f \<or> \<not> validPeer (cloudfens g ! k)"
  using assms by (auto simp: findNearestSheep_def findNearestLoop_None in_enumerate0)

lemma findNearestSheep_cong:
  "selfIx a = selfIx b \<Longrightarrow> position a = position b \<Longrightarrow>
     findNearestSheep g a = findNearestSheep g b"
  by (simp add: findNearestSheep_def)

lemma pend_doVocalize:
  "pend (doVocalize g f) =
     pend f @ (500, VocalOff (selfIx f)) #
       (if rand g (rix f) < 0.3 then
          (case findNearestSheep g f of
             None \<Rightarrow> []
           | Some (j, d) \<Rightarrow>
               if d < 10 then [(300 + rand g (Suc (rix f)) * 500, RespondVocalize j)] else [])
        else [])"
  by (simp add: doVocalize_def Let_def prim_defs findNearestSheep_def split: option.splits)

text \<open>
  C8, as the code has it. \<open>_doVocalize\<close> always registers the 500 ms timer that clears
  \<open>isVocalizing\<close>. When its roll is below 0.3 it looks for the nearest valid peer
  (one that is not this creature and is none of sleeping, fleeing, petted, bliss, by
  horizontal distance) and registers a response on it only if that peer is less than
  10 units away; the delay is 300 ms plus 500 ms times a second roll, so it lies in
  \<open>[300, 800)\<close>. The response makes the peer vocalize unless it is sleeping when the
  timer fires.
\<close>

theorem doVocalize_response:
  "pend (doVocalize g f) =
     pend f @ (500, VocalOff (selfIx f)) #
       (if rand g (rix f) < 0.3 then
          (case findNearestSheep g f of
             None \<Rightarrow> []
           | Some (j, d) \<Rightarrow>
               if d < 10 then [(300 + rand g (Suc (rix f)) * 500, RespondVocalize j)] else [])
        else []) \<and>
   (0 \<le> rand g (Suc (rix f)) \<and> rand g (Suc (rix f)) < 1 \<longrightarrow>
      300 \<le> 300 + rand g (Suc (rix f)) * 500 \<and> 300 + rand g (Suc (rix f)) * 500 < 800) \<and>
   (\<forall>j d. findNearestSheep g f = Some (j, d) \<longrightarrow>
      j < length (cloudfens g) \<and> j \<noteq> selfIx f \<and> validPeer (cloudfens g ! j) \<and>
      d = hdist (position (cloudfens g ! j)) (position f) \<and>
      (\<forall>k < length (cloudfens g). k \<noteq> selfIx f \<and> validPeer (cloudfens g ! k) \<longrightarrow>
         d \<le> hdist (position (cloudfens g ! k)) (position f))) \<and>
   (findNearestSheep g f = None \<longrightarrow>
      (\<forall>k < length (cloudfens g). k = selfIx f \<or> \<not> validPeer (cloudfens g ! k))) \<and>
   (state f2 = SLEEPING \<longrightarrow> doRespondVocalize f2 = f2) \<and>
   (state f2 \<noteq> SLEEPING \<longrightarrow> isVocalizing (doRespondVocalize f2))"
proof -
  have range: "0 \<le> r \<and> r < 1 \<longrightarrow> 300 \<le> 300 + r * 500 \<and> 300 + r * 500 < 800" for r :: real
    by auto
  show ?thesis
    using pend_doVocalize [of g f] findNearestSheep_Some [of g f] findNearestSheep_None [of g f]
          range [of "rand g (Suc (rix f))"]
    by (simp add: doRespondVocalize_def prim_defs)
qed


theorem doVocalize_response_witness:
  "pend (doVocalize ((worldOf [sheepAt 0 0, sheepAt 3 4])\<lparr>rand := \<lambda>n. 1 / 4\<rparr>)
           (enter ((worldOf [sheepAt 0 0, sheepAt 3 4])\<lparr>rand := \<lambda>n. 1 / 4\<rparr>) 0))
     = [(500, VocalOff 0), (425, RespondVocalize 1)] \<and>
   findNearestSheep ((worldOf [sheepAt 0 0, sheepAt 3 4])\<lparr>rand := \<lambda>n. 1 / 4\<rparr>)
      (enter ((worldOf [sheepAt 0 0, sheepAt 3 4])\<lparr>rand := \<lambda>n. 1 / 4\<rparr>) 0) = Some (1, 5) \<and>
   doRespondVocalize
      (enter ((worldOf [(sheepAt 0 0)\<lparr>state := SLEEPING\<rparr>])) 0)
     = enter ((worldOf [(sheepAt 0 0)\<lparr>state := SLEEPING\<rparr>])) 0 \<and>
   isVocalizing (doRespondVocalize (enter (worldOf [sheepAt 0 0]) 0))"
  using doVocalize_response
          [of "(worldOf [sheepAt 0 0, sheepAt 3 4])\<lparr>rand := \<lambda>n. 1 / 4\<rparr>"
              "enter ((worldOf [sheepAt 0 0, sheepAt 3 4])\<lparr>rand := \<lambda>n. 1 / 4\<rparr>) 0"
              "enter ((worldOf [(sheepAt 0 0)\<lparr>state := SLEEPING\<rparr>])) 0"]
        doVocalize_response
          [of "worldOf [sheepAt 0 0]" "enter (worldOf [sheepAt 0 0]) 0"
              "enter (worldOf [sheepAt 0 0]) 0"]
  by (simp add: findNearestSheep_def)

text \<open>
  C8 as stated fails: the roll passes and there is a valid peer, idle and 20 units
  away, yet no response is registered, because the code asks for a peer less than 10
  units away.
\<close>

theorem doVocalize_far_peer_counterexample:
  "rand ((worldOf [sheepAt 0 0, sheepAt 12 16])\<lparr>rand := \<lambda>n. 1 / 4\<rparr>)
        (rix (enter ((worldOf [sheepAt 0 0, sheepAt 12 16])\<lparr>rand := \<lambda>n. 1 / 4\<rparr>) 0)) < 0.3 \<and>
   findNearestSheep ((worldOf [sheepAt 0 0, sheepAt 12 16])\<lparr>rand := \<lambda>n. 1 / 4\<rparr>)
      (enter ((worldOf [sheepAt 0 0, sheepAt 12 16])\<lparr>rand := \<lambda>n. 1 / 4\<rparr>) 0) = Some (1, 20) \<and>
   validPeer (cloudfens ((worldOf [sheepAt 0 0, sheepAt 12 16])\<lparr>rand := \<lambda>n. 1 / 4\<rparr>) ! 1) \<and>
   pend (doVocalize ((worldOf [sheepAt 0 0, sheepAt 12 16])\<lparr>rand := \<lambda>n. 1 / 4\<rparr>)
           (enter ((worldOf [sheepAt 0 0, sheepAt 12 16])\<lparr>rand := \<lambda>n. 1 / 4\<rparr>) 0))
     = [(500, VocalOff 0)]"
  by (simp add: findNearestSheep_def validPeer_def doVocalize_def Let_def prim_defs)

section \<open>Creature against creature\<close>

lemma stretch_dist:
  fixes dx dz p :: real
  assumes "d0 = sqrt (dx * dx + dz * dz)" and "0 < d0" and "0 \<le> p"
  shows "sqrt ((dx + dx / d0 * p) * (dx + dx / d0 * p) +
               (dz + dz / d0 * p) * (dz + dz / d0 * p)) = d0 + p"
proof -
  have sq: "dx * dx + dz * dz = d0\<^sup>2"
    using assms(1) by (simp add: power2_eq_square [symmetric])
  have "(dx + dx / d0 * p) * (dx + dx / d0 * p) +
        (dz + dz / d0 * p) * (dz + dz / d0 * p) =
        (1 + p / d0)\<^sup>2 * (dx * dx + dz * dz)"
    using assms(2) by (simp add: power2_eq_square field_simps)
  also have "\<dots> = ((1 + p / d0) * d0)\<^sup>2"
    by (simp add: sq power_mult_distrib)
  also have "(1 + p / d0) * d0 = d0 + p"
    using assms(2) by (simp add: field_simps)
  finally show ?thesis using assms(2,3) by simp
qed

lemma applyPhysics_stages:
  "applyPhysics g dt f =
     afterCollisions g (0.8 * baseScale f)
       (collideLoop (0.8 * baseScale f * 2) (enumerate 0 (cloudfens g)) (beforeCollisions dt f))"
  by (simp add: applyPhysics_def beforeCollisions_def afterCollisions_def Let_def)

lemma collide_selfIx [simp]: "selfIx (collide minDist other f) = selfIx f"
  by (simp add: collide_def Let_def)

lemma collideLoop_selfIx [simp]: "selfIx (collideLoop minDist xs f) = selfIx f"
  by (induction xs arbitrary: f) auto

lemma collideLoop_append:
  "collideLoop minDist (xs @ ys) f = collideLoop minDist ys (collideLoop minDist xs f)"
  by (induction xs arbitrary: f) auto

lemma enumerate_at:
  assumes "j < length cs"
  shows "enumerate 0 cs = take j (enumerate 0 cs) @ (j, cs ! j) # drop (Suc j) (enumerate 0 cs)"
  using id_take_nth_drop [of j "enumerate 0 cs"] assms by (simp add: nth_enumerate_eq)

lemma collideLoop_at:
  assumes "j < length cs" and "j \<noteq> selfIx f"
  shows "collideLoop minDist (enumerate 0 cs) f =
           collideLoop minDist (drop (Suc j) (enumerate 0 cs))
             (collide minDist (cs ! j) (collideLoop minDist (take j (enumerate 0 cs)) f))"
proof -
  have "collideLoop minDist (enumerate 0 cs) f =
        collideLoop minDist (take j (enumerate 0 cs) @ (j, cs ! j) # drop (Suc j) (enumerate 0 cs)) f"
    using enumerate_at [OF assms(1)] by simp
  also have "\<dots> = collideLoop minDist ((j, cs ! j) # drop (Suc j) (enumerate 0 cs))
                     (collideLoop minDist (take j (enumerate 0 cs)) f)"
    by (rule collideLoop_append)
  also have "\<dots> = collideLoop minDist (drop (Suc j) (enumerate 0 cs))
                     (collide minDist (cs ! j) (collideLoop minDist (take j (enumerate 0 cs)) f))"
    using assms(2) by simp
  finally show ?thesis .
qed

lemma collide_push:
  assumes "dx = vx (position f) - vx (position other)"
    and "dz = vz (position f) - vz (position other)"
    and "d0 = sqrt (dx * dx + dz * dz)"
    and "0 < d0" and "d0 < minDist"
  shows "position (collide minDist other f) =
           (position f)\<lparr>vx := vx (position f) + dx / d0 * ((minDist - d0) * 0.4),
                         vz := vz (position f) + dz / d0 * ((minDist - d0) * 0.4)\<rparr> \<and>
         velocity (collide minDist other f) =
           (velocity f)\<lparr>vx := vx (velocity f) + dx / d0 * 0.4,
                         vz := vz (velocity f) + dz / d0 * 0.4\<rparr> \<and>
         hdist (position (collide minDist other f)) (position other) =
           d0 + 0.4 * (minDist - d0) \<and>
         minDist - hdist (position (collide minDist other f)) (position other) =
           0.6 * (minDist - d0)"
proof -
  let ?p = "(minDist - d0) * 0.4"
  have pos: "position (collide minDist other f) =
           (position f)\<lparr>vx := vx (position f) + dx / d0 * ?p,
                         vz := vz (position f) + dz / d0 * ?p\<rparr>"
    using assms by (simp add: collide_def Let_def)
  have vel: "velocity (collide minDist other f) =
           (velocity f)\<lparr>vx := vx (velocity f) + dx / d0 * 0.4,
                         vz := vz (velocity f) + dz / d0 * 0.4\<rparr>"
    using assms by (simp add: collide_def Let_def)
  have p0: "0 \<le> ?p" using assms(5) by simp
  have ex: "vx (position (collide minDist other f)) - vx (position other) = dx + dx / d0 * ?p"
    and ez: "vz (position (collide minDist other f)) - vz (position other) = dz + dz / d0 * ?p"
    by (simp_all add: pos assms(1,2))
  have h: "hdist (position (collide minDist other f)) (position other) = d0 + ?p"
    unfolding hdist_def ex ez by (rule stretch_dist [OF assms(3) assms(4) p0])
  have h1: "hdist (position (collide minDist other f)) (position other) =
            d0 + 0.4 * (minDist - d0)"
    unfolding h by (simp add: field_simps)
  have h2: "minDist - hdist (position (collide minDist other f)) (position other) =
            0.6 * (minDist - d0)"
    unfolding h by (simp add: field_simps)
  from pos vel h1 h2 show ?thesis by blast
qed

lemma collide_apart:
  assumes "minDist \<le> hdist (position f) (position other)"
  shows "collide minDist other f = f"
  using assms by (simp add: collide_def Let_def hdist_def)

text \<open>
  C6, as the code has it. \<open>_applyPhysics\<close> moves, clamps and damps the creature, then
  goes through the creatures of \<open>game.cloudfens\<close> in their order, with the one
  threshold \<open>minDist = 0.8 * baseScale * 2\<close> of the updating creature (the scale of
  the other creature plays no part), and then clamps again, looks at the rocks and
  takes the ground height. Let \<open>before\<close> be the updating creature when the loop reaches
  the creature \<open>other\<close> at index \<open>j\<close>, which is not the updating creature itself, and
  \<open>d0\<close> its horizontal distance to \<open>other\<close> at that moment. If \<open>d0\<close> is positive
  and below \<open>minDist\<close>, the updating creature moves along the separating normal by 40%
  of the overlap \<open>minDist - d0\<close> and adds 0.4 times the normal to its velocity, and the
  loop goes on from there. That response takes the distance from \<open>d0\<close> to
  \<open>d0 + 0.4 * (minDist - d0)\<close>: 60% of the overlap stays.
\<close>

theorem applyPhysics_soft_push:
  assumes "j < length (cloudfens g)" and "j \<noteq> selfIx f"
    and "other = cloudfens g ! j"
    and "minDist = 0.8 * baseScale f * 2"
    and "before = collideLoop minDist (take j (enumerate 0 (cloudfens g))) (beforeCollisions dt f)"
    and "dx = vx (position before) - vx (position other)"
    and "dz = vz (position before) - vz (position other)"
    and "d0 = sqrt (dx * dx + dz * dz)"
    and "0 < d0" and "d0 < minDist"
  shows "applyPhysics g dt f =
           afterCollisions g (0.8 * baseScale f)
             (collideLoop minDist (drop (Suc j) (enumerate 0 (cloudfens g)))
                (collide minDist other before)) \<and>
         position (collide minDist other before) =
           (position before)\<lparr>vx := vx (position before) + dx / d0 * ((minDist - d0) * 0.4),
                              vz := vz (position before) + dz / d0 * ((minDist - d0) * 0.4)\<rparr> \<and>
         velocity (collide minDist other before) =
           (velocity before)\<lparr>vx := vx (velocity before) + dx / d0 * 0.4,
                              vz := vz (velocity before) + dz / d0 * 0.4\<rparr> \<and>
         hdist (position (collide minDist other before)) (position other) =
           d0 + 0.4 * (minDist - d0) \<and>
         minDist - hdist (position (collide minDist other before)) (position other) =
           0.6 * (minDist - d0)"
proof -
  have s: "j \<noteq> selfIx (beforeCollisions dt f)"
    using assms(2) by (simp add: beforeCollisions_def)
  have "applyPhysics g dt f =
           afterCollisions g (0.8 * baseScale f)
             (collideLoop minDist (drop (Suc j) (enumerate 0 (cloudfens g)))
                (collide minDist other before))"
    unfolding applyPhysics_stages assms(3,5) assms(4) [symmetric]
    by (simp only: collideLoop_at [OF assms(1) s])
  then show ?thesis using collide_push [OF assms(6,7,8,9,10)] by (rule conjI)
qed

theorem applyPhysics_soft_push_witness:
  "position (collide (8 / 5) (sheepAt 0 0)
               (beforeCollisions 0 (enter (worldOf [sheepAt 0 0, sheepAt (1 / 10) 0]) 1)))
     = \<lparr>vx = 7 / 10, vy = 0, vz = 0\<rparr> \<and>
   velocity (collide (8 / 5) (sheepAt 0 0)
               (beforeCollisions 0 (enter (worldOf [sheepAt 0 0, sheepAt (1 / 10) 0]) 1)))
     = \<lparr>vx = 2 / 5, vy = 0, vz = 0\<rparr> \<and>
   hdist (position (collide (8 / 5) (sheepAt 0 0)
                      (beforeCollisions 0 (enter (worldOf [sheepAt 0 0, sheepAt (1 / 10) 0]) 1))))
         (position (sheepAt 0 0)) = 7 / 10"
  using applyPhysics_soft_push
          [where j = 0 and g = "worldOf [sheepAt 0 0, sheepAt (1 / 10) 0]"
             and f = "enter (worldOf [sheepAt 0 0, sheepAt (1 / 10) 0]) 1"
             and other = "sheepAt 0 0" and minDist = "8 / 5" and dt = 0
             and before = "beforeCollisions 0 (enter (worldOf [sheepAt 0 0, sheepAt (1 / 10) 0]) 1)"
             and dx = "1 / 10" and dz = 0 and ?d0.0 = "1 / 10"]
  by (simp add: beforeCollisions_def clampBounds_def hdist_def real_sqrt_divide)

lemma collide_at_tenth:
  "collide (8 / 5) (sheepAt 0 0)
     ((enter (worldOf [sheepAt 0 0, sheepAt (1 / 10) 0]) (Suc 0))
        \<lparr>position := \<lparr>vx = 1 / 10, vy = 0, vz = 0\<rparr>, velocity := \<lparr>vx = 0, vy = 0, vz = 0\<rparr>\<rparr>)
   = (enter (worldOf [sheepAt 0 0, sheepAt (1 / 10) 0]) (Suc 0))
        \<lparr>position := \<lparr>vx = 7 / 10, vy = 0, vz = 0\<rparr>, velocity := \<lparr>vx = 2 / 5, vy = 0, vz = 0\<rparr>,
         woolBounceVel := woolBounceVel (enter (worldOf [sheepAt 0 0, sheepAt (1 / 10) 0]) (Suc 0)) + 0.3\<rparr>"
  by (simp add: collide_def Let_def real_sqrt_divide)

lemma collideLoop_at_tenth:
  "collideLoop (8 / 5) (enumerate 0 [sheepAt 0 0, sheepAt (1 / 10) 0])
     ((enter (worldOf [sheepAt 0 0, sheepAt (1 / 10) 0]) (Suc 0))
        \<lparr>position := \<lparr>vx = 1 / 10, vy = 0, vz = 0\<rparr>, velocity := \<lparr>vx = 0, vy = 0, vz = 0\<rparr>\<rparr>)
   = (enter (worldOf [sheepAt 0 0, sheepAt (1 / 10) 0]) (Suc 0))
        \<lparr>position := \<lparr>vx = 7 / 10, vy = 0, vz = 0\<rparr>, velocity := \<lparr>vx = 2 / 5, vy = 0, vz = 0\<rparr>,
         woolBounceVel := woolBounceVel (enter (worldOf [sheepAt 0 0, sheepAt (1 / 10) 0]) (Suc 0)) + 0.3\<rparr>"
  by (simp add: collide_at_tenth)

lemma beforeCollisions_fields:
  "selfIx (beforeCollisions dt f) = selfIx f"
  "baseScale (beforeCollisions dt f) = baseScale f"
  "position (beforeCollisions dt f) =
     (position f)\<lparr>vx := clampBounds 25 (vx (position f) + vx (velocity f) * dt),
                    vz := clampBounds 25 (vz (position f) + vz (velocity f) * dt)\<rparr>"
  "velocity (beforeCollisions dt f) =
     (velocity f)\<lparr>vx := vx (velocity f) * 0.92, vz := vz (velocity f) * 0.92\<rparr>"
  by (simp_all add: beforeCollisions_def)

lemma afterCollisions_plain:
  assumes "gameScene g = None"
  shows "position (afterCollisions g r f) =
           (position f)\<lparr>vx := clampBounds 25 (vx (position f)),
                          vz := clampBounds 25 (vz (position f)), vy := 0\<rparr>"
    and "velocity (afterCollisions g r f) = velocity f"
  using assms by (simp_all add: afterCollisions_def rockBounce_def groundHeight_def Let_def)

text \<open>
  C6 as stated fails. Two creatures of scale 1 (radii 0.8 each) stand 0.1 apart: after
  the whole of \<open>_applyPhysics\<close> on one of them their centres are 0.7 apart, 0.9 less
  than the sum of their radii. And a creature of scale 0.5 stands 1 unit from a creature
  of scale 2 (radii 0.4 and 1.6, so 1 inside the sum of the radii): its own threshold
  is 0.8, and \<open>_applyPhysics\<close> on it neither moves it nor kicks it.
\<close>

theorem applyPhysics_still_overlapping_counterexample:
  "hdist (position (applyPhysics (worldOf [sheepAt 0 0, sheepAt (1 / 10) 0]) 0
                      (enter (worldOf [sheepAt 0 0, sheepAt (1 / 10) 0]) 1)))
         (position (cloudfens (worldOf [sheepAt 0 0, sheepAt (1 / 10) 0]) ! 0)) = 7 / 10 \<and>
   0.8 * baseScale (cloudfens (worldOf [sheepAt 0 0, sheepAt (1 / 10) 0]) ! 0) +
   0.8 * baseScale (cloudfens (worldOf [sheepAt 0 0, sheepAt (1 / 10) 0]) ! 1) = 8 / 5 \<and>
   hdist (position (enter (worldOf [(sheepAt 0 0)\<lparr>baseScale := 2\<rparr>, (sheepAt 1 0)\<lparr>baseScale := 1 / 2\<rparr>]) 1)) (position (cloudfens (worldOf [(sheepAt 0 0)\<lparr>baseScale := 2\<rparr>, (sheepAt 1 0)\<lparr>baseScale := 1 / 2\<rparr>]) ! 0)) = 1 \<and>
   0.8 * baseScale (cloudfens (worldOf [(sheepAt 0 0)\<lparr>baseScale := 2\<rparr>, (sheepAt 1 0)\<lparr>baseScale := 1 / 2\<rparr>]) ! 0) + 0.8 * baseScale (cloudfens (worldOf [(sheepAt 0 0)\<lparr>baseScale := 2\<rparr>, (sheepAt 1 0)\<lparr>baseScale := 1 / 2\<rparr>]) ! 1) = 2 \<and>
   position (applyPhysics (worldOf [(sheepAt 0 0)\<lparr>baseScale := 2\<rparr>, (sheepAt 1 0)\<lparr>baseScale := 1 / 2\<rparr>]) 0 (enter (worldOf [(sheepAt 0 0)\<lparr>baseScale := 2\<rparr>, (sheepAt 1 0)\<lparr>baseScale := 1 / 2\<rparr>]) 1)) = \<lparr>vx = 1, vy = 0, vz = 0\<rparr> \<and>
   velocity (applyPhysics (worldOf [(sheepAt 0 0)\<lparr>baseScale := 2\<rparr>, (sheepAt 1 0)\<lparr>baseScale := 1 / 2\<rparr>]) 0 (enter (worldOf [(sheepAt 0 0)\<lparr>baseScale := 2\<rparr>, (sheepAt 1 0)\<lparr>baseScale := 1 / 2\<rparr>]) 1)) = \<lparr>vx = 0, vy = 0, vz = 0\<rparr>"
proof -
  have a: "hdist (position (applyPhysics (worldOf [sheepAt 0 0, sheepAt (1 / 10) 0]) 0
                      (enter (worldOf [sheepAt 0 0, sheepAt (1 / 10) 0]) 1)))
         (position (cloudfens (worldOf [sheepAt 0 0, sheepAt (1 / 10) 0]) ! 0)) = 7 / 10 \<and>
   0.8 * baseScale (cloudfens (worldOf [sheepAt 0 0, sheepAt (1 / 10) 0]) ! 0) +
   0.8 * baseScale (cloudfens (worldOf [sheepAt 0 0, sheepAt (1 / 10) 0]) ! 1) = 8 / 5"
    by (simp add: applyPhysics_def Let_def clampBounds_def rockBounce_def groundHeight_def
        collideLoop_at_tenth hdist_def real_sqrt_divide del: collideLoop.simps enumerate_simps)
  let ?g = "(worldOf [(sheepAt 0 0)\<lparr>baseScale := 2\<rparr>, (sheepAt 1 0)\<lparr>baseScale := 1 / 2\<rparr>])"
  let ?f = "enter ?g (Suc 0)"
  let ?b = "beforeCollisions 0 ?f"
  have d: "hdist (position ?f) (position (cloudfens ?g ! 0)) = 1"
    by (simp add: hdist_def)
  have r: "0.8 * baseScale (cloudfens ?g ! 0) + 0.8 * baseScale (cloudfens ?g ! 1) = 2"
    by simp
  have c: "collide (4 / 5) ((sheepAt 0 0)\<lparr>baseScale := 2\<rparr>) ?b = ?b"
    by (rule collide_apart) (simp add: hdist_def beforeCollisions_fields clampBounds_def)
  have l: "collideLoop (4 / 5)
             (enumerate 0 [(sheepAt 0 0)\<lparr>baseScale := 2\<rparr>, (sheepAt 1 0)\<lparr>baseScale := 1 / 2\<rparr>]) ?b = ?b"
    by (simp add: c beforeCollisions_fields)
  have ap: "applyPhysics ?g 0 ?f = afterCollisions ?g (2 / 5) ?b"
    unfolding applyPhysics_stages
    by (simp add: l beforeCollisions_fields del: collideLoop.simps enumerate_simps)
  have "position (applyPhysics ?g 0 ?f) = \<lparr>vx = 1, vy = 0, vz = 0\<rparr>"
       "velocity (applyPhysics ?g 0 ?f) = \<lparr>vx = 0, vy = 0, vz = 0\<rparr>"
    unfolding ap by (simp_all add: afterCollisions_plain beforeCollisions_fields clampBounds_def)
  with a d r show ?thesis by simp
qed

section \<open>What the end of the update leaves alone\<close>

lemma link_upd:
  fixes f :: frame
  shows
  "link (f\<lparr>position := v0\<rparr>) = link f \<and>
   link (f\<lparr>velocity := v1\<rparr>) = link f \<and>
   link (f\<lparr>targetPosition := v2\<rparr>) = link f \<and>
   link (f\<lparr>baseScale := v3\<rparr>) = link f \<and>
   link (f\<lparr>state := v4\<rparr>) = link f \<and>
   link (f\<lparr>stateTimer := v5\<rparr>) = link f \<and>
   link (f\<lparr>previousState := v6\<rparr>) = link f \<and>
   link (f\<lparr>wanderSpeed := v7\<rparr>) = link f \<and>
   link (f\<lparr>approachSpeed := v8\<rparr>) = link f \<and>
   link (f\<lparr>fleeSpeed := v9\<rparr>) = link f \<and>
   link (f\<lparr>idleTimer := v10\<rparr>) = link f \<and>
   link (f\<lparr>nextWanderTime := v11\<rparr>) = link f \<and>
   link (f\<lparr>homePosition := v12\<rparr>) = link f \<and>
   link (f\<lparr>initialRotation := v13\<rparr>) = link f \<and>
   link (f\<lparr>grazingTimer := v14\<rparr>) = link f \<and>
   link (f\<lparr>grazeHeadBob := v15\<rparr>) = link f \<and>
   link (f\<lparr>grazeDuration := v16\<rparr>) = link f \<and>
   link (f\<lparr>tiredness := v17\<rparr>) = link f \<and>
   link (f\<lparr>sleepTimer := v18\<rparr>) = link f \<and>
   link (f\<lparr>isLyingDown := v19\<rparr>) = link f \<and>
   link (f\<lparr>lyingDownProgress := v20\<rparr>) = link f \<and>
   link (f\<lparr>lookTarget := v21\<rparr>) = link f \<and>
   link (f\<lparr>lookTimer := v22\<rparr>) = link f \<and>
   link (f\<lparr>headTilt := v23\<rparr>) = link f \<and>
   link (f\<lparr>earWiggle := v24\<rparr>) = link f \<and>
   link (f\<lparr>socialTarget := v25\<rparr>) = link f \<and>
   link (f\<lparr>socialTimer := v26\<rparr>) = link f \<and>
   link (f\<lparr>lastSocialTime := v27\<rparr>) = link f \<and>
   link (f\<lparr>stretchProgress := v28\<rparr>) = link f \<and>
   link (f\<lparr>stretchType := v29\<rparr>) = link f \<and>
   link (f\<lparr>mesh := v30\<rparr>) = link f \<and>
   link (f\<lparr>modelYOffset := v31\<rparr>) = link f \<and>
   link (f\<lparr>bobPhase := v32\<rparr>) = link f \<and>
   link (f\<lparr>happiness := v33\<rparr>) = link f \<and>
   link (f\<lparr>isPetted := v34\<rparr>) = link f \<and>
   link (f\<lparr>petDuration := v35\<rparr>) = link f \<and>
   link (f\<lparr>lastStrokeTime := v36\<rparr>) = link f \<and>
   link (f\<lparr>isHovered := v37\<rparr>) = link f \<and>
   link (f\<lparr>hoverTime := v38\<rparr>) = link f \<and>
   link (f\<lparr>playerAwareness := v39\<rparr>) = link f \<and>
   link (f\<lparr>fleeThreshold := v40\<rparr>) = link f \<and>
   link (f\<lparr>comfortDistance := v41\<rparr>) = link f \<and>
   link (f\<lparr>targetEyeOpenness := v42\<rparr>) = link f \<and>
   link (f\<lparr>personality := v43\<rparr>) = link f \<and>
   link (f\<lparr>behaviorWeights := v44\<rparr>) = link f \<and>
   link (f\<lparr>attentionTarget := v45\<rparr>) = link f \<and>
   link (f\<lparr>attentionStrength := v46\<rparr>) = link f \<and>
   link (f\<lparr>lastAttentionShift := v47\<rparr>) = link f \<and>
   link (f\<lparr>earTwitchTimer := v48\<rparr>) = link f \<and>
   link (f\<lparr>tailWagTimer := v49\<rparr>) = link f \<and>
   link (f\<lparr>headShakeTimer := v50\<rparr>) = link f \<and>
   link (f\<lparr>pawGroundTimer := v51\<rparr>) = link f \<and>
   link (f\<lparr>sniffTimer := v52\<rparr>) = link f \<and>
   link (f\<lparr>lastPlayerPosition := v53\<rparr>) = link f \<and>
   link (f\<lparr>lastSeenPlayerTime := v54\<rparr>) = link f \<and>
   link (f\<lparr>favoriteSpot := v55\<rparr>) = link f \<and>
   link (f\<lparr>timesBeenPetted := v56\<rparr>) = link f \<and>
   link (f\<lparr>mood := v57\<rparr>) = link f \<and>
   link (f\<lparr>vocalizationTimer := v58\<rparr>) = link f \<and>
   link (f\<lparr>isVocalizing := v59\<rparr>) = link f \<and>
   link (f\<lparr>earRotation := v60\<rparr>) = link f \<and>
   link (f\<lparr>tailPosition := v61\<rparr>) = link f \<and>
   link (f\<lparr>headShakeActive := v62\<rparr>) = link f \<and>
   link (f\<lparr>headShakeProgress := v63\<rparr>) = link f \<and>
   link (f\<lparr>pawingGround := v64\<rparr>) = link f \<and>
   link (f\<lparr>pawProgress := v65\<rparr>) = link f \<and>
   link (f\<lparr>isSniffing := v66\<rparr>) = link f \<and>
   link (f\<lparr>sniffProgress := v67\<rparr>) = link f \<and>
   link (f\<lparr>squashStretch := v68\<rparr>) = link f \<and>
   link (f\<lparr>targetSquash := v69\<rparr>) = link f \<and>
   link (f\<lparr>woolBounce := v70\<rparr>) = link f \<and>
   link (f\<lparr>woolBounceVel := v71\<rparr>) = link f \<and>
   link (f\<lparr>breathPhase := v72\<rparr>) = link f \<and>
   link (f\<lparr>breathRate := v73\<rparr>) = link f \<and>
   link (f\<lparr>impactSquash := v74\<rparr>) = link f \<and>
   link (f\<lparr>contentWobble := v75\<rparr>) = link f \<and>
   link (f\<lparr>lastSpeed := v76\<rparr>) = link f \<and>
   link (f\<lparr>petWiggle := v77\<rparr>) = link f \<and>
   link (f\<lparr>petWiggleTarget := v78\<rparr>) = link f \<and>
   link (f\<lparr>rix := v80\<rparr>) = link f \<and>
   link (f\<lparr>pend := v81\<rparr>) = link f \<and>
   link (f\<lparr>balls := v83\<rparr>) = link f"
  by (simp add: proj_defs)

lemma character_upd:
  fixes f :: frame
  shows
  "character (f\<lparr>position := v0\<rparr>) = character f \<and>
   character (f\<lparr>velocity := v1\<rparr>) = character f \<and>
   character (f\<lparr>targetPosition := v2\<rparr>) = character f \<and>
   character (f\<lparr>state := v4\<rparr>) = character f \<and>
   character (f\<lparr>stateTimer := v5\<rparr>) = character f \<and>
   character (f\<lparr>previousState := v6\<rparr>) = character f \<and>
   character (f\<lparr>wanderSpeed := v7\<rparr>) = character f \<and>
   character (f\<lparr>approachSpeed := v8\<rparr>) = character f \<and>
   character (f\<lparr>idleTimer := v10\<rparr>) = character f \<and>
   character (f\<lparr>nextWanderTime := v11\<rparr>) = character f \<and>
   character (f\<lparr>homePosition := v12\<rparr>) = character f \<and>
   character (f\<lparr>initialRotation := v13\<rparr>) = character f \<and>
   character (f\<lparr>grazingTimer := v14\<rparr>) = character f \<and>
   character (f\<lparr>grazeHeadBob := v15\<rparr>) = character f \<and>
   character (f\<lparr>grazeDuration := v16\<rparr>) = character f \<and>
   character (f\<lparr>tiredness := v17\<rparr>) = character f \<and>
   character (f\<lparr>sleepTimer := v18\<rparr>) = character f \<and>
   character (f\<lparr>isLyingDown := v19\<rparr>) = character f \<and>
   character (f\<lparr>lyingDownProgress := v20\<rparr>) = character f \<and>
   character (f\<lparr>lookTarget := v21\<rparr>) = character f \<and>
   character (f\<lparr>lookTimer := v22\<rparr>) = character f \<and>
   character (f\<lparr>headTilt := v23\<rparr>) = character f \<and>
   character (f\<lparr>earWiggle := v24\<rparr>) = character f \<and>
   character (f\<lparr>socialTarget := v25\<rparr>) = character f \<and>
   character (f\<lparr>socialTimer := v26\<rparr>) = character f \<and>
   character (f\<lparr>lastSocialTime := v27\<rparr>) = character f \<and>
   character (f\<lparr>stretchProgress := v28\<rparr>) = character f \<and>
   character (f\<lparr>stretchType := v29\<rparr>) = character f \<and>
   character (f\<lparr>mesh := v30\<rparr>) = character f \<and>
   character (f\<lparr>modelYOffset := v31\<rparr>) = character f \<and>
   character (f\<lparr>bobPhase := v32\<rparr>) = character f \<and>
   character (f\<lparr>petDuration := v35\<rparr>) = character f \<and>
   character (f\<lparr>playerAwareness := v39\<rparr>) = character f \<and>
   character (f\<lparr>targetEyeOpenness := v42\<rparr>) = character f \<and>
   character (f\<lparr>behaviorWeights := v44\<rparr>) = character f \<and>
   character (f\<lparr>attentionTarget := v45\<rparr>) = character f \<and>
   character (f\<lparr>attentionStrength := v46\<rparr>) = character f \<and>
   character (f\<lparr>lastAttentionShift := v47\<rparr>) = character f \<and>
   character (f\<lparr>earTwitchTimer := v48\<rparr>) = character f \<and>
   character (f\<lparr>tailWagTimer := v49\<rparr>) = character f \<and>
   character (f\<lparr>headShakeTimer := v50\<rparr>) = character f \<and>
   character (f\<lparr>pawGroundTimer := v51\<rparr>) = character f \<and>
   character (f\<lparr>sniffTimer := v52\<rparr>) = character f \<and>
   character (f\<lparr>lastPlayerPosition := v53\<rparr>) = character f \<and>
   character (f\<lparr>lastSeenPlayerTime := v54\<rparr>) = character f \<and>
   character (f\<lparr>favoriteSpot := v55\<rparr>) = character f \<and>
   character (f\<lparr>vocalizationTimer := v58\<rparr>) = character f \<and>
   character (f\<lparr>isVocalizing := v59\<rparr>) = character f \<and>
   character (f\<lparr>earRotation := v60\<rparr>) = character f \<and>
   character (f\<lparr>tailPosition := v61\<rparr>) = character f \<and>
   character (f\<lparr>headShakeActive := v62\<rparr>) = character f \<and>
   character (f\<lparr>headShakeProgress := v63\<rparr>) = character f \<and>
   character (f\<lparr>pawingGround := v64\<rparr>) = character f \<and>
   character (f\<lparr>pawProgress := v65\<rparr>) = character f \<and>
   character (f\<lparr>isSniffing := v66\<rparr>) = character f \<and>
   character (f\<lparr>sniffProgress := v67\<rparr>) = character f \<and>
   character (f\<lparr>squashStretch := v68\<rparr>) = character f \<and>
   character (f\<lparr>targetSquash := v69\<rparr>) = character f \<and>
   character (f\<lparr>woolBounce := v70\<rparr>) = character f \<and>
   character (f\<lparr>woolBounceVel := v71\<rparr>) = character f \<and>
   character (f\<lparr>breathPhase := v72\<rparr>) = character f \<and>
   character (f\<lparr>breathRate := v73\<rparr>) = character f \<and>
   character (f\<lparr>impactSquash := v74\<rparr>) = character f \<and>
   character (f\<lparr>contentWobble := v75\<rparr>) = character f \<and>
   character (f\<lparr>lastSpeed := v76\<rparr>) = character f \<and>
   character (f\<lparr>petWiggle := v77\<rparr>) = character f \<and>
   character (f\<lparr>petWiggleTarget := v78\<rparr>) = character f \<and>
   character (f\<lparr>selfIx := v79\<rparr>) = character f \<and>
   character (f\<lparr>rix := v80\<rparr>) = character f \<and>
   character (f\<lparr>pend := v81\<rparr>) = character f \<and>
   character (f\<lparr>poke := v82\<rparr>) = character f \<and>
   character (f\<lparr>balls := v83\<rparr>) = character f"
  by (simp add: proj_defs)

lemma linkD: "link a = link b \<Longrightarrow> selfIx a = selfIx b \<and> poke a = poke b"
  by (simp add: proj_defs)

lemma characterD:
  "character a = character b \<Longrightarrow>
     happiness a = happiness b \<and> mood a = mood b \<and> personality a = personality b \<and>
     isPetted a = isPetted b \<and> isHovered a = isHovered b \<and> hoverTime a = hoverTime b \<and>
     timesBeenPetted a = timesBeenPetted b \<and> comfortDistance a = comfortDistance b \<and>
     fleeThreshold a = fleeThreshold b \<and> lastStrokeTime a = lastStrokeTime b \<and>
     fleeSpeed a = fleeSpeed b \<and> baseScale a = baseScale b"
  by (simp add: proj_defs)

lemma keeps_link_character:
  "keeps a = keeps b \<Longrightarrow> link a = link b \<and> character a = character b"
  by (simp add: keeps_def)

lemmas push2 =
  if_distrib [of link] if_distrib [of character] if_distrib [of control]
  option.case_distrib [of link] option.case_distrib [of character]
  option.case_distrib [of control]
  link_upd character_upd control_upd option_case_same Let_def

lemma collide_inner [simp]:
  "link (collide m other f) = link f" "character (collide m other f) = character f"
  "control (collide m other f) = control f" "mesh (collide m other f) = mesh f"
  "balls (collide m other f) = balls f"
  by (simp_all add: collide_def push2 cong: if_cong)

lemma collideLoop_inner [simp]:
  "link (collideLoop m xs f) = link f \<and> character (collideLoop m xs f) = character f \<and>
   control (collideLoop m xs f) = control f \<and> mesh (collideLoop m xs f) = mesh f \<and>
   balls (collideLoop m xs f) = balls f"
proof (induction xs arbitrary: f)
  case Nil
  then show ?case by simp
next
  case (Cons a xs)
  obtain j other where a: "a = (j, other)" by (cases a)
  show ?case unfolding a collideLoop.simps using Cons.IH by simp
qed

lemma rockBounce_inner [simp]:
  "link (rockBounce g r f) = link f" "character (rockBounce g r f) = character f"
  "control (rockBounce g r f) = control f" "mesh (rockBounce g r f) = mesh f"
  "balls (rockBounce g r f) = balls f"
  by (simp_all add: rockBounce_def Let_def split: option.splits) (simp_all add: proj_defs)

lemma applyPhysics_inner [simp]:
  "link (applyPhysics g dt f) = link f" "character (applyPhysics g dt f) = character f"
  "control (applyPhysics g dt f) = control f" "mesh (applyPhysics g dt f) = mesh f"
  "balls (applyPhysics g dt f) = balls f"
  by (simp_all add: applyPhysics_def push2)


lemma hitBall_inner [simp]:
  "link (snd (hitBall b f)) = link f" "character (snd (hitBall b f)) = character f"
  "control (snd (hitBall b f)) = control f" "mesh (snd (hitBall b f)) = mesh f"
  "vy (position (snd (hitBall b f))) = vy (position f)"
  by (simp_all add: hitBall_def Let_def proj_defs)

lemma ballLoop_inner [simp]:
  "link (snd (ballLoop bs f)) = link f \<and> character (snd (ballLoop bs f)) = character f \<and>
   control (snd (ballLoop bs f)) = control f \<and> mesh (snd (ballLoop bs f)) = mesh f \<and>
   vy (position (snd (ballLoop bs f))) = vy (position f)"
  by (induction bs arbitrary: f) (simp_all add: Let_def)

lemma handleMossBallCollision_inner [simp]:
  "link (handleMossBallCollision g f) = link f"
  "character (handleMossBallCollision g f) = character f"
  "control (handleMossBallCollision g f) = control f"
  by (simp_all add: handleMossBallCollision_def push2 cong: option.case_cong)

lemma handleMossBallCollision_body [simp]:
  "mesh (handleMossBallCollision g f) = mesh f"
  "vy (position (handleMossBallCollision g f)) = vy (position f)"
  by (simp_all add: handleMossBallCollision_def Let_def split: option.splits)

lemma updateSoftPhysics_inner [simp]:
  "link (updateSoftPhysics dt s f) = link f"
  "character (updateSoftPhysics dt s f) = character f"
  "control (updateSoftPhysics dt s f) = control f"
  "position (updateSoftPhysics dt s f) = position f"
  "mesh (updateSoftPhysics dt s f) = mesh f"
  "balls (updateSoftPhysics dt s f) = balls f"
  by (simp_all add: updateSoftPhysics_def push2 cong: if_cong)

lemma statePose_inner [simp]:
  "link (snd (statePose dt s b f)) = link f"
  "character (snd (statePose dt s b f)) = character f"
  "control (snd (statePose dt s b f)) = control f"
  "position (snd (statePose dt s b f)) = position f"
  "balls (snd (statePose dt s b f)) = balls f"
  by (simp_all add: statePose_def push2 if_distrib [of snd] cong: if_cong)

lemma shakePose_inner [simp]:
  "link (snd (shakePose dt pf)) = link (snd pf)"
  "character (snd (shakePose dt pf)) = character (snd pf)"
  "control (snd (shakePose dt pf)) = control (snd pf)"
  "position (snd (shakePose dt pf)) = position (snd pf)"
  "balls (snd (shakePose dt pf)) = balls (snd pf)"
  by (simp_all add: shakePose_def push2 if_distrib [of snd] cong: if_cong)

lemma sniffPose_inner [simp]:
  "link (snd (sniffPose dt pf)) = link (snd pf)"
  "character (snd (sniffPose dt pf)) = character (snd pf)"
  "control (snd (sniffPose dt pf)) = control (snd pf)"
  "position (snd (sniffPose dt pf)) = position (snd pf)"
  "balls (snd (sniffPose dt pf)) = balls (snd pf)"
  by (simp_all add: sniffPose_def push2 if_distrib [of snd] cong: if_cong)

lemma pawPose_inner [simp]:
  "link (snd (pawPose dt pf)) = link (snd pf)"
  "character (snd (pawPose dt pf)) = character (snd pf)"
  "control (snd (pawPose dt pf)) = control (snd pf)"
  "position (snd (pawPose dt pf)) = position (snd pf)"
  "balls (snd (pawPose dt pf)) = balls (snd pf)"
  by (simp_all add: pawPose_def push2 if_distrib [of snd] cong: if_cong)

lemma vocalPose_inner [simp]:
  "link (snd (vocalPose now pf)) = link (snd pf)"
  "character (snd (vocalPose now pf)) = character (snd pf)"
  "control (snd (vocalPose now pf)) = control (snd pf)"
  "position (snd (vocalPose now pf)) = position (snd pf)"
  "balls (snd (vocalPose now pf)) = balls (snd pf)"
  by (simp_all add: vocalPose_def push2 if_distrib [of snd] cong: if_cong)

lemma tailPose_inner [simp]:
  "link (snd (tailPose pf)) = link (snd pf)"
  "character (snd (tailPose pf)) = character (snd pf)"
  "control (snd (tailPose pf)) = control (snd pf)"
  "position (snd (tailPose pf)) = position (snd pf)"
  "balls (snd (tailPose pf)) = balls (snd pf)"
  by (simp_all add: tailPose_def push2 if_distrib [of snd] cong: if_cong)

lemma alertPose_inner [simp]:
  "link (snd (alertPose pf)) = link (snd pf)"
  "character (snd (alertPose pf)) = character (snd pf)"
  "control (snd (alertPose pf)) = control (snd pf)"
  "position (snd (alertPose pf)) = position (snd pf)"
  "balls (snd (alertPose pf)) = balls (snd pf)"
  by (simp_all add: alertPose_def push2 if_distrib [of snd] cong: if_cong)

lemma microPose_inner [simp]:
  "link (snd (microPose now dt pf)) = link (snd pf)"
  "character (snd (microPose now dt pf)) = character (snd pf)"
  "control (snd (microPose now dt pf)) = control (snd pf)"
  "position (snd (microPose now dt pf)) = position (snd pf)"
  "balls (snd (microPose now dt pf)) = balls (snd pf)"
  by (simp_all add: microPose_def)

lemma updateVisuals_inner [simp]:
  "link (updateVisuals g now dt pp f) = link f"
  "character (updateVisuals g now dt pp f) = character f"
  "control (updateVisuals g now dt pp f) = control f"
  "position (updateVisuals g now dt pp f) = position f"
  "balls (updateVisuals g now dt pp f) = balls f"
  by (simp_all add: updateVisuals_def push2 option.case_distrib [of position]
        option.case_distrib [of balls] if_distrib [of position] if_distrib [of balls]
      cong: if_cong option.case_cong)

lemma updateVisuals_mesh [simp]:
  "(mesh (updateVisuals g now dt pp f) = None) = (mesh f = None)"
  by (simp add: updateVisuals_def Let_def split: option.splits)

lemma updateTail_inner [simp]:
  "link (updateTail g now dt pp f) = link f"
  "character (updateTail g now dt pp f) = character f"
  "control (updateTail g now dt pp f) = control f"
  "(mesh (updateTail g now dt pp f) = None) = (mesh f = None)"
  by (simp_all add: updateTail_def)


lemmas updateTail_kept [simp] =
  linkD [OF updateTail_inner(1)] characterD [OF updateTail_inner(2)]
  controlD [OF updateTail_inner(3)]

section \<open>What the state routines leave alone\<close>

lemmas push3 = push link_upd character_upd if_distrib [of link] if_distrib [of character]
  option.case_distrib [of link] option.case_distrib [of character]

lemma pickLookTarget_keeps [simp]: "keeps (pickLookTarget g pp f) = keeps f"
  by (simp add: pickLookTarget_def push cong: if_cong option.case_cong)

lemma chooseWanderTarget_keeps [simp]: "keeps (chooseWanderTarget g f) = keeps f"
  by (simp add: chooseWanderTarget_def push cong: if_cong option.case_cong)

lemma gotoFavorite_keeps [simp]: "keeps (gotoFavorite f) = keeps f"
  by (simp add: gotoFavorite_def push cong: if_cong option.case_cong)

lemma chooseByRoll_keeps [simp]: "keeps (chooseByRoll g pp roll c f) = keeps f"
  by (simp add: chooseByRoll_def push cong: if_cong)

lemma chooseNextBehavior_keeps [simp]: "keeps (chooseNextBehavior g now pp f) = keeps f"
  by (simp add: chooseNextBehavior_def push cong: if_cong)

lemma idleMove_keeps [simp]: "keeps (idleMove g pp f) = keeps f"
  by (simp add: idleMove_def push cong: if_cong option.case_cong)

lemma updateIdle_keeps [simp]: "keeps (updateIdle g now dt pp f) = keeps f"
  by (simp add: updateIdle_def push cong: if_cong)

lemma grazingTail_keeps [simp]: "keeps (grazingTail g pp f) = keeps f"
  by (simp add: grazingTail_def push cong: if_cong)

lemma updateGrazing_keeps: "updateGrazing g dt pp f = Inr f' \<Longrightarrow> keeps f' = keeps f"
  by (auto simp: updateGrazing_def Let_def keeps_upd keeps_prims split: if_splits option.splits)

lemma updateGrazing_total: "mesh f \<noteq> None \<Longrightarrow> \<exists>f'. updateGrazing g dt pp f = Inr f'"
  by (auto simp: updateGrazing_def Let_def tick_def)

lemma updateLooking_keeps [simp]: "keeps (updateLooking dt f) = keeps f"
  by (simp add: updateLooking_def push cong: if_cong)

lemma updateStretching_keeps [simp]: "keeps (updateStretching dt f) = keeps f"
  by (simp add: updateStretching_def push cong: if_cong)

lemma lieDown_keeps [simp]: "keeps (lieDown dt f) = keeps f"
  by (simp add: lieDown_def push cong: if_cong)

lemma restingTail_keeps [simp]: "keeps (restingTail g f) = keeps f"
  by (simp add: restingTail_def push cong: if_cong)

lemma updateResting_keeps [simp]: "keeps (updateResting g dt pp f) = keeps f"
  by (simp add: updateResting_def push cong: if_cong)

lemma sleepingTail_keeps [simp]: "keeps (sleepingTail g f) = keeps f"
  by (simp add: sleepingTail_def push cong: if_cong)

lemma updateSleeping_keeps [simp]: "keeps (updateSleeping g dt pp f) = keeps f"
  by (simp add: updateSleeping_def push cong: if_cong option.case_cong)

lemma socialChatter_keeps [simp]: "keeps (socialChatter g f) = keeps f"
  by (simp add: socialChatter_def push cong: if_cong)

lemma socialTail_keeps [simp]: "keeps (socialTail g f) = keeps f"
  by (simp add: socialTail_def push cong: if_cong)

lemma keeps_poke_cong:
  "keeps a = keeps b \<Longrightarrow> keeps (a\<lparr>poke := p\<rparr>) = keeps (b\<lparr>poke := p\<rparr>)"
  by (simp add: proj_defs)

lemma socialInvite_keeps [simp]:
  "keeps ((socialInvite g other f)\<lparr>poke := p\<rparr>) = keeps (f\<lparr>poke := p\<rparr>)"
  by (simp add: socialInvite_def Let_def prim_defs proj_defs)

lemma socialNear_keeps [simp]:
  "keeps ((socialNear g other f)\<lparr>poke := p\<rparr>) = keeps (f\<lparr>poke := p\<rparr>)"
  unfolding socialNear_def
  by (simp add: keeps_poke_cong [OF socialChatter_keeps]) (simp add: proj_defs)

lemma updateSocial_keeps [simp]:
  "keeps ((updateSocial g now dt f)\<lparr>poke := p\<rparr>) = keeps (f\<lparr>poke := p\<rparr>)"
  unfolding updateSocial_def Let_def
  by (simp add: keeps_poke_cong [OF socialTail_keeps] keeps_poke_cong [OF keeps_prims(3)]
        split: option.splits)
     (simp add: proj_defs)

lemma curiousPaw_keeps [simp]: "keeps (curiousPaw g f) = keeps f"
  by (simp add: curiousPaw_def push cong: if_cong)

lemma curiousVocal_keeps [simp]: "keeps (curiousVocal g f) = keeps f"
  by (simp add: curiousVocal_def push cong: if_cong)

lemma curiousApproach_keeps [simp]: "keeps (curiousApproach g p f) = keeps f"
  by (simp add: curiousApproach_def push cong: if_cong)

lemma updateCurious_keeps [simp]: "keeps (updateCurious g dt pp f) = keeps f"
  by (simp add: updateCurious_def push cong: if_cong option.case_cong)

lemma updateCalled_keeps [simp]: "keeps (updateCalled f) = keeps f"
  by (simp add: updateCalled_def push cong: if_cong option.case_cong)

lemma updateFleeing_keeps [simp]: "keeps (updateFleeing f) = keeps f"
  by (simp add: updateFleeing_def push cong: if_cong option.case_cong)

section \<open>The first half of the update\<close>

lemmas updatePlayerAwareness_kept [simp] = keepsD [OF updatePlayerAwareness_keeps]
lemmas updateMicroBehaviors_kept [simp] =
  keepsD [OF updateMicroBehaviors_keeps(1)] controlD [OF updateMicroBehaviors_keeps(2)]
lemmas updateAttention_kept [simp] =
  keepsD [OF updateAttention_keeps(1)] controlD [OF updateAttention_keeps(2)]
lemmas updateMood_kept [simp] =
  keepsD [OF updateMood_keeps(1), simplified] controlD [OF updateMood_keeps(2)]

lemma updatePlayerAwareness_None [simp]: "updatePlayerAwareness g dt None f = f"
  by (simp add: updatePlayerAwareness_def)

lemma updatePlayerAwareness_calm:
  "\<not> shouldFlee g p f \<Longrightarrow>
     updatePlayerAwareness g dt (Some p) f =
       f\<lparr>playerAwareness :=
            (if vlength ((subVectors p (position f))\<lparr>vy := 0\<rparr>) < 8
             then min 1 (playerAwareness f + dt * 0.5)
             else max 0 (playerAwareness f - dt * 0.2))\<rparr>"
  by (simp add: updatePlayerAwareness_def Let_def)

lemma startle_state:
  "state (startle g p f) =
     (if rand g (rix f) < flightiness (personality f) then FLEEING else state f)"
  by (simp add: startle_def Let_def prim_defs)

lemma startle_stateTimer:
  "stateTimer (startle g p f) =
     (if rand g (rix f) < flightiness (personality f) \<and> state f \<noteq> FLEEING
      then 0 else stateTimer f)"
  by (simp add: startle_def Let_def prim_defs)

lemma startle_target:
  "targetPosition (startle g p f) =
     (if rand g (rix f) < flightiness (personality f)
      then Some (fleeTarget g p f) else targetPosition f)"
  by (simp add: startle_def fleeTarget_def Let_def prim_defs)

lemma updatePlayerAwareness_state:
  "state (updatePlayerAwareness g dt pp f) = (if flees g pp f then FLEEING else state f)"
  by (cases pp) (simp_all add: updatePlayerAwareness_def flees_def Let_def startle_state)

lemma updatePlayerAwareness_stateTimer:
  "stateTimer (updatePlayerAwareness g dt pp f) =
     (if flees g pp f \<and> state f \<noteq> FLEEING then 0 else stateTimer f)"
  by (cases pp) (simp_all add: updatePlayerAwareness_def flees_def Let_def startle_stateTimer)

lemma updatePlayerAwareness_target:
  "targetPosition (updatePlayerAwareness g dt pp f) =
     (case pp of
        None \<Rightarrow> targetPosition f
      | Some p \<Rightarrow> if flees g pp f then Some (fleeTarget g p f) else targetPosition f)"
  by (cases pp) (simp_all add: updatePlayerAwareness_def flees_def Let_def startle_target)

lemma advanceTimers_fields [simp]:
  "state (advanceTimers dt f) = state f"
  "stateTimer (advanceTimers dt f) = stateTimer f + dt"
  "previousState (advanceTimers dt f) = previousState f"
  "targetPosition (advanceTimers dt f) = targetPosition f"
  "isLyingDown (advanceTimers dt f) = isLyingDown f"
  "lyingDownProgress (advanceTimers dt f) = lyingDownProgress f"
  "tiredness (advanceTimers dt f) = tiredness f"
  "sleepTimer (advanceTimers dt f) = sleepTimer f"
  "playerAwareness (advanceTimers dt f) = playerAwareness f"
  "socialTarget (advanceTimers dt f) = socialTarget f"
  "selfIx (advanceTimers dt f) = selfIx f"
  "poke (advanceTimers dt f) = poke f"
  "mood (advanceTimers dt f) = mood f"
  "personality (advanceTimers dt f) = personality f"
  "isPetted (advanceTimers dt f) = isPetted f"
  "isHovered (advanceTimers dt f) = isHovered f"
  "timesBeenPetted (advanceTimers dt f) = timesBeenPetted f"
  "comfortDistance (advanceTimers dt f) = comfortDistance f"
  "fleeThreshold (advanceTimers dt f) = fleeThreshold f"
  "lastStrokeTime (advanceTimers dt f) = lastStrokeTime f"
  "fleeSpeed (advanceTimers dt f) = fleeSpeed f"
  "baseScale (advanceTimers dt f) = baseScale f"
  "position (advanceTimers dt f) = position f"
  "mesh (advanceTimers dt f) = mesh f"
  "balls (advanceTimers dt f) = balls f"
  "rix (advanceTimers dt f) = rix f"
  "lastPlayerPosition (advanceTimers dt f) = lastPlayerPosition f"
  "lastSeenPlayerTime (advanceTimers dt f) = lastSeenPlayerTime f"
  "happiness (advanceTimers dt f) =
     (if isPetted f then happiness f else max 0 (happiness f - dt * 0.08))"
  "hoverTime (advanceTimers dt f) = (if isHovered f then hoverTime f + dt else hoverTime f)"
  by (simp_all add: advanceTimers_def Let_def)

lemma growTired_fields [simp]:
  "keeps (growTired dt f) = keeps f"
  "state (growTired dt f) = state f"
  "stateTimer (growTired dt f) = stateTimer f"
  "previousState (growTired dt f) = previousState f"
  "targetPosition (growTired dt f) = targetPosition f"
  "isLyingDown (growTired dt f) = isLyingDown f"
  "lyingDownProgress (growTired dt f) = lyingDownProgress f"
  "sleepTimer (growTired dt f) = sleepTimer f"
  "playerAwareness (growTired dt f) = playerAwareness f"
  "socialTarget (growTired dt f) = socialTarget f"
  "lastPlayerPosition (growTired dt f) = lastPlayerPosition f"
  "lastSeenPlayerTime (growTired dt f) = lastSeenPlayerTime f"
  "tiredness (growTired dt f) =
     (if state f \<noteq> RESTING \<and> state f \<noteq> SLEEPING
      then min 1 (tiredness f + dt * 0.005 * laziness (personality f)) else tiredness f)"
  by (simp_all add: growTired_def keeps_upd)
lemmas growTired_kept [simp] = keepsD [OF growTired_fields(1)]

lemma flees_advanceTimers [simp]: "flees g pp (advanceTimers dt f) = flees g pp f"
  by (simp add: flees_def shouldFlee_def split: option.splits)

lemma shouldFlee_advanceTimers [simp]:
  "shouldFlee g p (advanceTimers dt f) = shouldFlee g p f"
  by (simp add: shouldFlee_def)

lemma fleeTarget_advanceTimers [simp]:
  "fleeTarget g p (advanceTimers dt f) = fleeTarget g p f"
  by (simp add: fleeTarget_def)

lemma updateHead_kept [simp]:
  "selfIx (updateHead g now dt pp f) = selfIx f"
  "poke (updateHead g now dt pp f) = poke f"
  "personality (updateHead g now dt pp f) = personality f"
  "isPetted (updateHead g now dt pp f) = isPetted f"
  "isHovered (updateHead g now dt pp f) = isHovered f"
  "timesBeenPetted (updateHead g now dt pp f) = timesBeenPetted f"
  "comfortDistance (updateHead g now dt pp f) = comfortDistance f"
  "fleeThreshold (updateHead g now dt pp f) = fleeThreshold f"
  "lastStrokeTime (updateHead g now dt pp f) = lastStrokeTime f"
  "fleeSpeed (updateHead g now dt pp f) = fleeSpeed f"
  "baseScale (updateHead g now dt pp f) = baseScale f"
  "position (updateHead g now dt pp f) = position f"
  "mesh (updateHead g now dt pp f) = mesh f"
  "balls (updateHead g now dt pp f) = balls f"
  by (simp_all add: updateHead_def)

lemma updateHead_happiness:
  "happiness (updateHead g now dt pp f) =
     (if isPetted f then happiness f else max 0 (happiness f - dt * 0.08))"
  by (simp add: updateHead_def)

lemma updateHead_hoverTime:
  "hoverTime (updateHead g now dt pp f) =
     (if isHovered f then hoverTime f + dt else hoverTime f)"
  by (simp add: updateHead_def)

lemma updateHead_state:
  "state (updateHead g now dt pp f) = (if flees g pp f then FLEEING else state f)"
  by (simp add: updateHead_def updatePlayerAwareness_state)

lemma updateHead_stateTimer:
  "stateTimer (updateHead g now dt pp f) =
     (if flees g pp f \<and> state f \<noteq> FLEEING then 0 else stateTimer f + dt)"
  by (simp add: updateHead_def updatePlayerAwareness_stateTimer)

lemma updateHead_target:
  "targetPosition (updateHead g now dt pp f) =
     (case pp of
        None \<Rightarrow> targetPosition f
      | Some p \<Rightarrow> if flees g pp f then Some (fleeTarget g p f) else targetPosition f)"
  by (cases pp) (simp_all add: updateHead_def updatePlayerAwareness_target)

lemma updateHead_calm:
  assumes "pp = None \<or> (\<exists>p. pp = Some p \<and> \<not> shouldFlee g p f)"
  shows "state (updateHead g now dt pp f) = state f \<and>
         stateTimer (updateHead g now dt pp f) = stateTimer f + dt \<and>
         previousState (updateHead g now dt pp f) = previousState f \<and>
         targetPosition (updateHead g now dt pp f) = targetPosition f \<and>
         isLyingDown (updateHead g now dt pp f) = isLyingDown f \<and>
         lyingDownProgress (updateHead g now dt pp f) = lyingDownProgress f \<and>
         sleepTimer (updateHead g now dt pp f) = sleepTimer f \<and>
         socialTarget (updateHead g now dt pp f) = socialTarget f \<and>
         tiredness (updateHead g now dt pp f) =
           (if state f \<noteq> RESTING \<and> state f \<noteq> SLEEPING
            then min 1 (tiredness f + dt * 0.005 * laziness (personality f))
            else tiredness f)"
proof -
  from assms consider "pp = None" | p where "pp = Some p" "\<not> shouldFlee g p f" by blast
  then show ?thesis
  proof cases
    case 1
    then show ?thesis by (simp add: updateHead_def)
  next
    case 2
    then show ?thesis by (simp add: updateHead_def updatePlayerAwareness_calm)
  qed
qed


section \<open>Petting and bliss\<close>

lemma pettedPose_keeps [simp]:
  "keeps (pettedPose f) = keeps f" "state (pettedPose f) = state f"
  "stateTimer (pettedPose f) = stateTimer f" "rix (pettedPose f) = rix f"
  by (simp_all add: pettedPose_def push if_distrib [of state] if_distrib [of stateTimer]
        if_distrib [of rix] cong: if_cong)
lemmas pettedPose_kept [simp] = keepsD [OF pettedPose_keeps(1)]

lemma blissPose_keeps [simp]:
  "keeps (blissPose f) = keeps f" "state (blissPose f) = state f"
  "stateTimer (blissPose f) = stateTimer f" "rix (blissPose f) = rix f"
  by (simp_all add: blissPose_def push)
lemmas blissPose_kept [simp] = keepsD [OF blissPose_keeps(1)]

lemma promotes_pettedPose [simp]: "promotes (pettedPose f) = promotes f"
  by (simp add: promotes_def)

lemma updatePetted_Inr:
  "updatePetted g now dt f = Inr f' \<longleftrightarrow>
     \<not> (promotes f \<and> effects g \<and> mesh f = None) \<and>
     f' = slowPet now dt (if promotes f then setState BLISS (pettedPose f) else pettedPose f)"
  by (auto simp: updatePetted_def Let_def setState_def)

lemma updateBliss_Inr:
  "updateBliss g dt f = Inr f' \<longleftrightarrow>
     \<not> (isPetted f \<and> effects g \<and> rand g (rix f) < 0.1 \<and> mesh f = None) \<and>
     f' = blissEnd (if isPetted f \<and> effects g then tick (blissPose f) else blissPose f)"
  by (auto simp: updateBliss_def Let_def prim_defs)

lemma updatePetted_state:
  "updatePetted g now dt f = Inr f' \<Longrightarrow> state f = PETTED \<Longrightarrow>
     state f' = (if promotes f then BLISS else PETTED)"
  by (simp add: updatePetted_Inr slowPet_def)

lemma updateBliss_state:
  "updateBliss g dt f = Inr f' \<Longrightarrow> state f = BLISS \<Longrightarrow>
     state f' = (if \<not> isPetted f \<and> stateTimer f > 3 then IDLE else BLISS) \<and>
     (\<not> isPetted f \<and> stateTimer f > 3 \<longrightarrow> happiness f' = 0.3)"
  by (auto simp: updateBliss_Inr blissEnd_def prim_defs)

lemma updatePetted_keeps:
  "updatePetted g now dt f = Inr f' \<Longrightarrow>
     keeps (f'\<lparr>happiness := h\<rparr>) = keeps (f\<lparr>happiness := h\<rparr>)"
  by (simp add: updatePetted_Inr slowPet_def) (simp add: proj_defs prim_defs)

lemma updateBliss_keeps:
  "updateBliss g dt f = Inr f' \<Longrightarrow>
     keeps (f'\<lparr>happiness := h\<rparr>) = keeps (f\<lparr>happiness := h\<rparr>)"
  by (simp add: updateBliss_Inr blissEnd_def) (simp add: proj_defs prim_defs)

lemma updatePetted_happiness:
  "updatePetted g now dt f = Inr f' \<Longrightarrow>
     happiness f' = happiness f \<or> happiness f' = min 1 (happiness f + dt * 0.15)"
  by (auto simp: updatePetted_Inr slowPet_def prim_defs)

lemma updateBliss_happiness:
  "updateBliss g dt f = Inr f' \<Longrightarrow> happiness f' = happiness f \<or> happiness f' = 0.3"
  by (auto simp: updateBliss_Inr blissEnd_def prim_defs)

lemma updateSwitch_total:
  "mesh f \<noteq> None \<Longrightarrow> \<exists>f'. updateSwitch g now dt pp f = Inr f'"
  by (cases "state f")
     (simp_all add: updateSwitch_def updateGrazing_total updatePetted_Inr updateBliss_Inr)

lemma update_total:
  "mesh f \<noteq> None \<Longrightarrow> \<exists>f'. update g now dt pp f = Inr f'"
  using updateSwitch_total [of "updateHead g now dt pp f" g now dt pp]
  by (auto simp: update_def)

lemma update_Inr:
  "update g now dt pp f = Inr f' \<longleftrightarrow>
     (\<exists>f1. updateSwitch g now dt pp (updateHead g now dt pp f) = Inr f1 \<and>
           f' = updateTail g now dt pp f1)"
  by (auto simp: update_def split: sum.splits)

section \<open>From petted to bliss, from bliss to idle\<close>

lemma cannot_flee:
  "state f = PETTED \<or> state f = BLISS \<or> state f = SLEEPING \<Longrightarrow> \<not> shouldFlee g p f"
  "state f = PETTED \<or> state f = BLISS \<or> state f = SLEEPING \<Longrightarrow> \<not> flees g pp f"
  by (auto simp: shouldFlee_def flees_def Let_def split: option.splits)

lemma updateHead_held:
  assumes "state f = PETTED \<or> state f = BLISS \<or> state f = SLEEPING"
  shows "state (updateHead g now dt pp f) = state f \<and>
         stateTimer (updateHead g now dt pp f) = stateTimer f + dt \<and>
         previousState (updateHead g now dt pp f) = previousState f \<and>
         targetPosition (updateHead g now dt pp f) = targetPosition f \<and>
         isLyingDown (updateHead g now dt pp f) = isLyingDown f \<and>
         lyingDownProgress (updateHead g now dt pp f) = lyingDownProgress f \<and>
         sleepTimer (updateHead g now dt pp f) = sleepTimer f \<and>
         socialTarget (updateHead g now dt pp f) = socialTarget f \<and>
         tiredness (updateHead g now dt pp f) =
           (if state f \<noteq> RESTING \<and> state f \<noteq> SLEEPING
            then min 1 (tiredness f + dt * 0.005 * laziness (personality f))
            else tiredness f)"
proof (rule updateHead_calm)
  show "pp = None \<or> (\<exists>p. pp = Some p \<and> \<not> shouldFlee g p f)"
    using cannot_flee(1) [OF assms] by (cases pp) auto
qed

lemma update_petted:
  assumes "state f = PETTED"
  shows "update g now dt pp f = Inr f' \<longleftrightarrow>
           \<not> (promotes (updateHead g now dt pp f) \<and> effects g \<and> mesh f = None) \<and>
           f' = updateTail g now dt pp
                  (slowPet now dt
                     (if promotes (updateHead g now dt pp f)
                      then setState BLISS (pettedPose (updateHead g now dt pp f))
                      else pettedPose (updateHead g now dt pp f)))"
  using updateHead_held [of f g now dt pp] assms
  by (auto simp: update_Inr updateSwitch_def updatePetted_Inr)

lemma update_bliss:
  assumes "state f = BLISS"
  shows "update g now dt pp f = Inr f' \<longleftrightarrow>
           \<not> (isPetted f \<and> effects g \<and> rand g (rix (updateHead g now dt pp f)) < 0.1 \<and>
              mesh f = None) \<and>
           f' = updateTail g now dt pp
                  (blissEnd (if isPetted f \<and> effects g
                             then tick (blissPose (updateHead g now dt pp f))
                             else blissPose (updateHead g now dt pp f)))"
  using updateHead_held [of f g now dt pp] assms
  by (auto simp: update_Inr updateSwitch_def updateBliss_Inr)

lemma promotes_updateHead:
  "state f = PETTED \<Longrightarrow>
     promotes (updateHead g now dt pp f) \<longleftrightarrow>
       happiness f > 0.8 \<and> isPetted f \<and> stateTimer f + dt > 2"
  using updateHead_held [of f g now dt pp]
  by (auto simp: promotes_def updateHead_happiness)



section \<open>Waking a sleeper\<close>

lemma update_sleeping:
  assumes "state f = SLEEPING"
  shows "update g now dt pp f =
           Inr (updateTail g now dt pp (updateSleeping g dt pp (updateHead g now dt pp f)))"
  using updateHead_held [of f g now dt pp] assms
  by (simp add: update_def updateSwitch_def)

lemma updateSleeping_wakes:
  assumes "distanceTo (position f) p < 3"
    and "distanceTo (position f) p < 2 \<or> isHovered f"
  shows "state (updateSleeping g dt (Some p) f) = CURIOUS \<and>
         \<not> isLyingDown (updateSleeping g dt (Some p) f) \<and>
         lyingDownProgress (updateSleeping g dt (Some p) f) = 0"
  using assms by (auto simp: updateSleeping_def Let_def prim_defs)

lemma updateSleeping_sleeps_on:
  assumes "\<forall>p. pp = Some p \<longrightarrow> \<not> distanceTo (position f) p < 3"
    and "sleepTimer f + dt \<le> 10 + rand g (rix f) * 10"
  shows "state (updateSleeping g dt pp f) = state f \<and>
         isLyingDown (updateSleeping g dt pp f)"
  using assms
  by (auto simp: updateSleeping_def sleepingTail_def Let_def prim_defs split: option.splits)

lemma updateSleeping_result:
  assumes "state f = SLEEPING"
  shows "(if (case pp of None \<Rightarrow> False
              | Some p \<Rightarrow> distanceTo (position f) p < 3 \<and>
                          (distanceTo (position f) p < 2 \<or> isHovered f))
          then state (updateSleeping g dt pp f) = CURIOUS \<and>
               \<not> isLyingDown (updateSleeping g dt pp f) \<and>
               lyingDownProgress (updateSleeping g dt pp f) = 0
          else if 10 + rand g (rix f) * 10 < sleepTimer f + dt \<and>
                  max 0 (tiredness f - dt * 0.05) < 0.1
          then state (updateSleeping g dt pp f) = STRETCHING \<and>
               \<not> isLyingDown (updateSleeping g dt pp f)
          else state (updateSleeping g dt pp f) = SLEEPING \<and>
               isLyingDown (updateSleeping g dt pp f))"
  using assms
  by (auto simp: updateSleeping_def sleepingTail_def Let_def prim_defs split: option.splits)

text \<open>
  C5, as the code has it. For a creature in \<open>sleeping\<close>, \<open>update\<close> looks at the hover
  only inside its test that the player is there and less than 3 units away. So the
  creature is woken exactly when the player is less than 3 units away and either less
  than 2 units away or the creature is hovered: it stands up (\<open>isLyingDown\<close> false,
  \<open>lyingDownProgress\<close> 0) and is in \<open>curious\<close> after the call. In every other case,
  hovered or not, it is not in \<open>curious\<close> after the call: it is still in \<open>sleeping\<close>,
  lying down, unless its own waking applies (\<open>sleepTimer\<close> above
  \<open>10 + Math.random() * 10\<close> with the tiredness, after this frame's recovery, below
  0.1), which stands it up into \<open>stretching\<close>. The roll is the one that
  \<open>_updateSleeping\<close> draws, after the rolls of the first half of \<open>update\<close>.
\<close>

theorem update_sleeping_wakes:
  "state f = SLEEPING \<longrightarrow>
     (\<exists>f'. update g now dt pp f = Inr f' \<and>
        (if (case pp of None \<Rightarrow> False
             | Some p \<Rightarrow> distanceTo (position f) p < 3 \<and>
                         (distanceTo (position f) p < 2 \<or> isHovered f))
         then state f' = CURIOUS \<and> \<not> isLyingDown f' \<and> lyingDownProgress f' = 0
         else if 10 + rand g (rix (updateHead g now dt pp f)) * 10 < sleepTimer f + dt \<and>
                 max 0 (tiredness f - dt * 0.05) < 0.1
         then state f' = STRETCHING \<and> \<not> isLyingDown f'
         else state f' = SLEEPING \<and> isLyingDown f'))"
proof
  assume a: "state f = SLEEPING"
  let ?h = "updateHead g now dt pp f"
  let ?f' = "updateTail g now dt pp (updateSleeping g dt pp ?h)"
  have h: "state ?h = SLEEPING" "sleepTimer ?h = sleepTimer f" "tiredness ?h = tiredness f"
    using updateHead_held [of f g now dt pp] a by simp_all
  have u: "update g now dt pp f = Inr ?f'"
    using a by (rule update_sleeping)
  have "if (case pp of None \<Rightarrow> False
             | Some p \<Rightarrow> distanceTo (position f) p < 3 \<and>
                         (distanceTo (position f) p < 2 \<or> isHovered f))
         then state ?f' = CURIOUS \<and> \<not> isLyingDown ?f' \<and> lyingDownProgress ?f' = 0
         else if 10 + rand g (rix ?h) * 10 < sleepTimer f + dt \<and>
                 max 0 (tiredness f - dt * 0.05) < 0.1
         then state ?f' = STRETCHING \<and> \<not> isLyingDown ?f'
         else state ?f' = SLEEPING \<and> isLyingDown ?f'"
    using updateSleeping_result [OF h(1), of pp g dt]
    by (simp only: h updateHead_kept updateTail_kept)
  with u show "\<exists>f'. update g now dt pp f = Inr f' \<and>
        (if (case pp of None \<Rightarrow> False
             | Some p \<Rightarrow> distanceTo (position f) p < 3 \<and>
                         (distanceTo (position f) p < 2 \<or> isHovered f))
         then state f' = CURIOUS \<and> \<not> isLyingDown f' \<and> lyingDownProgress f' = 0
         else if 10 + rand g (rix (updateHead g now dt pp f)) * 10 < sleepTimer f + dt \<and>
                 max 0 (tiredness f - dt * 0.05) < 0.1
         then state f' = STRETCHING \<and> \<not> isLyingDown f'
         else state f' = SLEEPING \<and> isLyingDown f')"
    by (intro exI [where x = ?f'] conjI)
qed

theorem update_sleeping_wakes_witness:
  "(\<exists>f'. update (worldOf [(sheepAt 0 0)\<lparr>state := SLEEPING, isHovered := True\<rparr>])
             1000 (1 / 60) (Some \<lparr>vx = 5 / 2, vy = 0, vz = 0\<rparr>)
             (enter (worldOf [(sheepAt 0 0)\<lparr>state := SLEEPING, isHovered := True\<rparr>]) 0)
          = Inr f' \<and> state f' = CURIOUS \<and> \<not> isLyingDown f' \<and> lyingDownProgress f' = 0) \<and>
   (\<exists>f'. update (worldOf [(sheepAt 0 0)\<lparr>state := SLEEPING\<rparr>])
             1000 (1 / 60) (Some \<lparr>vx = 1, vy = 0, vz = 0\<rparr>)
             (enter (worldOf [(sheepAt 0 0)\<lparr>state := SLEEPING\<rparr>]) 0)
          = Inr f' \<and> state f' = CURIOUS \<and> \<not> isLyingDown f' \<and> lyingDownProgress f' = 0) \<and>
   (\<exists>f'. update (worldOf [(sheepAt 0 0)\<lparr>state := SLEEPING, isHovered := True\<rparr>])
             1000 (1 / 60) None
             (enter (worldOf [(sheepAt 0 0)\<lparr>state := SLEEPING, isHovered := True\<rparr>]) 0)
          = Inr f' \<and> state f' = SLEEPING \<and> isLyingDown f') \<and>
   (\<exists>f'. update (worldOf [(sheepAt 0 0)\<lparr>state := SLEEPING, isHovered := True,
                                       sleepTimer := 30, tiredness := 0\<rparr>])
             1000 (1 / 60) None
             (enter (worldOf [(sheepAt 0 0)\<lparr>state := SLEEPING, isHovered := True,
                                             sleepTimer := 30, tiredness := 0\<rparr>]) 0)
          = Inr f' \<and> state f' = STRETCHING \<and> \<not> isLyingDown f')"
  using update_sleeping_wakes
          [of "enter (worldOf [(sheepAt 0 0)\<lparr>state := SLEEPING, isHovered := True\<rparr>]) 0"
              "worldOf [(sheepAt 0 0)\<lparr>state := SLEEPING, isHovered := True\<rparr>]"
              1000 "1 / 60" "Some \<lparr>vx = 5 / 2, vy = 0, vz = 0\<rparr>"]
        update_sleeping_wakes
          [of "enter (worldOf [(sheepAt 0 0)\<lparr>state := SLEEPING\<rparr>]) 0"
              "worldOf [(sheepAt 0 0)\<lparr>state := SLEEPING\<rparr>]"
              1000 "1 / 60" "Some \<lparr>vx = 1, vy = 0, vz = 0\<rparr>"]
        update_sleeping_wakes
          [of "enter (worldOf [(sheepAt 0 0)\<lparr>state := SLEEPING, isHovered := True\<rparr>]) 0"
              "worldOf [(sheepAt 0 0)\<lparr>state := SLEEPING, isHovered := True\<rparr>]"
              1000 "1 / 60" None]
        update_sleeping_wakes
          [of "enter (worldOf [(sheepAt 0 0)\<lparr>state := SLEEPING, isHovered := True,
                                               sleepTimer := 30, tiredness := 0\<rparr>]) 0"
              "worldOf [(sheepAt 0 0)\<lparr>state := SLEEPING, isHovered := True,
                                       sleepTimer := 30, tiredness := 0\<rparr>]"
              1000 "1 / 60" None]
  by (simp add: distanceTo_def vlength_def subVectors_def real_sqrt_divide)

text \<open>
  C5 as stated fails: a sleeping creature under an active hover, with the player 5 units
  away, is still asleep and lying down after \<open>update\<close>.
\<close>

theorem update_sleeping_hover_far_counterexample:
  "isHovered (enter (worldOf [(sheepAt 0 0)\<lparr>state := SLEEPING, isHovered := True\<rparr>]) 0) \<and>
   (\<exists>f'. update (worldOf [(sheepAt 0 0)\<lparr>state := SLEEPING, isHovered := True\<rparr>])
             1000 (1 / 60) (Some \<lparr>vx = 5, vy = 0, vz = 0\<rparr>)
             (enter (worldOf [(sheepAt 0 0)\<lparr>state := SLEEPING, isHovered := True\<rparr>]) 0)
          = Inr f' \<and> state f' = SLEEPING \<and> isLyingDown f')"
proof -
  let ?g = "worldOf [(sheepAt 0 0)\<lparr>state := SLEEPING, isHovered := True\<rparr>]"
  let ?f = "enter ?g 0"
  let ?pp = "Some \<lparr>vx = 5, vy = 0, vz = 0\<rparr>"
  let ?h = "updateHead ?g 1000 (1 / 60) ?pp ?f"
  have s: "state ?f = SLEEPING" by simp
  have h: "state ?h = SLEEPING" "sleepTimer ?h = 0" "position ?h = \<lparr>vx = 0, vy = 0, vz = 0\<rparr>"
    using updateHead_held [of ?f ?g 1000 "1 / 60" ?pp] by simp_all
  have r: "rand ?g n = 1 / 2" for n by (simp add: worldOf_def emptyWorld_def)
  have "state (updateSleeping ?g (1 / 60) ?pp ?h) = state ?h \<and>
        isLyingDown (updateSleeping ?g (1 / 60) ?pp ?h)"
    by (rule updateSleeping_sleeps_on)
       (simp_all add: h r distanceTo_def vlength_def subVectors_def)
  then show ?thesis
    by (simp add: update_sleeping [OF s] h)
qed

section \<open>Fleeing from a running player\<close>

lemma hdist_vlength: "hdist a b = vlength ((subVectors a b)\<lparr>vy := 0\<rparr>)"
  by (simp add: hdist_def vlength_def subVectors_def)

lemma multiplyScalar_minus:
  "multiplyScalar (multiplyScalar a (- 1)) k = multiplyScalar a (- k)"
  by (simp add: multiplyScalar_def)

lemma subVectors_vadd_flat:
  "vy w = 0 \<Longrightarrow> (subVectors (vadd q w) q)\<lparr>vy := 0\<rparr> = w"
  by (simp add: subVectors_def vadd_def)

lemma fleeTarget_offset:
  "(subVectors (fleeTarget g p f) (position f))\<lparr>vy := 0\<rparr> =
     multiplyScalar (normalize ((subVectors p (position f))\<lparr>vy := 0\<rparr>))
       (- (8 + rand g (Suc (rix f)) * 5))"
  unfolding fleeTarget_def multiplyScalar_minus
  by (rule subVectors_vadd_flat) (simp add: multiplyScalar_def normalize_def)

lemma fleeTarget_distance:
  assumes "0 < hdist p (position f)" and "0 \<le> rand g (Suc (rix f))"
  shows "hdist (fleeTarget g p f) (position f) = 8 + rand g (Suc (rix f)) * 5"
proof -
  have "vlength ((subVectors p (position f))\<lparr>vy := 0\<rparr>) \<noteq> 0"
    using assms(1) by (simp add: hdist_vlength)
  then have "vlength (normalize ((subVectors p (position f))\<lparr>vy := 0\<rparr>)) = 1"
    by (rule vlength_normalize)
  then show ?thesis
    using assms(2) by (simp add: hdist_vlength fleeTarget_offset vlength_scale)
qed

lemma fleeTarget_away:
  assumes "0 < hdist p (position f)"
  shows "vx (fleeTarget g p f) - vx (position f) =
           (8 + rand g (Suc (rix f)) * 5) / hdist p (position f) * (vx (position f) - vx p) \<and>
         vz (fleeTarget g p f) - vz (position f) =
           (8 + rand g (Suc (rix f)) * 5) / hdist p (position f) * (vz (position f) - vz p) \<and>
         vy (fleeTarget g p f) = vy (position f)"
proof -
  have "vlength ((subVectors p (position f))\<lparr>vy := 0\<rparr>) = hdist p (position f)"
    by (simp add: hdist_vlength)
  then show ?thesis
    using assms
    by (simp add: fleeTarget_def vadd_def multiplyScalar_def normalize_def subVectors_def
        field_simps)
qed

lemma updateFleeing_runs:
  assumes "targetPosition f = Some t"
    and "1 < hdist t (position f)"
    and "stateTimer f \<le> 3"
  shows "state (updateFleeing f) = state f \<and> targetPosition (updateFleeing f) = Some t"
  using assms by (simp add: updateFleeing_def Let_def hdist_vlength)

lemma updateFleeing_timeout:
  assumes "3 < stateTimer f"
  shows "state (updateFleeing f) = IDLE"
  using assms
  by (auto simp: updateFleeing_def Let_def setState_def split: option.splits)

lemma update_fleeing:
  assumes "state (updateHead g now dt pp f) = FLEEING"
  shows "update g now dt pp f =
           Inr (updateTail g now dt pp (updateFleeing (updateHead g now dt pp f)))"
  using assms by (simp add: update_def updateSwitch_def)

text \<open>
  C3, as the code has it. A creature with flightiness 1, a player at a positive
  horizontal distance below \<open>fleeThreshold\<close> whose horizontal speed exceeds 3, and a
  state that is none of \<open>petted\<close>, \<open>bliss\<close>, \<open>sleeping\<close>: any roll of
  \<open>Math.random()\<close> is below 1, so \<open>_updatePlayerAwareness\<close> sets \<open>fleeing\<close> and a
  target. The creature is still in \<open>fleeing\<close> at the end of \<open>update\<close> unless it was
  in \<open>fleeing\<close> before and its three seconds are over (\<open>setState\<close> does not restart
  the timer of a state that does not change). The target is the creature's position
  moved by \<open>8 + 5 * Math.random()\<close> units, straight away from the player on the ground
  plane.
\<close>

theorem update_puts_to_flight:
  "flightiness (personality f) = 1 \<and> rand g (rix f) < 1 \<and>
   0 \<le> rand g (Suc (rix f)) \<and> rand g (Suc (rix f)) < 1 \<and>
   player g = Some v \<and> 3 < sqrt ((vx v)\<^sup>2 + (vz v)\<^sup>2) \<and>
   0 < hdist p (position f) \<and> hdist p (position f) < fleeThreshold f \<and>
   state f \<noteq> PETTED \<and> state f \<noteq> BLISS \<and> state f \<noteq> SLEEPING \<and>
   (state f = FLEEING \<longrightarrow> stateTimer f + dt \<le> 3) \<longrightarrow>
     (\<exists>f' t k. update g now dt (Some p) f = Inr f' \<and> state f' = FLEEING \<and>
        targetPosition f' = Some t \<and>
        hdist t (position f) = 8 + rand g (Suc (rix f)) * 5 \<and>
        8 \<le> hdist t (position f) \<and> hdist t (position f) < 13 \<and>
        0 < k \<and>
        vx t - vx (position f) = k * (vx (position f) - vx p) \<and>
        vz t - vz (position f) = k * (vz (position f) - vz p) \<and>
        vy t = vy (position f))"
proof
  assume a: "flightiness (personality f) = 1 \<and> rand g (rix f) < 1 \<and>
   0 \<le> rand g (Suc (rix f)) \<and> rand g (Suc (rix f)) < 1 \<and>
   player g = Some v \<and> 3 < sqrt ((vx v)\<^sup>2 + (vz v)\<^sup>2) \<and>
   0 < hdist p (position f) \<and> hdist p (position f) < fleeThreshold f \<and>
   state f \<noteq> PETTED \<and> state f \<noteq> BLISS \<and> state f \<noteq> SLEEPING \<and>
   (state f = FLEEING \<longrightarrow> stateTimer f + dt \<le> 3)"
  let ?h = "updateHead g now dt (Some p) f"
  let ?t = "fleeTarget g p f"
  let ?K = "8 + rand g (Suc (rix f)) * 5"
  let ?f' = "updateTail g now dt (Some p) (updateFleeing ?h)"
  have fl: "flees g (Some p) f"
    using a by (simp add: flees_def shouldFlee_def Let_def hdist_vlength)
  have d: "hdist ?t (position f) = ?K"
    using a by (simp add: fleeTarget_distance)
  have h: "state ?h = FLEEING" "targetPosition ?h = Some ?t" "stateTimer ?h \<le> 3"
          "position ?h = position f"
    using fl a by (simp_all add: updateHead_state updateHead_target updateHead_stateTimer)
  have "1 < hdist ?t (position ?h)" using d a h(4) by simp
  from updateFleeing_runs [OF h(2) this h(3)]
  have r: "state ?f' = FLEEING" "targetPosition ?f' = Some ?t"
    using h(1) by simp_all
  have u: "update g now dt (Some p) f = Inr ?f'"
    by (rule update_fleeing [OF h(1)])
  have rng: "8 \<le> hdist ?t (position f) \<and> hdist ?t (position f) < 13"
    using d a by simp
  have k: "0 < ?K / hdist p (position f)" using a by simp
  show "\<exists>f' t k. update g now dt (Some p) f = Inr f' \<and> state f' = FLEEING \<and>
        targetPosition f' = Some t \<and>
        hdist t (position f) = 8 + rand g (Suc (rix f)) * 5 \<and>
        8 \<le> hdist t (position f) \<and> hdist t (position f) < 13 \<and>
        0 < k \<and>
        vx t - vx (position f) = k * (vx (position f) - vx p) \<and>
        vz t - vz (position f) = k * (vz (position f) - vz p) \<and>
        vy t = vy (position f)"
    using u r d rng k fleeTarget_away [of p f g] a by blast
qed

theorem update_puts_to_flight_witness:
  "\<exists>f' t k. update ((worldOf [(sheepAt 0 0)\<lparr>personality := (personality (sheepAt 0 0))\<lparr>flightiness := 1\<rparr>\<rparr>])
        \<lparr>player := Some \<lparr>vx = 4, vy = 0, vz = 0\<rparr>\<rparr>) 1000 (1 / 60) (Some \<lparr>vx = 1, vy = 0, vz = 0\<rparr>) (enter ((worldOf [(sheepAt 0 0)\<lparr>personality := (personality (sheepAt 0 0))\<lparr>flightiness := 1\<rparr>\<rparr>])
        \<lparr>player := Some \<lparr>vx = 4, vy = 0, vz = 0\<rparr>\<rparr>) 0) = Inr f' \<and>
      state f' = FLEEING \<and> targetPosition f' = Some t \<and>
      hdist t (position (enter ((worldOf [(sheepAt 0 0)\<lparr>personality := (personality (sheepAt 0 0))\<lparr>flightiness := 1\<rparr>\<rparr>])
        \<lparr>player := Some \<lparr>vx = 4, vy = 0, vz = 0\<rparr>\<rparr>) 0)) =
        8 + rand ((worldOf [(sheepAt 0 0)\<lparr>personality := (personality (sheepAt 0 0))\<lparr>flightiness := 1\<rparr>\<rparr>])
        \<lparr>player := Some \<lparr>vx = 4, vy = 0, vz = 0\<rparr>\<rparr>) (Suc (rix (enter ((worldOf [(sheepAt 0 0)\<lparr>personality := (personality (sheepAt 0 0))\<lparr>flightiness := 1\<rparr>\<rparr>])
        \<lparr>player := Some \<lparr>vx = 4, vy = 0, vz = 0\<rparr>\<rparr>) 0))) * 5 \<and>
      8 \<le> hdist t (position (enter ((worldOf [(sheepAt 0 0)\<lparr>personality := (personality (sheepAt 0 0))\<lparr>flightiness := 1\<rparr>\<rparr>])
        \<lparr>player := Some \<lparr>vx = 4, vy = 0, vz = 0\<rparr>\<rparr>) 0)) \<and>
      hdist t (position (enter ((worldOf [(sheepAt 0 0)\<lparr>personality := (personality (sheepAt 0 0))\<lparr>flightiness := 1\<rparr>\<rparr>])
        \<lparr>player := Some \<lparr>vx = 4, vy = 0, vz = 0\<rparr>\<rparr>) 0)) < 13 \<and>
      0 < k \<and>
      vx t - vx (position (enter ((worldOf [(sheepAt 0 0)\<lparr>personality := (personality (sheepAt 0 0))\<lparr>flightiness := 1\<rparr>\<rparr>])
        \<lparr>player := Some \<lparr>vx = 4, vy = 0, vz = 0\<rparr>\<rparr>) 0)) = k * (vx (position (enter ((worldOf [(sheepAt 0 0)\<lparr>personality := (personality (sheepAt 0 0))\<lparr>flightiness := 1\<rparr>\<rparr>])
        \<lparr>player := Some \<lparr>vx = 4, vy = 0, vz = 0\<rparr>\<rparr>) 0)) - vx \<lparr>vx = 1, vy = 0, vz = 0\<rparr>) \<and>
      vz t - vz (position (enter ((worldOf [(sheepAt 0 0)\<lparr>personality := (personality (sheepAt 0 0))\<lparr>flightiness := 1\<rparr>\<rparr>])
        \<lparr>player := Some \<lparr>vx = 4, vy = 0, vz = 0\<rparr>\<rparr>) 0)) = k * (vz (position (enter ((worldOf [(sheepAt 0 0)\<lparr>personality := (personality (sheepAt 0 0))\<lparr>flightiness := 1\<rparr>\<rparr>])
        \<lparr>player := Some \<lparr>vx = 4, vy = 0, vz = 0\<rparr>\<rparr>) 0)) - vz \<lparr>vx = 1, vy = 0, vz = 0\<rparr>) \<and>
      vy t = vy (position (enter ((worldOf [(sheepAt 0 0)\<lparr>personality := (personality (sheepAt 0 0))\<lparr>flightiness := 1\<rparr>\<rparr>])
        \<lparr>player := Some \<lparr>vx = 4, vy = 0, vz = 0\<rparr>\<rparr>) 0))"
  using update_puts_to_flight
          [of "enter ((worldOf [(sheepAt 0 0)\<lparr>personality := (personality (sheepAt 0 0))\<lparr>flightiness := 1\<rparr>\<rparr>])
        \<lparr>player := Some \<lparr>vx = 4, vy = 0, vz = 0\<rparr>\<rparr>) 0" "((worldOf [(sheepAt 0 0)\<lparr>personality := (personality (sheepAt 0 0))\<lparr>flightiness := 1\<rparr>\<rparr>])
        \<lparr>player := Some \<lparr>vx = 4, vy = 0, vz = 0\<rparr>\<rparr>)" "\<lparr>vx = 4, vy = 0, vz = 0\<rparr>" "\<lparr>vx = 1, vy = 0, vz = 0\<rparr>" "1 / 60" 1000]
  by (simp add: hdist_def)

text \<open>
  C3 as stated fails: a creature that has been in \<open>fleeing\<close> for three seconds, with
  flightiness 1 and a running player one unit away, is in \<open>idle\<close> after \<open>update\<close>:
  the roll passes and a new target is set, but \<open>_updateFleeing\<close> then ends the state
  on its three-second limit.
\<close>

theorem update_fleeing_timeout_counterexample:
  "flightiness (personality (enter ((worldOf [(sheepAt 0 0)\<lparr>state := FLEEING, stateTimer := 3,
                              personality := (personality (sheepAt 0 0))\<lparr>flightiness := 1\<rparr>\<rparr>])
        \<lparr>player := Some \<lparr>vx = 4, vy = 0, vz = 0\<rparr>\<rparr>) 0)) = 1 \<and>
   hdist \<lparr>vx = 1, vy = 0, vz = 0\<rparr> (position (enter ((worldOf [(sheepAt 0 0)\<lparr>state := FLEEING, stateTimer := 3,
                              personality := (personality (sheepAt 0 0))\<lparr>flightiness := 1\<rparr>\<rparr>])
        \<lparr>player := Some \<lparr>vx = 4, vy = 0, vz = 0\<rparr>\<rparr>) 0)) < fleeThreshold (enter ((worldOf [(sheepAt 0 0)\<lparr>state := FLEEING, stateTimer := 3,
                              personality := (personality (sheepAt 0 0))\<lparr>flightiness := 1\<rparr>\<rparr>])
        \<lparr>player := Some \<lparr>vx = 4, vy = 0, vz = 0\<rparr>\<rparr>) 0) \<and>
   state (enter ((worldOf [(sheepAt 0 0)\<lparr>state := FLEEING, stateTimer := 3,
                              personality := (personality (sheepAt 0 0))\<lparr>flightiness := 1\<rparr>\<rparr>])
        \<lparr>player := Some \<lparr>vx = 4, vy = 0, vz = 0\<rparr>\<rparr>) 0) = FLEEING \<and>
   (\<exists>f'. update ((worldOf [(sheepAt 0 0)\<lparr>state := FLEEING, stateTimer := 3,
                              personality := (personality (sheepAt 0 0))\<lparr>flightiness := 1\<rparr>\<rparr>])
        \<lparr>player := Some \<lparr>vx = 4, vy = 0, vz = 0\<rparr>\<rparr>) 1000 (1 / 10) (Some \<lparr>vx = 1, vy = 0, vz = 0\<rparr>) (enter ((worldOf [(sheepAt 0 0)\<lparr>state := FLEEING, stateTimer := 3,
                              personality := (personality (sheepAt 0 0))\<lparr>flightiness := 1\<rparr>\<rparr>])
        \<lparr>player := Some \<lparr>vx = 4, vy = 0, vz = 0\<rparr>\<rparr>) 0) = Inr f' \<and>
         state f' = IDLE)"
proof -
  let ?g = "((worldOf [(sheepAt 0 0)\<lparr>state := FLEEING, stateTimer := 3,
                              personality := (personality (sheepAt 0 0))\<lparr>flightiness := 1\<rparr>\<rparr>])
        \<lparr>player := Some \<lparr>vx = 4, vy = 0, vz = 0\<rparr>\<rparr>)"
  let ?f = "enter ?g 0"
  let ?pp = "Some \<lparr>vx = 1, vy = 0, vz = 0\<rparr>"
  let ?h = "updateHead ?g 1000 (1 / 10) ?pp ?f"
  have fl: "flees ?g ?pp ?f"
    by (simp add: flees_def shouldFlee_def Let_def vlength_def subVectors_def)
  have h: "state ?h = FLEEING" "3 < stateTimer ?h"
    using fl by (simp_all add: updateHead_state updateHead_stateTimer)
  have "state (updateTail ?g 1000 (1 / 10) ?pp (updateFleeing ?h)) = IDLE"
    using updateFleeing_timeout [OF h(2)] by simp
  with update_fleeing [OF h(1)]
  have "\<exists>f'. update ?g 1000 (1 / 10) ?pp ?f = Inr f' \<and> state f' = IDLE"
    by blast
  then show ?thesis
    by (simp add: hdist_def)
qed

section \<open>The whole update\<close>

lemma keeps_apart:
  "keeps a = keeps b \<Longrightarrow>
     keeps (a\<lparr>poke := p, happiness := h\<rparr>) = keeps (b\<lparr>poke := p, happiness := h\<rparr>)"
  "keeps (a\<lparr>poke := p\<rparr>) = keeps (b\<lparr>poke := p\<rparr>) \<Longrightarrow>
     keeps (a\<lparr>poke := p, happiness := h\<rparr>) = keeps (b\<lparr>poke := p, happiness := h\<rparr>)"
  "keeps (a\<lparr>happiness := h\<rparr>) = keeps (b\<lparr>happiness := h\<rparr>) \<Longrightarrow>
     keeps (a\<lparr>poke := p, happiness := h\<rparr>) = keeps (b\<lparr>poke := p, happiness := h\<rparr>)"
  by (simp_all add: proj_defs)

lemma keeps_apartD:
  "keeps (a\<lparr>poke := p, happiness := h\<rparr>) = keeps (b\<lparr>poke := p, happiness := h\<rparr>) \<Longrightarrow>
     selfIx a = selfIx b \<and> mood a = mood b \<and> personality a = personality b \<and>
     isPetted a = isPetted b \<and> isHovered a = isHovered b \<and> hoverTime a = hoverTime b \<and>
     timesBeenPetted a = timesBeenPetted b \<and> comfortDistance a = comfortDistance b \<and>
     fleeThreshold a = fleeThreshold b \<and> lastStrokeTime a = lastStrokeTime b \<and>
     fleeSpeed a = fleeSpeed b \<and> baseScale a = baseScale b \<and>
     position a = position b \<and> mesh a = mesh b \<and> balls a = balls b"
  by (simp add: proj_defs)

lemma updateSwitch_keeps:
  assumes "updateSwitch g now dt pp f = Inr f1"
  shows "keeps (f1\<lparr>poke := p, happiness := h\<rparr>) = keeps (f\<lparr>poke := p, happiness := h\<rparr>)"
proof (cases "state f")
  case GRAZING
  with assms show ?thesis
    by (simp add: updateSwitch_def keeps_apart(1) [OF updateGrazing_keeps])
next
  case SOCIAL
  with assms show ?thesis
    by (auto simp: updateSwitch_def intro: keeps_apart(2) [OF updateSocial_keeps])
next
  case PETTED
  with assms show ?thesis
    by (simp add: updateSwitch_def keeps_apart(3) [OF updatePetted_keeps])
next
  case BLISS
  with assms show ?thesis
    by (simp add: updateSwitch_def keeps_apart(3) [OF updateBliss_keeps])
qed (use assms in \<open>auto simp: updateSwitch_def intro: keeps_apart(1)\<close>)

lemmas updateSwitch_kept = keeps_apartD [OF updateSwitch_keeps]

lemmas routines_kept [simp] =
  keepsD [OF updateIdle_keeps] keepsD [OF updateLooking_keeps]
  keepsD [OF updateStretching_keeps] keepsD [OF updateResting_keeps]
  keepsD [OF updateSleeping_keeps] keepsD [OF updateCurious_keeps]
  keepsD [OF updateCalled_keeps] keepsD [OF updateFleeing_keeps]

lemma updateSocial_happiness: "happiness (updateSocial g now dt f) = happiness f"
  using updateSocial_keeps [where g = g and now = now and dt = dt and f = f and p = None]
  by (simp add: proj_defs)

lemma updateSwitch_happiness:
  assumes "updateSwitch g now dt pp f = Inr f1" and "0 \<le> dt"
    and "0 \<le> happiness f" and "happiness f \<le> 1"
  shows "0 \<le> happiness f1 \<and> happiness f1 \<le> 1"
proof (cases "state f")
  case PETTED
  with assms updatePetted_happiness [of g now dt f f1] show ?thesis
    by (auto simp: updateSwitch_def)
next
  case BLISS
  with assms updateBliss_happiness [of g dt f f1] show ?thesis
    by (auto simp: updateSwitch_def)
next
  case GRAZING
  with assms keepsD [OF updateGrazing_keeps, of g dt pp f f1] show ?thesis
    by (simp add: updateSwitch_def)
next
  case SOCIAL
  with assms updateSocial_happiness [of g now dt f] show ?thesis
    by (simp add: updateSwitch_def)
qed (use assms in \<open>auto simp: updateSwitch_def\<close>)





section \<open>Happiness and mood stay in range\<close>

lemma sound_cong: "keeps a = keeps b \<Longrightarrow> sound a = sound b"
  by (simp add: sound_def moodOK_def proj_defs)

lemma sound_frame [simp]:
  fixes f :: frame
  shows "sound (cloudfen.truncate f) = sound f"
  by (simp add: sound_def moodOK_def)

lemma sound_enter [simp]: "sound (enter g i) = sound (cloudfens g ! i)"
  by (simp add: sound_def moodOK_def)

lemma drift:
  fixes c dt :: real
  assumes "0 \<le> c" and "c \<le> 1" and "0 \<le> dt" and "dt \<le> 1"
  shows "0 \<le> c + (0.5 - c) * dt * 0.01 \<and> c + (0.5 - c) * dt * 0.01 \<le> 1"
proof -
  have e: "c + (0.5 - c) * dt * 0.01 = c + dt / 200 - (c * dt) / 100"
    by (simp add: field_simps)
  have x0: "0 \<le> c * dt" using assms by simp
  have x1: "c * dt \<le> c" using assms by (simp add: mult_left_le)
  have "(1 - c) * dt \<le> 1 - c" using assms by (simp add: mult_left_le)
  then have x2: "dt - c * dt \<le> 1 - c" by (simp add: algebra_simps)
  show ?thesis unfolding e using x0 x1 x2 assms by arith
qed

lemma moodOK_updateMood:
  assumes "0 \<le> dt" and "dt \<le> 1" and "moodOK f"
  shows "moodOK (updateMood dt pp f)"
proof -
  let ?c3 = "(if state f = FLEEING
              then max 0 ((if happiness f > 0.5
                           then min 1 ((if state f = RESTING \<or> state f = SLEEPING
                                        then min 1 (contentment (mood f) + dt * 0.02)
                                        else contentment (mood f)) + dt * 0.05)
                           else (if state f = RESTING \<or> state f = SLEEPING
                                 then min 1 (contentment (mood f) + dt * 0.02)
                                 else contentment (mood f))) - dt * 0.1)
              else (if happiness f > 0.5
                    then min 1 ((if state f = RESTING \<or> state f = SLEEPING
                                 then min 1 (contentment (mood f) + dt * 0.02)
                                 else contentment (mood f)) + dt * 0.05)
                    else (if state f = RESTING \<or> state f = SLEEPING
                          then min 1 (contentment (mood f) + dt * 0.02)
                          else contentment (mood f))))"
  have c3: "0 \<le> ?c3" "?c3 \<le> 1"
    using assms by (auto simp: moodOK_def)
  have c: "contentment (mood (updateMood dt pp f)) = ?c3 + (0.5 - ?c3) * dt * 0.01"
    by (simp add: updateMood_def Let_def)
  have a: "0 \<le> alertness (mood (updateMood dt pp f)) \<and>
           alertness (mood (updateMood dt pp f)) \<le> 1"
    using assms by (auto simp: updateMood_def Let_def moodOK_def split: option.splits)
  have p: "0 \<le> playfulness (mood (updateMood dt pp f)) \<and>
           playfulness (mood (updateMood dt pp f)) \<le> 1"
    using assms by (auto simp: updateMood_def Let_def moodOK_def)
  have h: "happiness (updateMood dt pp f) = happiness f"
    by (simp add: updateMood_def Let_def)
  show ?thesis
    unfolding moodOK_def c h using drift [OF c3 assms(1,2)] a p assms(3)
    by (simp add: moodOK_def)
qed

lemma sound_updateMood:
  assumes "0 \<le> dt" and "dt \<le> 1" and "sound f"
  shows "sound (updateMood dt pp f)"
  using assms moodOK_updateMood [of dt f pp] by (simp add: sound_def)

lemma advanceTimers_happiness:
  "happiness (advanceTimers dt f) =
     (if isPetted f then happiness f else max 0 (happiness f - dt * 0.08))"
  by (simp add: advanceTimers_def Let_def)

lemma sound_advanceTimers:
  assumes "0 \<le> dt" and "sound f"
  shows "sound (advanceTimers dt f)"
  using assms by (auto simp: sound_def moodOK_def advanceTimers_happiness)

lemma sound_updateHead:
  assumes "0 \<le> dt" and "dt \<le> 1" and "sound f"
  shows "sound (updateHead g now dt pp f)"
  unfolding updateHead_def
  by (simp add: sound_cong [OF growTired_fields(1)] sound_cong [OF updateAttention_keeps(1)]
        sound_cong [OF updateMicroBehaviors_keeps(1)] sound_cong [OF updatePlayerAwareness_keeps]
        sound_updateMood sound_advanceTimers assms)

lemma update_ok:
  assumes "update g now dt pp f = Inr f'"
  shows "selfIx f' = selfIx f"
    and "(mesh f' = None) = (mesh f = None)"
    and "0 \<le> dt \<Longrightarrow> dt \<le> 1 \<Longrightarrow> sound f \<Longrightarrow> sound f'"
proof -
  let ?h = "updateHead g now dt pp f"
  from assms obtain f1 where s: "updateSwitch g now dt pp ?h = Inr f1"
    and f': "f' = updateTail g now dt pp f1"
    by (auto simp: update_Inr)
  show "selfIx f' = selfIx f"
    using updateSwitch_kept [OF s] by (simp add: f')
  show "(mesh f' = None) = (mesh f = None)"
    using updateSwitch_kept [OF s] by (simp add: f')
  show "sound f'" if d: "0 \<le> dt" "dt \<le> 1" and sf: "sound f"
  proof -
    have h: "sound ?h" using d sf by (rule sound_updateHead)
    have "sound f1"
      using h updateSwitch_kept [OF s] updateSwitch_happiness [OF s d(1)]
      by (simp add: sound_def moodOK_def)
    then show ?thesis by (simp add: f' sound_def moodOK_def)
  qed
qed

lemma update_mesh_total:
  assumes "mesh f \<noteq> None"
  shows "\<exists>f'. update g now dt pp f = Inr f'"
  using assms by (rule update_total)

lemma stroke_bonus:
  fixes speed fr :: real
  assumes "0 \<le> speed" and "0 \<le> fr"
  shows "0 \<le> min (speed * 0.02) 0.15 * fr"
  using assms by simp

lemma onStroke_case:
  assumes "0 \<le> min (speed * 0.02) 0.15 * friendliness (personality f)"
  shows "case onStroke g now dx dy speed f of Inl e \<Rightarrow> True
   | Inr f' \<Rightarrow> selfIx f' = selfIx f \<and> mesh f' = mesh f \<and> (moodOK f \<longrightarrow> moodOK f') \<and>
               personality f' = personality f"
  using assms
  by (simp add: onStroke_def Let_def prim_defs moodOK_def split: option.split)

lemma onStroke_link:
  "case onStroke g now dx dy speed f of Inl e \<Rightarrow> True
   | Inr f' \<Rightarrow> selfIx f' = selfIx f \<and> mesh f' = mesh f"
  by (simp add: onStroke_def Let_def prim_defs split: option.split)

lemma onStroke_ok:
  assumes "onStroke g now dx dy speed f = Inr f'"
  shows "selfIx f' = selfIx f"
    and "(mesh f' = None) = (mesh f = None)"
    and "0 \<le> speed \<Longrightarrow> sound f \<Longrightarrow> sound f'"
proof -
  show "selfIx f' = selfIx f" "(mesh f' = None) = (mesh f = None)"
    using onStroke_link [where g = g and now = now and dx = dx and dy = dy and speed = speed and f = f] assms by simp_all
  show "sound f'" if "0 \<le> speed" and "sound f"
  proof -
    have b: "0 \<le> min (speed * 0.02) 0.15 * friendliness (personality f)"
      using that by (intro stroke_bonus) (simp_all add: sound_def)
    show ?thesis
      using onStroke_case [OF b, where g = g and now = now and dx = dx and dy = dy] assms that(2) by (simp add: sound_def)
  qed
qed

lemma onStroke_total:
  "mesh f \<noteq> None \<Longrightarrow> \<exists>f'. onStroke g now dx dy speed f = Inr f'"
  by (auto simp: onStroke_def Let_def prim_defs)

lemma endPetting_ok:
  assumes "endPetting g duration f = Inr f'"
  shows "selfIx f' = selfIx f"
    and "(mesh f' = None) = (mesh f = None)"
    and "sound f \<Longrightarrow> sound f'"
  using assms
  by (auto simp: endPetting_def Let_def prim_defs sound_def moodOK_def split: if_splits)

lemma endPetting_total:
  "mesh f \<noteq> None \<Longrightarrow> \<exists>f'. endPetting g duration f = Inr f'"
  by (auto simp: endPetting_def Let_def)

lemma startPetting_case:
  "case startPetting g now f of Inl e \<Rightarrow> True
   | Inr f' \<Rightarrow> selfIx f' = selfIx f \<and> mesh f' = mesh f \<and> (sound f \<longrightarrow> sound f')"
  by (simp add: startPetting_def Let_def prim_defs sound_def moodOK_def)

lemma startPetting_ok:
  assumes "startPetting g now f = Inr f'"
  shows "selfIx f' = selfIx f"
    and "(mesh f' = None) = (mesh f = None)"
    and "sound f \<Longrightarrow> sound f'"
  using startPetting_case [where g = g and now = now and f = f] assms by simp_all

lemma startPetting_total:
  "mesh f \<noteq> None \<Longrightarrow> \<exists>f'. startPetting g now f = Inr f'"
  by (auto simp: startPetting_def Let_def setState_def)

lemma plain_ok:
  "selfIx (onHoverStart f) = selfIx f" "mesh (onHoverStart f) = mesh f"
  "sound (onHoverStart f) = sound f"
  "selfIx (onHoverEnd f) = selfIx f" "mesh (onHoverEnd f) = mesh f"
  "sound (onHoverEnd f) = sound f"
  "selfIx (onCalled src f) = selfIx f" "mesh (onCalled src f) = mesh f"
  "sound (onCalled src f) = sound f"
  by (simp_all add: onHoverStart_def onHoverEnd_def onCalled_def Let_def prim_defs
        sound_def moodOK_def)

lemma runCallback_ok:
  "selfIx (runCallback g cb f) = selfIx f" "mesh (runCallback g cb f) = mesh f"
  "sound (runCallback g cb f) = sound f"
  by (cases cb; simp add: Let_def prim_defs doRespondVocalize_def sound_def moodOK_def)+

lemma poked_sound [simp]:
  "sound (setState SOCIAL (c\<lparr>socialTarget := t\<rparr>)) = sound c"
  "mesh (setState SOCIAL (c\<lparr>socialTarget := t\<rparr>)) = mesh c"
  by (simp_all add: setState_def sound_def moodOK_def)

lemma leave_length [simp]: "length (cloudfens (leave g f)) = length (cloudfens g)"
  by (simp add: leave_def Let_def split: option.splits)

lemma leave_sound:
  assumes "i < length (cloudfens g)"
  shows "sound (cloudfens (leave g f) ! i) =
           (if i = selfIx f then sound f else sound (cloudfens g ! i))"
  using assms by (simp add: leave_def Let_def nth_list_update split: option.splits)

lemma leave_mesh:
  assumes "i < length (cloudfens g)"
  shows "(mesh (cloudfens (leave g f) ! i) = None) =
           (if i = selfIx f then mesh f = None else mesh (cloudfens g ! i) = None)"
  using assms by (simp add: leave_def Let_def nth_list_update split: option.splits)

lemma call_sound:
  assumes "call g k m = Inr g'" and "i < length (cloudfens g)"
    and "sound (cloudfens g ! i)"
    and "\<And>f'. m (enter g k) = Inr f' \<Longrightarrow>
            selfIx f' = k \<and> (sound (cloudfens g ! k) \<longrightarrow> sound f')"
  shows "length (cloudfens g') = length (cloudfens g) \<and> sound (cloudfens g' ! i)"
proof (cases "k < length (cloudfens g)")
  case False
  with assms(1,3) show ?thesis by (simp add: call_def)
next
  case True
  with assms(1) obtain f' where f': "m (enter g k) = Inr f'" and g': "g' = leave g f'"
    by (auto simp: call_def split: sum.splits)
  from assms(4) [OF f'] assms(2,3) show ?thesis
    by (auto simp: g' leave_sound)
qed

lemma call_total:
  assumes "list_all (\<lambda>c. mesh c \<noteq> None) (cloudfens g)"
    and "\<And>f. mesh f \<noteq> None \<Longrightarrow> \<exists>f'. m f = Inr f'"
    and "\<And>f f'. m f = Inr f' \<Longrightarrow> (mesh f' = None) = (mesh f = None)"
  shows "\<exists>g'. call g k m = Inr g' \<and> list_all (\<lambda>c. mesh c \<noteq> None) (cloudfens g')"
proof (cases "k < length (cloudfens g)")
  case False
  with assms(1) show ?thesis by (simp add: call_def)
next
  case True
  then have "mesh (enter g k) \<noteq> None"
    using assms(1) by (simp add: list_all_length del: not_None_eq)
  with assms(2) obtain f' where f': "m (enter g k) = Inr f'" by blast
  then have mf: "mesh f' \<noteq> None"
    using assms(3) [OF f'] \<open>mesh (enter g k) \<noteq> None\<close> by simp
  have "list_all (\<lambda>c. mesh c \<noteq> None) (cloudfens (leave g f'))"
    using assms(1) mf by (simp add: list_all_length leave_mesh del: not_None_eq)
  then show ?thesis using True f' by (simp add: call_def)
qed

lemma step_sound:
  assumes "step e g = Inr g'" and "validEvent e"
    and "i < length (cloudfens g)" and "sound (cloudfens g ! i)"
  shows "length (cloudfens g') = length (cloudfens g) \<and> sound (cloudfens g' ! i)"
proof (cases e)
  case (Update k now dt pp)
  with assms(1) have c: "call g k (update g now dt pp) = Inr g'" by simp
  show ?thesis
    using assms(2) Update
    by (intro call_sound [OF c assms(3,4)]) (auto dest: update_ok)
next
  case (StartPetting k now)
  with assms(1) have c: "call g k (startPetting g now) = Inr g'" by simp
  show ?thesis
    by (intro call_sound [OF c assms(3,4)]) (auto dest: startPetting_ok)
next
  case (EndPetting k duration)
  with assms(1) have c: "call g k (endPetting g duration) = Inr g'" by simp
  show ?thesis
    by (intro call_sound [OF c assms(3,4)]) (auto dest: endPetting_ok)
next
  case (OnStroke k now dx dy speed)
  with assms(1) have c: "call g k (onStroke g now dx dy speed) = Inr g'" by simp
  show ?thesis
    using assms(2) OnStroke
    by (intro call_sound [OF c assms(3,4)]) (auto dest: onStroke_ok)
next
  case (OnHoverStart k)
  with assms(1) have c: "call g k (\<lambda>f. Inr (onHoverStart f)) = Inr g'" by simp
  show ?thesis
    by (intro call_sound [OF c assms(3,4)]) (auto simp: plain_ok)
next
  case (OnHoverEnd k)
  with assms(1) have c: "call g k (\<lambda>f. Inr (onHoverEnd f)) = Inr g'" by simp
  show ?thesis
    by (intro call_sound [OF c assms(3,4)]) (auto simp: plain_ok)
next
  case (OnCalled k src)
  with assms(1) have c: "call g k (\<lambda>f. Inr (onCalled src f)) = Inr g'" by simp
  show ?thesis
    by (intro call_sound [OF c assms(3,4)]) (auto simp: plain_ok)
next
  case (Fire k)
  show ?thesis
  proof (cases "k < length (timers g)")
    case False
    with assms(1,4) Fire show ?thesis by simp
  next
    case True
    let ?cb = "snd (timers g ! k)"
    let ?g1 = "g\<lparr>timers := take k (timers g) @ drop (Suc k) (timers g)\<rparr>"
    from assms(1) Fire True
    have c: "call ?g1 (target ?cb) (\<lambda>f. Inr (runCallback ?g1 ?cb f)) = Inr g'"
      by (simp add: Let_def)
    have "length (cloudfens g') = length (cloudfens ?g1) \<and> sound (cloudfens g' ! i)"
      using assms(3,4) by (intro call_sound [OF c]) (auto simp: runCallback_ok)
    then show ?thesis by simp
  qed
qed

lemma step_total:
  assumes "list_all (\<lambda>c. mesh c \<noteq> None) (cloudfens g)"
  shows "\<exists>g'. step e g = Inr g' \<and> list_all (\<lambda>c. mesh c \<noteq> None) (cloudfens g')"
proof (cases e)
  case (Update k now dt pp)
  show ?thesis unfolding Update step.simps
    by (rule call_total [OF assms]) (auto intro: update_total dest: update_ok(2))
next
  case (StartPetting k now)
  show ?thesis unfolding StartPetting step.simps
    by (rule call_total [OF assms]) (auto intro: startPetting_total dest: startPetting_ok(2))
next
  case (EndPetting k duration)
  show ?thesis unfolding EndPetting step.simps
    by (rule call_total [OF assms]) (auto intro: endPetting_total dest: endPetting_ok(2))
next
  case (OnStroke k now dx dy speed)
  show ?thesis unfolding OnStroke step.simps
    by (rule call_total [OF assms]) (auto intro: onStroke_total dest: onStroke_ok(2))
next
  case (OnHoverStart k)
  show ?thesis unfolding OnHoverStart step.simps
    by (rule call_total [OF assms]) (auto simp: plain_ok)
next
  case (OnHoverEnd k)
  show ?thesis unfolding OnHoverEnd step.simps
    by (rule call_total [OF assms]) (auto simp: plain_ok)
next
  case (OnCalled k src)
  show ?thesis unfolding OnCalled step.simps
    by (rule call_total [OF assms]) (auto simp: plain_ok)
next
  case (Fire k)
  show ?thesis
  proof (cases "k < length (timers g)")
    case False
    with assms Fire show ?thesis by simp
  next
    case True
    let ?cb = "snd (timers g ! k)"
    let ?g1 = "g\<lparr>timers := take k (timers g) @ drop (Suc k) (timers g)\<rparr>"
    have a: "list_all (\<lambda>c. mesh c \<noteq> None) (cloudfens ?g1)" using assms by simp
    have "\<exists>g'. call ?g1 (target ?cb) (\<lambda>f. Inr (runCallback ?g1 ?cb f)) = Inr g' \<and>
               list_all (\<lambda>c. mesh c \<noteq> None) (cloudfens g')"
      by (rule call_total [OF a]) (auto simp: runCallback_ok)
    then show ?thesis using Fire True by (simp add: Let_def)
  qed
qed

lemma run_sound:
  assumes "run es g = Inr g'" and "list_all validEvent es"
    and "i < length (cloudfens g)" and "sound (cloudfens g ! i)"
  shows "length (cloudfens g') = length (cloudfens g) \<and> sound (cloudfens g' ! i)"
  using assms
proof (induction es arbitrary: g)
  case Nil
  then show ?case by simp
next
  case (Cons e es)
  from Cons.prems(1) obtain g1 where s: "step e g = Inr g1" and r: "run es g1 = Inr g'"
    by (auto split: sum.splits)
  from Cons.prems(2) have v: "validEvent e" "list_all validEvent es" by simp_all
  from step_sound [OF s v(1) Cons.prems(3,4)]
  have g1: "length (cloudfens g1) = length (cloudfens g)" "sound (cloudfens g1 ! i)"
    by simp_all
  from Cons.IH [OF r v(2)] g1 Cons.prems(3) show ?case by simp
qed

lemma run_total:
  assumes "list_all (\<lambda>c. mesh c \<noteq> None) (cloudfens g)"
  shows "\<exists>g'. run es g = Inr g'"
  using assms
proof (induction es arbitrary: g)
  case Nil
  then show ?case by simp
next
  case (Cons e es)
  from step_total [OF Cons.prems, of e] obtain g1
    where s: "step e g = Inr g1" and m: "list_all (\<lambda>c. mesh c \<noteq> None) (cloudfens g1)"
    by blast
  from Cons.IH [OF m] s show ?case by simp
qed

text \<open>
  C1, as the code has it. Take a creature whose happiness and three mood scalars are in
  \<open>[0, 1]\<close> and whose friendliness is not negative (the constructor draws it from
  \<open>[0.5, 1)\<close>), and any sequence of calls on the creatures of the game: \<open>update\<close>
  with a frame time in \<open>[0, 1]\<close>, \<open>onStroke\<close> with a speed that is not negative,
  \<open>startPetting\<close>, \<open>endPetting\<close>, \<open>onHoverStart\<close>, \<open>onHoverEnd\<close>,
  \<open>onCalled\<close>, and pending timers firing. If no call raises, the game has the same
  creatures afterwards and the happiness and the mood scalars of that creature are
  still in \<open>[0, 1]\<close>. And no call raises when every creature of the game has its
  mesh.
\<close>

theorem run_keeps_mood_in_range:
  "i < length (cloudfens g) \<and> sound (cloudfens g ! i) \<and> list_all validEvent es \<longrightarrow>
     (\<forall>g'. run es g = Inr g' \<longrightarrow>
        length (cloudfens g') = length (cloudfens g) \<and> moodOK (cloudfens g' ! i)) \<and>
     (list_all (\<lambda>c. mesh c \<noteq> None) (cloudfens g) \<longrightarrow> (\<exists>g'. run es g = Inr g'))"
proof (intro impI conjI allI)
  fix g'
  assume a: "i < length (cloudfens g) \<and> sound (cloudfens g ! i) \<and> list_all validEvent es"
    and r: "run es g = Inr g'"
  from a have "list_all validEvent es" "i < length (cloudfens g)" "sound (cloudfens g ! i)"
    by simp_all
  from run_sound [OF r this]
  show "length (cloudfens g') = length (cloudfens g)" "moodOK (cloudfens g' ! i)"
    by (simp_all add: sound_def)
next
  assume "list_all (\<lambda>c. mesh c \<noteq> None) (cloudfens g)"
  then show "\<exists>g'. run es g = Inr g'" by (rule run_total)
qed

theorem run_keeps_mood_in_range_witness:
  "\<exists>g'. run [StartPetting 0 1000, OnStroke 0 1001 0 0 5, Update 0 1016 (1 / 60) None,
            EndPetting 0 2, Fire 0] (worldOf [sheepAt 0 0]) = Inr g' \<and>
        length (cloudfens g') = 1 \<and> moodOK (cloudfens g' ! 0)"
  using run_keeps_mood_in_range
          [of 0 "worldOf [sheepAt 0 0]"
              "[StartPetting 0 1000, OnStroke 0 1001 0 0 5, Update 0 1016 (1 / 60) None,
            EndPetting 0 2, Fire 0]"]
  by (auto simp: sound_def moodOK_def simp del: run.simps)

lemma call_Inr:
  "k < length (cloudfens g) \<Longrightarrow> m (enter g k) = Inr f' \<Longrightarrow> call g k m = Inr (leave g f')"
  by (simp add: call_def)

lemma leave_fields [simp]:
  "effects (leave g f) = effects g" "audio (leave g f) = audio g"
  "rand (leave g f) = rand g" "rcur (leave g f) = rix f"
  by (simp_all add: leave_def Let_def)

lemma leave_self:
  "poke f = None \<Longrightarrow> selfIx f < length (cloudfens g) \<Longrightarrow>
     cloudfens (leave g f) ! selfIx f = cloudfen.truncate f"
  by (simp add: leave_def Let_def)

lemma startPetting_fields:
  assumes "mesh f \<noteq> None"
  shows "\<exists>f'. startPetting g now f = Inr f' \<and> isPetted f' \<and> happiness f' = happiness f \<and>
              personality f' = personality f \<and> mesh f' = mesh f \<and> selfIx f' = selfIx f \<and>
              poke f' = poke f \<and> state f' = (if state f = BLISS then BLISS else PETTED)"
  using assms by (simp add: startPetting_def Let_def prim_defs)

lemma onStroke_petted:
  assumes "isPetted f" and "effects g" and "\<not> rand g (rix f) < 0.2"
  shows "\<exists>f'. onStroke g now dx dy speed f = Inr f' \<and>
              happiness f' =
                min 1 (happiness f + min (speed * 0.02) 0.15 * friendliness (personality f)) \<and>
              selfIx f' = selfIx f \<and> poke f' = poke f"
  using assms by (simp add: onStroke_def Let_def prim_defs)

lemma stroke_after_petting:
  assumes "mesh c \<noteq> None" and "happiness c = 0" and "state c \<noteq> BLISS"
  shows "\<exists>g'. run [StartPetting 0 1000, OnStroke 0 1001 0 0 speed] (worldOf [c]) = Inr g' \<and>
              happiness (cloudfens g' ! 0) =
                min 1 (min (speed * 0.02) 0.15 * friendliness (personality c))"
proof -
  let ?g = "worldOf [c]"
  obtain f1 where f1: "startPetting ?g 1000 (enter ?g 0) = Inr f1" "isPetted f1"
      "happiness f1 = 0" "personality f1 = personality c"
      "selfIx f1 = 0" "poke f1 = None"
    using startPetting_fields [of "enter ?g 0" ?g 1000] assms by auto
  let ?g1 = "leave ?g f1"
  have s1: "step (StartPetting 0 1000) ?g = Inr ?g1"
    using f1(1) by (simp add: call_Inr)
  have c1: "cloudfens ?g1 ! 0 = cloudfen.truncate f1"
    using leave_self [of f1 ?g] f1(5,6) by simp
  have e1: "isPetted (enter ?g1 0)" "happiness (enter ?g1 0) = 0"
    "personality (enter ?g1 0) = personality c"
    by (simp_all add: c1 f1)
  obtain f2 where f2: "onStroke ?g1 1001 0 0 speed (enter ?g1 0) = Inr f2"
      "happiness f2 = min 1 (min (speed * 0.02) 0.15 * friendliness (personality c))"
      "selfIx f2 = 0" "poke f2 = None"
    using onStroke_petted [of "enter ?g1 0" ?g1 1001 0 0 speed] e1 by auto
  have s2: "step (OnStroke 0 1001 0 0 speed) ?g1 = Inr (leave ?g1 f2)"
    using f2(1) by (simp add: call_Inr)
  have "cloudfens (leave ?g1 f2) ! 0 = cloudfen.truncate f2"
    using leave_self [of f2 ?g1] f2(3,4) by simp
  then have "happiness (cloudfens (leave ?g1 f2) ! 0) =
               min 1 (min (speed * 0.02) 0.15 * friendliness (personality c))"
    using f2(2) by simp
  moreover have "run [StartPetting 0 1000, OnStroke 0 1001 0 0 speed] ?g = Inr (leave ?g1 f2)"
    using s1 s2 by simp
  ultimately show ?thesis by blast
qed

text \<open>
  C1 as stated fails: \<open>onStroke\<close> takes the speed as it comes. A creature with
  happiness 0 and friendliness 0.75 is petted and then stroked with speed \<open>-100\<close>:
  the bonus is \<open>min (-2) 0.15 * 0.75 = -1.5\<close> and the happiness is \<open>-1.5\<close>.
  The friendliness counts as well: were it \<open>-1\<close> (the constructor never draws
  that), a stroke of speed 5 would take the happiness from 0 to \<open>-0.1\<close>.
\<close>

theorem onStroke_negative_speed_counterexample:
  "moodOK (sheepAt 0 0) \<and>
   (\<exists>g'. run [StartPetting 0 1000, OnStroke 0 1001 0 0 (- 100)] (worldOf [sheepAt 0 0]) = Inr g' \<and>
         happiness (cloudfens g' ! 0) = - (3 / 2)) \<and>
   moodOK ((sheepAt 0 0)\<lparr>personality := (personality (sheepAt 0 0))\<lparr>friendliness := - 1\<rparr>\<rparr>) \<and>
   (\<exists>g'. run [StartPetting 0 1000, OnStroke 0 1001 0 0 5]
           (worldOf [(sheepAt 0 0)\<lparr>personality := (personality (sheepAt 0 0))\<lparr>friendliness := - 1\<rparr>\<rparr>]) = Inr g' \<and>
         happiness (cloudfens g' ! 0) = - (1 / 10))"
  using stroke_after_petting [of "sheepAt 0 0" "- 100"]
        stroke_after_petting [of "(sheepAt 0 0)\<lparr>personality := (personality (sheepAt 0 0))\<lparr>friendliness := - 1\<rparr>\<rparr>" 5]
  by (simp add: moodOK_def)

section \<open>Where the state can change\<close>

lemmas pushS =
  if_distrib [of state] option.case_distrib [of state] prod.case_distrib [of state]
  option_case_same case_prod_beta Let_def tick_def setTimeout_def standUp_def random_def

lemmas helpers_state [simp] =
  controlD [OF doBlink_keeps(2)] controlD [OF blinkChance_keeps(2)]
  controlD [OF doPawGround_keeps(2)] controlD [OF doSniff_keeps(2)]
  controlD [OF doVocalize_keeps(2)]

lemma pickLookTarget_state [simp]: "state (pickLookTarget g pp f) = state f"
  by (simp add: pickLookTarget_def pushS cong: if_cong option.case_cong)

lemma chooseWanderTarget_state [simp]: "state (chooseWanderTarget g f) = state f"
  by (simp add: chooseWanderTarget_def pushS cong: if_cong option.case_cong)

lemma gotoFavorite_state [simp]: "state (gotoFavorite f) = state f"
  by (simp add: gotoFavorite_def pushS cong: if_cong option.case_cong)

lemma lieDown_state [simp]: "state (lieDown dt f) = state f"
  by (simp add: lieDown_def pushS cong: if_cong)

lemma socialChatter_state [simp]: "state (socialChatter g f) = state f"
  by (simp add: socialChatter_def pushS cong: if_cong)

lemma socialInvite_state [simp]: "state (socialInvite g other f) = state f"
  by (simp add: socialInvite_def pushS cong: if_cong)

lemma socialNear_state [simp]: "state (socialNear g other f) = state f"
  by (simp add: socialNear_def)

lemma curiousApproach_state [simp]: "state (curiousApproach g p f) = state f"
  by (simp add: curiousApproach_def pushS cong: if_cong)

lemma curiousPaw_state [simp]: "state (curiousPaw g f) = state f"
  by (simp add: curiousPaw_def pushS cong: if_cong)

lemma curiousVocal_state [simp]: "state (curiousVocal g f) = state f"
  by (simp add: curiousVocal_def pushS cong: if_cong)

lemma chooseByRoll_unpetted [simp]:
  "state f \<noteq> PETTED \<Longrightarrow> state (chooseByRoll g pp roll c f) \<noteq> PETTED"
  by (simp add: chooseByRoll_def pushS)

lemma chooseNextBehavior_unpetted [simp]:
  "state f \<noteq> PETTED \<Longrightarrow> state (chooseNextBehavior g now pp f) \<noteq> PETTED"
  by (simp add: chooseNextBehavior_def pushS)

lemma idleMove_unpetted [simp]:
  "state f \<noteq> PETTED \<Longrightarrow> state (idleMove g pp f) \<noteq> PETTED"
  by (simp add: idleMove_def pushS split: option.split)

lemma updateIdle_unpetted [simp]:
  "state f \<noteq> PETTED \<Longrightarrow> state (updateIdle g now dt pp f) \<noteq> PETTED"
  by (simp add: updateIdle_def pushS)

lemma grazingTail_unpetted [simp]:
  "state f \<noteq> PETTED \<Longrightarrow> state (grazingTail g pp f) \<noteq> PETTED"
  by (simp add: grazingTail_def pushS)

lemma updateGrazing_unpetted:
  "updateGrazing g dt pp f = Inr f' \<Longrightarrow> state f \<noteq> PETTED \<Longrightarrow> state f' \<noteq> PETTED"
  by (auto simp: updateGrazing_def Let_def tick_def random_def split: if_splits option.splits)

lemma updateLooking_unpetted [simp]:
  "state f \<noteq> PETTED \<Longrightarrow> state (updateLooking dt f) \<noteq> PETTED"
  by (simp add: updateLooking_def pushS)

lemma updateStretching_unpetted [simp]:
  "state f \<noteq> PETTED \<Longrightarrow> state (updateStretching dt f) \<noteq> PETTED"
  by (simp add: updateStretching_def pushS)

lemma restingTail_unpetted [simp]:
  "state f \<noteq> PETTED \<Longrightarrow> state (restingTail g f) \<noteq> PETTED"
  by (simp add: restingTail_def pushS)

lemma updateResting_unpetted [simp]:
  "state f \<noteq> PETTED \<Longrightarrow> state (updateResting g dt pp f) \<noteq> PETTED"
  by (simp add: updateResting_def pushS)

lemma sleepingTail_unpetted [simp]:
  "state f \<noteq> PETTED \<Longrightarrow> state (sleepingTail g f) \<noteq> PETTED"
  by (simp add: sleepingTail_def pushS)

lemma updateSleeping_unpetted [simp]:
  "state f \<noteq> PETTED \<Longrightarrow> state (updateSleeping g dt pp f) \<noteq> PETTED"
  by (simp add: updateSleeping_def pushS split: option.split)

lemma socialTail_unpetted [simp]:
  "state f \<noteq> PETTED \<Longrightarrow> state (socialTail g f) \<noteq> PETTED"
  by (simp add: socialTail_def pushS)

lemma updateSocial_unpetted [simp]:
  "state f \<noteq> PETTED \<Longrightarrow> state (updateSocial g now dt f) \<noteq> PETTED"
  by (simp add: updateSocial_def pushS split: option.split)

lemma updateCurious_unpetted [simp]:
  "state f \<noteq> PETTED \<Longrightarrow> state (updateCurious g dt pp f) \<noteq> PETTED"
  by (simp add: updateCurious_def pushS split: option.split)

lemma updateCalled_unpetted [simp]:
  "state f \<noteq> PETTED \<Longrightarrow> state (updateCalled f) \<noteq> PETTED"
  by (simp add: updateCalled_def pushS split: option.split)

lemma updateFleeing_unpetted [simp]:
  "state f \<noteq> PETTED \<Longrightarrow> state (updateFleeing f) \<noteq> PETTED"
  by (simp add: updateFleeing_def pushS split: option.split)

lemma updateSwitch_unpetted:
  assumes "updateSwitch g now dt pp f = Inr f'" and "state f \<noteq> PETTED" and "state f \<noteq> BLISS"
  shows "state f' \<noteq> PETTED"
  using assms
  by (cases "state f") (auto simp: updateSwitch_def dest: updateGrazing_unpetted)

lemma update_unpetted:
  assumes "update g now dt pp f = Inr f'" and "state f \<noteq> PETTED" and "state f \<noteq> BLISS"
  shows "state f' \<noteq> PETTED"
proof -
  let ?h = "updateHead g now dt pp f"
  from assms(1) obtain f1 where s: "updateSwitch g now dt pp ?h = Inr f1"
    and f': "f' = updateTail g now dt pp f1"
    by (auto simp: update_Inr)
  have h: "state ?h \<noteq> PETTED" using assms(2) by (simp add: updateHead_state)
  show ?thesis
  proof (cases "state ?h = BLISS")
    case True
    then have "flees g pp f \<or> state f = BLISS" by (simp add: updateHead_state split: if_splits)
    then show ?thesis using True assms(3) by (auto simp: updateHead_state)
  next
    case False
    from updateSwitch_unpetted [OF s h False] show ?thesis by (simp add: f')
  qed
qed

lemma slowPet_state [simp]: "state (slowPet now dt f) = state f"
  by (simp add: slowPet_def)

lemma blissEnd_state:
  "state (blissEnd f) = (if \<not> isPetted f \<and> stateTimer f > 3 then IDLE else state f)"
  by (simp add: blissEnd_def)

lemma update_petted_state:
  assumes "update g now dt pp f = Inr f'" and "state f = PETTED"
  shows "state f' = (if happiness f > 0.8 \<and> isPetted f \<and> stateTimer f + dt > 2
                     then BLISS else PETTED)"
proof -
  let ?h = "updateHead g now dt pp f"
  have h: "state ?h = PETTED"
    using updateHead_held [of f g now dt pp] assms(2) by simp
  from assms have f': "f' = updateTail g now dt pp
                  (slowPet now dt
                     (if promotes ?h then setState BLISS (pettedPose ?h) else pettedPose ?h))"
    by (simp add: update_petted)
  have "state f' = (if promotes ?h then BLISS else PETTED)"
    unfolding f' using h by simp
  then show ?thesis
    unfolding promotes_updateHead [OF assms(2)] .
qed

lemma update_bliss_state:
  assumes "update g now dt pp f = Inr f'" and "state f = BLISS"
  shows "state f' = (if \<not> isPetted f \<and> stateTimer f + dt > 3 then IDLE else BLISS)"
proof -
  let ?h = "updateHead g now dt pp f"
  have h: "state ?h = BLISS" "stateTimer ?h = stateTimer f + dt"
    using updateHead_held [of f g now dt pp] assms(2) by simp_all
  from assms have f': "f' = updateTail g now dt pp
                  (blissEnd (if isPetted f \<and> effects g then tick (blissPose ?h)
                             else blissPose ?h))"
    by (simp add: update_bliss)
  have b: "state (blissPose ?h) = BLISS" "stateTimer (blissPose ?h) = stateTimer f + dt"
          "isPetted (blissPose ?h) = isPetted f"
    using h by (simp_all add: blissPose_def Let_def)
  show ?thesis
    unfolding f' using b by (simp add: blissEnd_state tick_def)
qed

section \<open>Who is drawn into company\<close>

lemmas social_kept [simp] = keepsD [OF socialChatter_keeps] keepsD [OF socialTail_keeps]

lemma socialChatter_socialTarget [simp]:
  "socialTarget (socialChatter g f) = socialTarget f"
  by (simp add: socialChatter_def if_distrib [of socialTarget] Let_def tick_def cong: if_cong)

lemma socialInvite_poke:
  "poke (socialInvite g other f) =
     (if state other = IDLE \<and> rand g (rix f) < 0.02 then socialTarget f else poke f)"
  by (simp add: socialInvite_def Let_def tick_def random_def)

lemma updateSocial_poke:
  assumes "poke (updateSocial g now dt f) = Some j" and "poke f = None" and "state f = SOCIAL"
  shows "j \<noteq> selfIx f \<and> j < length (cloudfens g) \<and> state (cloudfens g ! j) = IDLE"
  using assms
  by (auto simp: updateSocial_def Let_def partner_def socialNear_def socialInvite_poke
        setState_def split: option.splits if_splits)

lemma updateSwitch_poke:
  assumes "updateSwitch g now dt pp f = Inr f'" and "poke f' = Some j" and "poke f = None"
  shows "j \<noteq> selfIx f \<and> j < length (cloudfens g) \<and> state (cloudfens g ! j) = IDLE"
proof (cases "state f = SOCIAL")
  case True
  with assms show ?thesis by (auto simp: updateSwitch_def dest: updateSocial_poke)
next
  case False
  have "poke f' = poke f"
  proof (cases "state f")
    case GRAZING
    with assms(1) keepsD [OF updateGrazing_keeps, of g dt pp f f'] show ?thesis
      by (simp add: updateSwitch_def)
  next
    case PETTED
    with assms(1) updatePetted_keeps [of g now dt f f' 0] show ?thesis
      by (simp add: updateSwitch_def proj_defs)
  next
    case BLISS
    with assms(1) updateBliss_keeps [of g dt f f' 0] show ?thesis
      by (simp add: updateSwitch_def proj_defs)
  qed (use assms(1) False in \<open>auto simp: updateSwitch_def\<close>)
  with assms(2,3) show ?thesis by simp
qed

lemma update_poke:
  assumes "update g now dt pp f = Inr f'" and "poke f' = Some j" and "poke f = None"
  shows "j \<noteq> selfIx f \<and> j < length (cloudfens g) \<and> state (cloudfens g ! j) = IDLE"
proof -
  let ?h = "updateHead g now dt pp f"
  from assms(1) obtain f1 where s: "updateSwitch g now dt pp ?h = Inr f1"
    and f': "f' = updateTail g now dt pp f1"
    by (auto simp: update_Inr)
  have "poke f1 = Some j" using assms(2) by (simp add: f')
  from updateSwitch_poke [OF s this] assms(3) show ?thesis by simp
qed

section \<open>Into and out of petting\<close>

lemma leave_state:
  assumes "i < length (cloudfens g)"
    and "\<forall>j. poke f = Some j \<longrightarrow>
           j \<noteq> selfIx f \<and> j < length (cloudfens g) \<and> state (cloudfens g ! j) = IDLE"
  shows "state (cloudfens (leave g f) ! i) =
           (if i = selfIx f then state f
            else if poke f = Some i then SOCIAL else state (cloudfens g ! i))"
  using assms by (cases "poke f") (auto simp: leave_def Let_def nth_list_update)

lemma call_state:
  assumes "call g k m = Inr g'" and "i < length (cloudfens g)"
    and "\<And>f'. m (enter g k) = Inr f' \<Longrightarrow>
            selfIx f' = k \<and>
            (\<forall>j. poke f' = Some j \<longrightarrow>
               j \<noteq> k \<and> j < length (cloudfens g) \<and> state (cloudfens g ! j) = IDLE)"
  shows "length (cloudfens g') = length (cloudfens g) \<and>
         (state (cloudfens g' ! i) = state (cloudfens g ! i) \<or>
          state (cloudfens g ! i) = IDLE \<and> state (cloudfens g' ! i) = SOCIAL \<or>
          i = k \<and> (\<exists>f'. m (enter g i) = Inr f' \<and> state (cloudfens g' ! i) = state f'))"
proof (cases "k < length (cloudfens g)")
  case False
  with assms(1) show ?thesis by (simp add: call_def)
next
  case True
  with assms(1) obtain f' where f': "m (enter g k) = Inr f'" and g': "g' = leave g f'"
    by (auto simp: call_def split: sum.splits)
  from assms(3) [OF f'] have s: "selfIx f' = k"
    and p: "\<forall>j. poke f' = Some j \<longrightarrow>
              j \<noteq> selfIx f' \<and> j < length (cloudfens g) \<and> state (cloudfens g ! j) = IDLE"
    by simp_all
  have l: "length (cloudfens g') = length (cloudfens g)"
    by (simp add: g' leave_def Let_def split: option.splits)
  from leave_state [OF assms(2) p] s p f' l show ?thesis
    by (auto simp: g')
qed

lemma startPetting_state:
  assumes "startPetting g now f = Inr f'"
  shows "state f' = (if state f = BLISS then BLISS else PETTED) \<and>
         selfIx f' = selfIx f \<and> poke f' = poke f"
proof -
  have "case startPetting g now f of Inl e \<Rightarrow> True
        | Inr f' \<Rightarrow> state f' = (if state f = BLISS then BLISS else PETTED) \<and>
                    selfIx f' = selfIx f \<and> poke f' = poke f"
    by (simp add: startPetting_def Let_def prim_defs)
  with assms show ?thesis by simp
qed

lemma endPetting_state:
  "endPetting g duration f = Inr f' \<Longrightarrow>
     state f' = state f \<and> selfIx f' = selfIx f \<and> poke f' = poke f"
  by (auto simp: endPetting_def Let_def prim_defs split: if_splits)

lemma onStroke_state:
  "onStroke g now dx dy speed f = Inr f' \<Longrightarrow>
     state f' = state f \<and> selfIx f' = selfIx f \<and> poke f' = poke f"
  by (auto simp: onStroke_def Let_def prim_defs split: if_splits option.splits)

lemma plain_state:
  "state (onHoverStart f) = state f" "selfIx (onHoverStart f) = selfIx f"
  "poke (onHoverStart f) = poke f"
  "state (onHoverEnd f) = state f" "selfIx (onHoverEnd f) = selfIx f"
  "poke (onHoverEnd f) = poke f"
  "state (onCalled src f) = state f" "selfIx (onCalled src f) = selfIx f"
  "poke (onCalled src f) = poke f"
  by (simp_all add: onHoverStart_def onHoverEnd_def onCalled_def Let_def prim_defs)

lemma runCallback_state:
  "selfIx (runCallback g cb f) = selfIx f" "poke (runCallback g cb f) = poke f"
  "state (runCallback g cb f) =
     (case cb of
        EndPettingIdle i \<Rightarrow> if state f = PETTED then IDLE else state f
      | CalledResponse i src dir \<Rightarrow>
          if rand g (rix f) > shyness (personality f) * 0.5 then CALLED else CURIOUS
      | _ \<Rightarrow> state f)"
  by (cases cb; simp add: Let_def prim_defs doRespondVocalize_def)+

lemma step_state:
  assumes "step e g = Inr g'" and "i < length (cloudfens g)"
  shows "length (cloudfens g') = length (cloudfens g) \<and>
         (state (cloudfens g' ! i) = state (cloudfens g ! i) \<or>
          state (cloudfens g ! i) = IDLE \<and> state (cloudfens g' ! i) = SOCIAL \<or>
          (\<exists>now dt pp f'. e = Update i now dt pp \<and>
             update g now dt pp (enter g i) = Inr f' \<and> state (cloudfens g' ! i) = state f') \<or>
          (\<exists>now. e = StartPetting i now \<and>
             state (cloudfens g' ! i) = (if state (cloudfens g ! i) = BLISS then BLISS else PETTED)) \<or>
          (\<exists>k. e = Fire k \<and> k < length (timers g) \<and>
             (snd (timers g ! k) = EndPettingIdle i \<and> state (cloudfens g ! i) = PETTED \<and>
              state (cloudfens g' ! i) = IDLE \<or>
              (\<exists>src dir. snd (timers g ! k) = CalledResponse i src dir \<and>
                 (state (cloudfens g' ! i) = CALLED \<or> state (cloudfens g' ! i) = CURIOUS)))))"
proof (cases e)
  case (Update k now dt pp)
  with assms(1) have c: "call g k (update g now dt pp) = Inr g'" by simp
  have "length (cloudfens g') = length (cloudfens g) \<and>
         (state (cloudfens g' ! i) = state (cloudfens g ! i) \<or>
          state (cloudfens g ! i) = IDLE \<and> state (cloudfens g' ! i) = SOCIAL \<or>
          i = k \<and> (\<exists>f'. update g now dt pp (enter g i) = Inr f' \<and>
                        state (cloudfens g' ! i) = state f'))"
    by (rule call_state [OF c assms(2)]) (auto dest: update_ok(1) update_poke)
  with Update show ?thesis by auto
next
  case (StartPetting k now)
  with assms(1) have c: "call g k (startPetting g now) = Inr g'" by simp
  have "length (cloudfens g') = length (cloudfens g) \<and>
         (state (cloudfens g' ! i) = state (cloudfens g ! i) \<or>
          state (cloudfens g ! i) = IDLE \<and> state (cloudfens g' ! i) = SOCIAL \<or>
          i = k \<and> (\<exists>f'. startPetting g now (enter g i) = Inr f' \<and>
                        state (cloudfens g' ! i) = state f'))"
    by (rule call_state [OF c assms(2)]) (auto dest: startPetting_state)
  with StartPetting show ?thesis by (auto dest!: startPetting_state)
next
  case (EndPetting k duration)
  with assms(1) have c: "call g k (endPetting g duration) = Inr g'" by simp
  have "length (cloudfens g') = length (cloudfens g) \<and>
         (state (cloudfens g' ! i) = state (cloudfens g ! i) \<or>
          state (cloudfens g ! i) = IDLE \<and> state (cloudfens g' ! i) = SOCIAL \<or>
          i = k \<and> (\<exists>f'. endPetting g duration (enter g i) = Inr f' \<and>
                        state (cloudfens g' ! i) = state f'))"
    by (rule call_state [OF c assms(2)]) (auto dest: endPetting_state)
  then show ?thesis by (auto dest!: endPetting_state)
next
  case (OnStroke k now dx dy speed)
  with assms(1) have c: "call g k (onStroke g now dx dy speed) = Inr g'" by simp
  have "length (cloudfens g') = length (cloudfens g) \<and>
         (state (cloudfens g' ! i) = state (cloudfens g ! i) \<or>
          state (cloudfens g ! i) = IDLE \<and> state (cloudfens g' ! i) = SOCIAL \<or>
          i = k \<and> (\<exists>f'. onStroke g now dx dy speed (enter g i) = Inr f' \<and>
                        state (cloudfens g' ! i) = state f'))"
    by (rule call_state [OF c assms(2)]) (auto dest: onStroke_state)
  then show ?thesis by (auto dest!: onStroke_state)
next
  case (OnHoverStart k)
  with assms(1) have c: "call g k (\<lambda>f. Inr (onHoverStart f)) = Inr g'" by simp
  from call_state [OF c assms(2)] show ?thesis by (auto simp: plain_state)
next
  case (OnHoverEnd k)
  with assms(1) have c: "call g k (\<lambda>f. Inr (onHoverEnd f)) = Inr g'" by simp
  from call_state [OF c assms(2)] show ?thesis by (auto simp: plain_state)
next
  case (OnCalled k src)
  with assms(1) have c: "call g k (\<lambda>f. Inr (onCalled src f)) = Inr g'" by simp
  from call_state [OF c assms(2)] show ?thesis by (auto simp: plain_state)
next
  case (Fire k)
  show ?thesis
  proof (cases "k < length (timers g)")
    case False
    with assms(1) Fire show ?thesis by simp
  next
    case True
    let ?cb = "snd (timers g ! k)"
    let ?g1 = "g\<lparr>timers := take k (timers g) @ drop (Suc k) (timers g)\<rparr>"
    from assms(1) Fire True
    have c: "call ?g1 (target ?cb) (\<lambda>f. Inr (runCallback ?g1 ?cb f)) = Inr g'"
      by (simp add: Let_def)
    have i1: "i < length (cloudfens ?g1)" using assms(2) by simp
    have r: "length (cloudfens g') = length (cloudfens g) \<and>
         (state (cloudfens g' ! i) = state (cloudfens g ! i) \<or>
          state (cloudfens g ! i) = IDLE \<and> state (cloudfens g' ! i) = SOCIAL \<or>
          i = target ?cb \<and>
          state (cloudfens g' ! i) = state (runCallback ?g1 ?cb (enter ?g1 i)))"
      using call_state [OF c i1] by (auto simp: runCallback_state(1,2))
    show ?thesis
    proof (cases ?cb)
      case (EndPettingIdle j)
      with r Fire True show ?thesis
        by (auto simp: runCallback_state(3) simp del: runCallback.simps split: if_splits)
    next
      case (CalledResponse j src dir)
      with r Fire True show ?thesis
        by (auto simp: runCallback_state(3) simp del: runCallback.simps split: if_splits)
    qed (use r in \<open>auto simp: runCallback_state(3) simp del: runCallback.simps split: if_splits\<close>)
  qed
qed

lemma update_own_state:
  assumes "update g now dt pp (enter g i) = Inr f'"
  shows "(state (cloudfens g ! i) \<noteq> PETTED \<and> state (cloudfens g ! i) \<noteq> BLISS \<longrightarrow>
            state f' \<noteq> PETTED) \<and>
         (state (cloudfens g ! i) = PETTED \<longrightarrow>
            state f' = (if happiness (cloudfens g ! i) > 0.8 \<and> isPetted (cloudfens g ! i) \<and>
                           stateTimer (cloudfens g ! i) + dt > 2 then BLISS else PETTED)) \<and>
         (state (cloudfens g ! i) = BLISS \<longrightarrow>
            state f' = (if \<not> isPetted (cloudfens g ! i) \<and> stateTimer (cloudfens g ! i) + dt > 3
                        then IDLE else BLISS))"
  using update_unpetted [OF assms] update_petted_state [OF assms] update_bliss_state [OF assms]
  by simp

text \<open>
  C2, as the code has it, for one event of the world and any creature \<open>i\<close>. The
  creature enters \<open>petted\<close> only by a \<open>startPetting()\<close> on it. A creature in
  \<open>petted\<close> leaves that state only by its own \<open>update\<close> promoting it to \<open>bliss\<close>
  (\<open>isPetted\<close>, happiness above 0.8, \<open>stateTimer\<close> above 2 once the frame time is
  added), by the timer of \<open>endPetting\<close> firing (to \<open>idle\<close>), or by the timer of an
  \<open>onCalled\<close> firing (to \<open>called\<close> or \<open>curious\<close>). A creature in \<open>bliss\<close>
  leaves that state only by its own \<open>update\<close> when \<open>isPetted\<close> is false and
  \<open>stateTimer\<close> is above 3 once the frame time is added (to \<open>idle\<close>), or by the
  timer of an \<open>onCalled\<close> firing. Nothing else does it: not the flight, proximity or
  hover tests of \<open>update\<close>, not the \<open>update\<close> of another creature, not a handler.
\<close>

theorem petting_entered_and_left:
  "step e g = Inr g' \<and> i < length (cloudfens g) \<longrightarrow>
     length (cloudfens g') = length (cloudfens g) \<and>
     (state (cloudfens g ! i) \<noteq> PETTED \<and> state (cloudfens g' ! i) = PETTED \<longrightarrow>
        (\<exists>now. e = StartPetting i now)) \<and>
     (state (cloudfens g ! i) = PETTED \<and> state (cloudfens g' ! i) \<noteq> PETTED \<longrightarrow>
        (\<exists>now dt pp. e = Update i now dt pp \<and> state (cloudfens g' ! i) = BLISS \<and>
            isPetted (cloudfens g ! i) \<and> happiness (cloudfens g ! i) > 0.8 \<and>
            stateTimer (cloudfens g ! i) + dt > 2) \<or>
        (\<exists>k. e = Fire k \<and> k < length (timers g) \<and>
            snd (timers g ! k) = EndPettingIdle i \<and> state (cloudfens g' ! i) = IDLE) \<or>
        (\<exists>k src dir. e = Fire k \<and> k < length (timers g) \<and>
            snd (timers g ! k) = CalledResponse i src dir \<and>
            (state (cloudfens g' ! i) = CALLED \<or> state (cloudfens g' ! i) = CURIOUS))) \<and>
     (state (cloudfens g ! i) = BLISS \<and> state (cloudfens g' ! i) \<noteq> BLISS \<longrightarrow>
        (\<exists>now dt pp. e = Update i now dt pp \<and> state (cloudfens g' ! i) = IDLE \<and>
            \<not> isPetted (cloudfens g ! i) \<and> stateTimer (cloudfens g ! i) + dt > 3) \<or>
        (\<exists>k src dir. e = Fire k \<and> k < length (timers g) \<and>
            snd (timers g ! k) = CalledResponse i src dir \<and>
            (state (cloudfens g' ! i) = CALLED \<or> state (cloudfens g' ! i) = CURIOUS)))"
proof (intro impI)
  assume a: "step e g = Inr g' \<and> i < length (cloudfens g)"
  then have st: "step e g = Inr g'" and i: "i < length (cloudfens g)" by simp_all
  note s = step_state [OF st i]
  have l: "length (cloudfens g') = length (cloudfens g)" using s by simp
  have enter: "state (cloudfens g ! i) \<noteq> PETTED \<and> state (cloudfens g' ! i) = PETTED \<longrightarrow>
        (\<exists>now. e = StartPetting i now)"
    using s by (auto dest!: update_own_state split: if_splits)
  have petted: "state (cloudfens g ! i) = PETTED \<and> state (cloudfens g' ! i) \<noteq> PETTED \<longrightarrow>
        (\<exists>now dt pp. e = Update i now dt pp \<and> state (cloudfens g' ! i) = BLISS \<and>
            isPetted (cloudfens g ! i) \<and> happiness (cloudfens g ! i) > 0.8 \<and>
            stateTimer (cloudfens g ! i) + dt > 2) \<or>
        (\<exists>k. e = Fire k \<and> k < length (timers g) \<and>
            snd (timers g ! k) = EndPettingIdle i \<and> state (cloudfens g' ! i) = IDLE) \<or>
        (\<exists>k src dir. e = Fire k \<and> k < length (timers g) \<and>
            snd (timers g ! k) = CalledResponse i src dir \<and>
            (state (cloudfens g' ! i) = CALLED \<or> state (cloudfens g' ! i) = CURIOUS))"
    using s by (auto dest!: update_own_state split: if_splits)
  have bliss: "state (cloudfens g ! i) = BLISS \<and> state (cloudfens g' ! i) \<noteq> BLISS \<longrightarrow>
        (\<exists>now dt pp. e = Update i now dt pp \<and> state (cloudfens g' ! i) = IDLE \<and>
            \<not> isPetted (cloudfens g ! i) \<and> stateTimer (cloudfens g ! i) + dt > 3) \<or>
        (\<exists>k src dir. e = Fire k \<and> k < length (timers g) \<and>
            snd (timers g ! k) = CalledResponse i src dir \<and>
            (state (cloudfens g' ! i) = CALLED \<or> state (cloudfens g' ! i) = CURIOUS))"
    using s by (auto dest!: update_own_state split: if_splits)
  from l enter petted bliss
  show "length (cloudfens g') = length (cloudfens g) \<and>
     (state (cloudfens g ! i) \<noteq> PETTED \<and> state (cloudfens g' ! i) = PETTED \<longrightarrow>
        (\<exists>now. e = StartPetting i now)) \<and>
     (state (cloudfens g ! i) = PETTED \<and> state (cloudfens g' ! i) \<noteq> PETTED \<longrightarrow>
        (\<exists>now dt pp. e = Update i now dt pp \<and> state (cloudfens g' ! i) = BLISS \<and>
            isPetted (cloudfens g ! i) \<and> happiness (cloudfens g ! i) > 0.8 \<and>
            stateTimer (cloudfens g ! i) + dt > 2) \<or>
        (\<exists>k. e = Fire k \<and> k < length (timers g) \<and>
            snd (timers g ! k) = EndPettingIdle i \<and> state (cloudfens g' ! i) = IDLE) \<or>
        (\<exists>k src dir. e = Fire k \<and> k < length (timers g) \<and>
            snd (timers g ! k) = CalledResponse i src dir \<and>
            (state (cloudfens g' ! i) = CALLED \<or> state (cloudfens g' ! i) = CURIOUS))) \<and>
     (state (cloudfens g ! i) = BLISS \<and> state (cloudfens g' ! i) \<noteq> BLISS \<longrightarrow>
        (\<exists>now dt pp. e = Update i now dt pp \<and> state (cloudfens g' ! i) = IDLE \<and>
            \<not> isPetted (cloudfens g ! i) \<and> stateTimer (cloudfens g ! i) + dt > 3) \<or>
        (\<exists>k src dir. e = Fire k \<and> k < length (timers g) \<and>
            snd (timers g ! k) = CalledResponse i src dir \<and>
            (state (cloudfens g' ! i) = CALLED \<or> state (cloudfens g' ! i) = CURIOUS)))"
    by (intro conjI)
qed

lemma leave_timers: "timers (leave g f) = timers g @ pend f"
  by (simp add: leave_def Let_def)

lemma startPetting_frame:
  assumes "startPetting g now f = Inr f'"
  shows "pend f' = pend f" and "position f' = position f"
proof -
  have "case startPetting g now f of Inl e \<Rightarrow> True
        | Inr f' \<Rightarrow> pend f' = pend f \<and> position f' = position f"
    by (simp add: startPetting_def Let_def prim_defs)
  with assms show "pend f' = pend f" and "position f' = position f" by simp_all
qed

lemma petted_then_called:
  assumes "mesh c \<noteq> None" and "state c = IDLE"
    and "rand (worldOf [c]) = (\<lambda>n. 1 / 2)" and "shyness (personality c) < 1"
  shows "\<exists>g1 g2 g3.
           step (StartPetting 0 1000) (worldOf [c]) = Inr g1 \<and>
           state (cloudfens g1 ! 0) = PETTED \<and>
           step (OnCalled 0 src) g1 = Inr g2 \<and>
           state (cloudfens g2 ! 0) = PETTED \<and> isPetted (cloudfens g2 ! 0) \<and>
           length (timers g2) = 1 \<and>
           snd (timers g2 ! 0) = CalledResponse 0 src (subVectors src (position c)) \<and>
           step (Fire 0) g2 = Inr g3 \<and>
           state (cloudfens g3 ! 0) = CALLED"
proof -
  let ?g = "worldOf [c]"
  obtain f1 where f1: "startPetting ?g 1000 (enter ?g 0) = Inr f1" "isPetted f1"
      "personality f1 = personality c" "selfIx f1 = 0" "poke f1 = None" "state f1 = PETTED"
    using startPetting_fields [of "enter ?g 0" ?g 1000] assms(1,2) by auto
  have "pend f1 = pend (enter ?g 0)" "position f1 = position (enter ?g 0)"
    by (rule startPetting_frame [OF f1(1)])+
  then have f1': "pend f1 = []" "position f1 = position c"
    by simp_all
  let ?g1 = "leave ?g f1"
  have s1: "step (StartPetting 0 1000) ?g = Inr ?g1"
    using f1(1) by (simp add: call_Inr)
  have c1: "cloudfens ?g1 ! 0 = cloudfen.truncate f1"
    using leave_self [of f1 ?g] f1(4,5) by simp
  have t1: "timers ?g1 = []" by (simp add: leave_timers f1')
  let ?cb = "CalledResponse 0 src (subVectors src (position c))"
  let ?f2 = "onCalled src (enter ?g1 0)"
  have f2: "state ?f2 = PETTED" "isPetted ?f2" "selfIx ?f2 = 0" "poke ?f2 = None"
       "personality ?f2 = personality c"
       "pend ?f2 = [(min (vlength (subVectors src (position c)) * 80) 400, ?cb)]"
    by (simp_all add: onCalled_def Let_def prim_defs c1 f1 f1')
  let ?g2 = "leave ?g1 ?f2"
  have s2: "step (OnCalled 0 src) ?g1 = Inr ?g2"
    by (simp add: call_def)
  have c2: "cloudfens ?g2 ! 0 = cloudfen.truncate ?f2"
    using leave_self [of ?f2 ?g1] f2(3,4) by simp
  have t2: "timers ?g2 = [(min (vlength (subVectors src (position c)) * 80) 400, ?cb)]"
    by (simp add: leave_timers f1' f2(6))
  let ?g2' = "?g2\<lparr>timers := []\<rparr>"
  let ?f3 = "runCallback ?g2' ?cb (enter ?g2' 0)"
  have r: "rand ?g2' = (\<lambda>n. 1 / 2)" using assms(3) by simp
  have f3: "state ?f3 = CALLED" "selfIx ?f3 = 0" "poke ?f3 = None"
    using assms(4) by (simp_all add: Let_def prim_defs r c2 f2)
  have s3: "step (Fire 0) ?g2 = Inr (leave ?g2' ?f3)"
    by (simp add: t2 Let_def call_def del: runCallback.simps)
  have c3: "cloudfens (leave ?g2' ?f3) ! 0 = cloudfen.truncate ?f3"
    using leave_self [of ?f3 ?g2'] f3(2,3) by (simp del: runCallback.simps)
  have "state (cloudfens ?g1 ! 0) = PETTED" by (simp add: c1 f1)
  moreover have "state (cloudfens ?g2 ! 0) = PETTED \<and> isPetted (cloudfens ?g2 ! 0)"
    by (simp add: c2 f2)
  moreover have "length (timers ?g2) = 1 \<and> snd (timers ?g2 ! 0) = ?cb"
    by (simp add: t2)
  moreover have "state (cloudfens (leave ?g2' ?f3) ! 0) = CALLED"
    using f3(1) by (simp add: c3 del: runCallback.simps)
  ultimately show ?thesis using s1 s2 s3 by blast
qed

theorem petting_entered_and_left_witness:
  "\<exists>g'. step (StartPetting 0 1000) (worldOf [sheepAt 0 0]) = Inr g' \<and>
        length (cloudfens g') = 1 \<and> state (cloudfens g' ! 0) = PETTED"
proof -
  obtain g1 where g1: "step (StartPetting 0 1000) (worldOf [sheepAt 0 0]) = Inr g1"
      "state (cloudfens g1 ! 0) = PETTED"
    using petted_then_called [of "sheepAt 0 0"] by (auto simp: fun_eq_iff)
  from petting_entered_and_left [of "StartPetting 0 1000" "worldOf [sheepAt 0 0]" g1 0] g1(1)
  have "length (cloudfens g1) = 1" by simp
  with g1 show ?thesis by blast
qed

text \<open>
  C2 as stated fails: a creature is petted (\<open>startPetting\<close>) and then called
  (\<open>onCalled\<close> lets a creature in \<open>petted\<close> through, and registers its timer). When
  that timer fires, with \<open>isPetted\<close> still true, no \<open>endPetting\<close> and no \<open>update\<close>
  in between, the creature goes from \<open>petted\<close> to \<open>called\<close>.
\<close>

theorem petted_then_called_counterexample:
  "\<exists>g1 g2 g3.
     step (StartPetting 0 1000) (worldOf [sheepAt 0 0]) = Inr g1 \<and>
     state (cloudfens g1 ! 0) = PETTED \<and>
     step (OnCalled 0 \<lparr>vx = 5, vy = 0, vz = 0\<rparr>) g1 = Inr g2 \<and>
     state (cloudfens g2 ! 0) = PETTED \<and> isPetted (cloudfens g2 ! 0) \<and>
     length (timers g2) = 1 \<and>
     snd (timers g2 ! 0) = CalledResponse 0 \<lparr>vx = 5, vy = 0, vz = 0\<rparr> \<lparr>vx = 5, vy = 0, vz = 0\<rparr> \<and>
     step (Fire 0) g2 = Inr g3 \<and>
     state (cloudfens g3 ! 0) = CALLED"
  using petted_then_called [of "sheepAt 0 0" "\<lparr>vx = 5, vy = 0, vz = 0\<rparr>"]
  by (simp add: fun_eq_iff subVectors_def)

end
